theory Spec2Isabelle
  imports Main "HOL-Library.Word"
begin

unbundle bit_operations_syntax

section \<open>Machine integers and shared types\<close>

type_synonym u8 = "8 word"
type_synonym u16 = "16 word"
type_synonym u32 = "32 word"
type_synonym u64 = "64 word"

text \<open>
  The C expression \<open>(x >> n) & m\<close> on \<open>uint64_t\<close> is \<open>drop_bit n x AND m\<close>;
  \<open>x << n\<close> is \<open>push_bit n x\<close> (bits shifted out of the word are lost).
\<close>


text \<open>
  An IP block as far as the decoders read it: \<open>ip->discoverable.maj\<close> and
  \<open>ip->discoverable.min\<close>.
\<close>

record ip_block =
  maj :: int
  minor :: int

section \<open>Field decoders (decode_pde_entry.c, decode_pte_entry.c)\<close>

text \<open>
  \<open>pde_fields_t\<close> and \<open>pte_fields_t\<close>: every field is a \<open>uint64_t\<close>. The set of
  fields is the set the sources assign and print.
\<close>

record pde_fields =
  pde_frag_size :: u64
  pde_pte_base_addr :: u64
  pde_valid :: u64
  pde_system :: u64
  pde_coherent :: u64
  pde_pte :: u64
  pde_further :: u64
  pde_tfs_addr :: u64
  pde_llc_noalloc :: u64
  pde_mtype :: u64
  pde_pa_rsvd :: u64
  pde_mall_reuse :: u64

record pte_fields =
  pte_valid :: u64
  pte_system :: u64
  pte_coherent :: u64
  pte_tmz :: u64
  pte_execute :: u64
  pte_read :: u64
  pte_write :: u64
  pte_fragment :: u64
  pte_page_base_addr :: u64
  pte_mtype :: u64
  pte_prt :: u64
  pte_pde :: u64
  pte_further :: u64
  pte_gcr :: u64
  pte_llc_noalloc :: u64
  pte_software :: u64
  pte_pa_rsvd :: u64
  pte_dcc :: u64
  pte_pte :: u64
  pte_pte_mask :: u64

text \<open>The initialiser \<open>= { 0 }\<close>.\<close>

definition pde_zero :: pde_fields where
  "pde_zero = \<lparr> pde_frag_size = 0, pde_pte_base_addr = 0, pde_valid = 0, pde_system = 0,
     pde_coherent = 0, pde_pte = 0, pde_further = 0, pde_tfs_addr = 0, pde_llc_noalloc = 0,
     pde_mtype = 0, pde_pa_rsvd = 0, pde_mall_reuse = 0 \<rparr>"

definition pte_zero :: pte_fields where
  "pte_zero = \<lparr> pte_valid = 0, pte_system = 0, pte_coherent = 0, pte_tmz = 0,
     pte_execute = 0, pte_read = 0, pte_write = 0, pte_fragment = 0, pte_page_base_addr = 0,
     pte_mtype = 0, pte_prt = 0, pte_pde = 0, pte_further = 0, pte_gcr = 0,
     pte_llc_noalloc = 0, pte_software = 0, pte_pa_rsvd = 0, pte_dcc = 0, pte_pte = 0,
     pte_pte_mask = 0 \<rparr>"

text \<open>
  The \<open>switch (ip->discoverable.maj)\<close> of \<open>umr_decode_pde_entry\<close>. There is no
  \<open>default\<close> case: any other major version leaves the zero-initialised record.
\<close>

definition decode_pde_switch :: "int \<Rightarrow> int \<Rightarrow> u64 \<Rightarrow> pde_fields" where
  "decode_pde_switch mj mn pde_entry =
    (if mj = 9 \<or> mj = 10 then
       (let f = pde_zero\<lparr>
              pde_frag_size := drop_bit 59 pde_entry AND 0x1F,
              pde_pte_base_addr := pde_entry AND 0xFFFFFFFFFFC0,
              pde_valid := pde_entry AND 1,
              pde_system := drop_bit 1 pde_entry AND 1,
              pde_coherent := drop_bit 2 pde_entry AND 1,
              pde_pte := drop_bit 54 pde_entry AND 1,
              pde_further := drop_bit 56 pde_entry AND 1 \<rparr>
        in if mj = 10 \<and> mn \<ge> 3
           then f\<lparr> pde_llc_noalloc := drop_bit 58 pde_entry AND 1 \<rparr>
           else f)
     else if mj = 11 then
       pde_zero\<lparr>
         pde_frag_size := drop_bit 59 pde_entry AND 0x1F,
         pde_pte_base_addr := pde_entry AND 0xFFFFFFFFFFC0,
         pde_valid := pde_entry AND 1,
         pde_system := drop_bit 1 pde_entry AND 1,
         pde_coherent := drop_bit 2 pde_entry AND 1,
         pde_mtype := drop_bit 48 pde_entry AND 7,
         pde_pte := drop_bit 54 pde_entry AND 1,
         pde_further := drop_bit 56 pde_entry AND 1,
         pde_tfs_addr := drop_bit 57 pde_entry AND 1,
         pde_llc_noalloc := drop_bit 58 pde_entry AND 1 \<rparr>
     else if mj = 12 then
       pde_zero\<lparr>
         pde_frag_size := drop_bit 58 pde_entry AND 0x1F,
         pde_pte_base_addr := pde_entry AND 0xFFFFFFFFFFC0,
         pde_valid := pde_entry AND 1,
         pde_system := drop_bit 1 pde_entry AND 1,
         pde_coherent := drop_bit 2 pde_entry AND 1,
         pde_pa_rsvd := drop_bit 48 pde_entry AND 0xF,
         pde_mall_reuse := drop_bit 54 pde_entry AND 3,
         pde_tfs_addr := drop_bit 56 pde_entry AND 1,
         pde_pte := drop_bit 63 pde_entry AND 1 \<rparr>
     else pde_zero)"

text \<open>
  The per-generation \<open>switch\<close> of \<open>umr_decode_pte_entry\<close>; it yields the fields and
  the local \<open>is_pde\<close> (initialised to 0, so 0 when no case matches).
\<close>

definition pte_common :: "u64 \<Rightarrow> pte_fields" where
  "pte_common pte_entry = pte_zero\<lparr>
     pte_valid := pte_entry AND 1,
     pte_system := drop_bit 1 pte_entry AND 1,
     pte_coherent := drop_bit 2 pte_entry AND 1,
     pte_tmz := drop_bit 3 pte_entry AND 1,
     pte_execute := drop_bit 4 pte_entry AND 1,
     pte_read := drop_bit 5 pte_entry AND 1,
     pte_write := drop_bit 6 pte_entry AND 1,
     pte_fragment := drop_bit 7 pte_entry AND 0x1F \<rparr>"

definition decode_pte_switch :: "int \<Rightarrow> int \<Rightarrow> u64 \<Rightarrow> pte_fields \<times> u64" where
  "decode_pte_switch mj mn pte_entry =
    (if mj = 9 then
       (let f = (pte_common pte_entry)\<lparr>
              pte_prt := drop_bit 51 pte_entry AND 1,
              pte_pde := drop_bit 54 pte_entry AND 1,
              pte_further := drop_bit 56 pte_entry AND 1,
              pte_mtype := drop_bit 57 pte_entry AND 3 \<rparr>
        in (f, pte_further f))
     else if mj = 10 then
       (let f = (pte_common pte_entry)\<lparr>
              pte_mtype := drop_bit 48 pte_entry AND 3,
              pte_prt := drop_bit 51 pte_entry AND 1,
              pte_pde := drop_bit 54 pte_entry AND 1,
              pte_further := drop_bit 56 pte_entry AND 1,
              pte_gcr := drop_bit 57 pte_entry AND 1 \<rparr>;
            f = (if mn \<ge> 3 then f\<lparr> pte_llc_noalloc := drop_bit 58 pte_entry AND 1 \<rparr> else f)
        in (f, pte_further f))
     else if mj = 11 then
       (let f = (pte_common pte_entry)\<lparr>
              pte_mtype := drop_bit 48 pte_entry AND 3,
              pte_prt := drop_bit 51 pte_entry AND 1,
              pte_software := drop_bit 52 pte_entry AND 3,
              pte_pde := drop_bit 54 pte_entry AND 1,
              pte_further := drop_bit 56 pte_entry AND 1,
              pte_gcr := drop_bit 57 pte_entry AND 1,
              pte_llc_noalloc := drop_bit 58 pte_entry AND 1 \<rparr>
        in (f, pte_further f))
     else if mj = 12 then
       (let f = (pte_common pte_entry)\<lparr>
              pte_pa_rsvd := drop_bit 48 pte_entry AND 0xF,
              pte_software := drop_bit 52 pte_entry AND 3,
              pte_mtype := drop_bit 54 pte_entry AND 3,
              pte_prt := drop_bit 56 pte_entry AND 1,
              pte_gcr := drop_bit 57 pte_entry AND 1,
              pte_dcc := drop_bit 58 pte_entry AND 1,
              pte_pte := drop_bit 63 pte_entry AND 1 \<rparr>
        in (f, if pte_pte f = 0 then 1 else 0))
     else (pte_zero, 0))"

text \<open>
  After the switch: the page base address, masked for a PDE (64-byte aligned) when
  \<open>is_pde\<close> is non-zero and for a PTE (4 KiB aligned) otherwise. This statement is
  outside the switch, so it also runs when no case matched.
\<close>

definition decode_pte_fields :: "int \<Rightarrow> int \<Rightarrow> u64 \<Rightarrow> pte_fields" where
  "decode_pte_fields mj mn pte_entry =
    (case decode_pte_switch mj mn pte_entry of (f, is_pde) \<Rightarrow>
       if is_pde \<noteq> 0
       then f\<lparr> pte_page_base_addr := pte_entry AND 0xFFFFFFFFFFC0 \<rparr>
       else f\<lparr> pte_page_base_addr := pte_entry AND 0xFFFFFFFFF000 \<rparr>)"

text \<open>
  What the decoders read of \<open>struct umr_asic\<close>: the table behind
  \<open>umr_find_ip_block(asic, name, instance)\<close> (that function is not among the sources; it
  is taken as a lookup that may fail) and \<open>asic->options.vm_partition\<close>.
  \<open>asic->err_msg\<close> prints a message: the model returns the messages printed.
\<close>

record decoder_asic =
  find_ip_block :: "string \<Rightarrow> int \<Rightarrow> ip_block option"
  options_vm_partition :: int

definition umr_decode_pde_entry :: "decoder_asic \<Rightarrow> u64 \<Rightarrow> pde_fields \<times> string list" where
  "umr_decode_pde_entry asic pde_entry =
    (case find_ip_block asic ''gfx'' (options_vm_partition asic) of
       None \<Rightarrow> (pde_zero, [''[BUG]: Cannot find a 'gfx' IP block in this ASIC''])
     | Some ip \<Rightarrow> (decode_pde_switch (maj ip) (minor ip) pde_entry, []))"

definition umr_decode_pte_entry :: "decoder_asic \<Rightarrow> u64 \<Rightarrow> pte_fields \<times> string list" where
  "umr_decode_pte_entry asic pte_entry =
    (case find_ip_block asic ''gfx'' (options_vm_partition asic) of
       None \<Rightarrow> (pte_zero, [''[BUG]: Cannot find a 'gfx' IP block in this ASIC''])
     | Some ip \<Rightarrow> (decode_pte_fields (maj ip) (minor ip) pte_entry, []))"

text \<open>
  Lines 1169-1175 of \<open>umr_access_vram_ai\<close>: whether the PTE just decoded has to be
  walked as a PDE. \<open>pte_is_pde = further && valid\<close>, and from GFX12 on it is also set
  when the \<open>pte\<close> flag is clear on a valid entry.
\<close>

definition pte_is_pde_of :: "int \<Rightarrow> pte_fields \<Rightarrow> bool" where
  "pte_is_pde_of mj f =
    (let p = (pte_further f \<noteq> 0 \<and> pte_valid f \<noteq> 0)
     in if mj \<ge> 12 \<and> pte_pte f = 0 \<and> pte_valid f \<noteq> 0 then True else p)"

text \<open>An ASIC whose only IP block is a \<open>gfx\<close> block of the given version.\<close>

definition gfx_asic :: "int \<Rightarrow> int \<Rightarrow> decoder_asic" where
  "gfx_asic mj mn =
     \<lparr> find_ip_block = (\<lambda>name inst. if name = ''gfx'' then Some \<lparr> maj = mj, minor = mn \<rparr> else None),
       options_vm_partition = - 1 \<rparr>"

section \<open>GFX9+ translation: address-space width and directory indices (access_vram_ai.c)\<close>

text \<open>
  A shift whose amount is a C \<open>int\<close>. C leaves a shift by a negative amount or by 64 or
  more undefined; the model then gives \<open>x\<close> shifted by \<open>nat n\<close>, and the properties proved
  below are stated for amounts within 0..63.
\<close>

definition shl64 :: "u64 \<Rightarrow> int \<Rightarrow> u64" where
  "shl64 x n = push_bit (nat n) x"

definition shr64 :: "u64 \<Rightarrow> int \<Rightarrow> u64" where
  "shr64 x n = drop_bit (nat n) x"

text \<open>Conversion of a \<open>uint64_t\<close> to \<open>int\<close>: the low 32 bits, read as two's complement.\<close>

definition u64_to_int :: "u64 \<Rightarrow> int" where
  "u64_to_int x = sint (ucast x :: u32)"

text \<open>The \<open>while (size_of_vm_bytes > 0)\<close> loop of \<open>log2_vm_size\<close>.\<close>

function log2_loop :: "u64 \<Rightarrow> u64 \<Rightarrow> u64" where
  "log2_loop size_of_vm_bytes num_leading_zeros =
     (if size_of_vm_bytes > 0
      then log2_loop (drop_bit 1 size_of_vm_bytes) (num_leading_zeros + 1)
      else num_leading_zeros)"
  by pat_completeness auto
termination
proof (relation "measure (\<lambda>(s, n). unat s)")
  show "wf (measure (\<lambda>(s :: u64, n :: u64). unat s))" by simp
next
  fix size_of_vm_bytes num_leading_zeros :: u64
  assume "0 < size_of_vm_bytes"
  then have "0 < unat size_of_vm_bytes" by (simp add: word_less_nat_alt)
  then have "unat size_of_vm_bytes div 2 < unat size_of_vm_bytes" by simp
  then show "((drop_bit 1 size_of_vm_bytes, num_leading_zeros + 1), size_of_vm_bytes, num_leading_zeros)
      \<in> measure (\<lambda>(s, n). unat s)"
    by (simp add: drop_bit_eq_div unat_div)
qed

definition log2_vm_size :: "u64 \<Rightarrow> u64 \<Rightarrow> u64" where
  "log2_vm_size page_table_start_addr page_table_end_addr =
    (let size_of_vm_bytes = page_table_end_addr - page_table_start_addr
     in if size_of_vm_bytes > 0xFFFFFFFFFFFFFFFF - 4096 then 64
        else (let size_of_vm_bytes = size_of_vm_bytes + 4096
              in if size_of_vm_bytes \<le> 1 then 0
                 else log2_loop (size_of_vm_bytes - 1) 0))"

text \<open>
  Lines 812-815: a page-table start or end address from its \<open>LO32\<close> and \<open>HI32\<close>
  registers, \<open>(uint64_t)lo << 12 | (uint64_t)hi << 44\<close>.
\<close>

definition page_table_addr :: "u32 \<Rightarrow> u32 \<Rightarrow> u64" where
  "page_table_addr lo32 hi32 = push_bit 12 (ucast lo32) OR push_bit 44 (ucast hi32)"

text \<open>
  Lines 999-1000. \<open>total_vm_bits\<close> is an \<open>int\<close>; \<open>page_table_block_size\<close> is a
  \<open>uint64_t\<close>, so the last subtraction is done in 64 bits and the result converted back.
\<close>

definition total_vm_bits_of :: "u64 \<Rightarrow> u64 \<Rightarrow> int" where
  "total_vm_bits_of page_table_start_addr page_table_end_addr =
     u64_to_int (log2_vm_size page_table_start_addr page_table_end_addr)"

definition top_pdb_bits_of :: "int \<Rightarrow> int \<Rightarrow> u64 \<Rightarrow> int" where
  "top_pdb_bits_of total_vm_bits page_table_depth page_table_block_size =
     u64_to_int (word_of_int (total_vm_bits
                   - 9 * ((if page_table_depth \<noteq> 0 then page_table_depth else 1) - 1))
                 - (page_table_block_size + 21))"

text \<open>Line 1003: the VA mask of the top-most PDB.\<close>

definition top_va_mask :: "int \<Rightarrow> int \<Rightarrow> u64" where
  "top_va_mask total_vm_bits top_pdb_bits =
     shl64 (shl64 1 top_pdb_bits - 1) (total_vm_bits - top_pdb_bits)"

text \<open>
  Lines 1027-1038: the selector into the current PDB and the VA mask of that level
  (the mask is replaced only below the top level).
\<close>

definition pde_amount_to_shift :: "int \<Rightarrow> int \<Rightarrow> int \<Rightarrow> int \<Rightarrow> int" where
  "pde_amount_to_shift total_vm_bits top_pdb_bits page_table_depth current_depth =
     (total_vm_bits - top_pdb_bits) - ((page_table_depth - current_depth) * 9)"

definition pde_index :: "int \<Rightarrow> int \<Rightarrow> int \<Rightarrow> int \<Rightarrow> u64 \<Rightarrow> u64" where
  "pde_index total_vm_bits top_pdb_bits page_table_depth current_depth address =
    (let amount_to_shift = pde_amount_to_shift total_vm_bits top_pdb_bits page_table_depth current_depth;
         pde_idx = shr64 address amount_to_shift
     in if current_depth \<noteq> page_table_depth then pde_idx AND 511 else pde_idx)"

definition pde_va_mask :: "int \<Rightarrow> int \<Rightarrow> int \<Rightarrow> int \<Rightarrow> u64 \<Rightarrow> u64" where
  "pde_va_mask total_vm_bits top_pdb_bits page_table_depth current_depth va_mask =
    (if current_depth \<noteq> page_table_depth
     then shl64 511 (pde_amount_to_shift total_vm_bits top_pdb_bits page_table_depth current_depth)
     else va_mask)"

section \<open>Shader programs, register pairs and the user-interface callbacks\<close>

text \<open>
  \<open>struct umr_shader_reg_pair\<close> (a linked list, here a list in list order) and
  \<open>struct umr_shaders_pgm\<close>, with the fields the stream readers assign.
\<close>

datatype shader_type =
  UMR_SHADER_PIXEL | UMR_SHADER_VERTEX | UMR_SHADER_COMPUTE | UMR_SHADER_HS
  | UMR_SHADER_GS | UMR_SHADER_ES | UMR_SHADER_LS

record umr_shader_reg_pair =
  rp_regname :: string
  rp_value :: u32
  rp_vmid :: u32
  rp_addr :: u64
  rp_used :: bool

record umr_shaders_pgm =
  pgm_vmid :: u32
  pgm_addr :: u64
  pgm_size :: u32
  pgm_type :: shader_type
  pgm_regs :: "umr_shader_reg_pair list"

text \<open>
  A call of one of the callbacks of \<open>struct umr_stream_decode_ui\<close>, with its arguments,
  or a message printed through \<open>asic->err_msg\<close>. The decoders below return the list of
  calls they make, in order.
\<close>

datatype ui_event =
    Start_ib u64 u32 u64 u32 u32 int
  | Start_opcode u64 u32 int u32 u32 u32 string u32 "u32 list"
  | Add_field u64 u32 string u64 int int
  | Add_shader u64 u32 umr_shaders_pgm
  | Add_data u64 u32 u64 u32 string u64
  | Unhandled u64 u32
  | Done
  | Err_msg string

fun is_start_ib :: "ui_event \<Rightarrow> bool" where
  "is_start_ib (Start_ib a v fa fv sz ty) = True"
| "is_start_ib e = False"

fun is_done :: "ui_event \<Rightarrow> bool" where
  "is_done Done = True"
| "is_done e = False"

text \<open>
  The shape of a trace: \<open>start_ib\<close> first, \<open>done\<close> last, and neither of them anywhere
  in between.
\<close>

definition inner_event :: "ui_event \<Rightarrow> bool" where
  "inner_event e = (\<not> is_start_ib e \<and> \<not> is_done e)"

definition ui_bracketed :: "ui_event list \<Rightarrow> bool" where
  "ui_bracketed evs =
     (case evs of
        [] \<Rightarrow> False
      | e # rest \<Rightarrow> is_start_ib e \<and> rest \<noteq> [] \<and> is_done (last rest)
                     \<and> list_all inner_event (butlast rest))"

text \<open>
  The state a packet decoder threads through its calls of \<open>fetch_word\<close>: the packet's
  \<open>invalid\<close> flag and the calls made so far.
\<close>

type_synonym fetch_state = "bool \<times> ui_event list"

text \<open>A trace grown by calls that are neither \<open>start_ib\<close> nor \<open>done\<close>.\<close>

definition extends_inner :: "ui_event list \<Rightarrow> ui_event list \<Rightarrow> bool" where
  "extends_inner evs evs' = (\<exists>new. evs' = evs @ new \<and> list_all inner_event new)"

text \<open>The macro \<open>BITS(x, a, b)\<close> of the stream readers: \<open>(x >> a) & ((1ULL << (b - a)) - 1)\<close>.\<close>

definition BITS :: "u32 \<Rightarrow> nat \<Rightarrow> nat \<Rightarrow> u64" where
  "BITS x a b = ucast (drop_bit a x) AND (push_bit (b - a) 1 - 1)"


section \<open>HSA/AQL packets (umr_packet_hsa.h, read_hsa_stream.c)\<close>

text \<open>
  \<open>struct umr_hsa_stream\<close>; the \<open>next\<close> pointers make a stream a list of packets.
  \<open>words\<close> points to an array whose length is the length of \<open>hsa_words\<close>;
  \<open>kernarg_data\<close> is kept as the pointer (0 for \<open>NULL\<close>) together with the words read.
\<close>

record hsa_stream =
  hsa_words :: "u32 list"
  hsa_nwords :: u32
  hsa_header :: u32
  hsa_type :: u32
  hsa_barrier :: u32
  hsa_acquire_fence_scope :: u32
  hsa_release_fence_scope :: u32
  hsa_invalid :: bool
  hsa_kernel_object :: "u32 list"
  hsa_kernel_object_va :: u64
  hsa_kernarg_va :: u64
  hsa_kernel_code_entry_byte_offset :: u64
  hsa_kernarg_size :: u32
  hsa_compute_pgm_rsrc1 :: u32
  hsa_compute_pgm_rsrc2 :: u32
  hsa_compute_pgm_rsrc3 :: u32
  hsa_kernarg_data :: u64
  hsa_shader :: "umr_shaders_pgm list"

text \<open>
  \<open>fetch_word\<close> of read\_hsa\_stream.c. An offset at or beyond \<open>nwords\<close> marks the
  packet invalid, prints the error once and yields 0. An offset below \<open>nwords\<close> reads
  \<open>words[off]\<close>; when the array is shorter than that the read is out of bounds
  (undefined in C), which the model reports as \<open>None\<close>.
\<close>

definition hsa_fetch_word :: "hsa_stream \<Rightarrow> fetch_state \<Rightarrow> nat \<Rightarrow> (u32 \<times> fetch_state) option" where
  "hsa_fetch_word stream st off =
    (case st of (bad, evs) \<Rightarrow>
      if unat (hsa_nwords stream) \<le> off then
        Some (0, (True,
                  if bad then evs
                  else evs @ [Err_msg ''[ERROR]: HSA decoding of type went out of bounds.'']))
      else if off < length (hsa_words stream) then Some (hsa_words stream ! off, (bad, evs))
      else None)"

text \<open>
  The fields of a packet, 16-bit words viewed through \<open>fetch_word\<close>: one word (as it is,
  or masked with 3), two words joined in 32 bits, four words joined in 64 bits. Each
  \<open>add_field\<close> call of the source is one entry of a table, in source order.
\<close>

datatype hsa_field = H16 string | H16m string | H32 string | H64 string

definition hsa_emit_field ::
  "hsa_stream \<Rightarrow> u64 \<Rightarrow> u32 \<Rightarrow> hsa_field \<Rightarrow> nat \<times> fetch_state \<Rightarrow> (nat \<times> fetch_state) option" where
  "hsa_emit_field stream ib_addr ib_vmid fld s =
    (case s of (i, st) \<Rightarrow>
      (case fld of
         H16 name \<Rightarrow>
           (case hsa_fetch_word stream st i of None \<Rightarrow> None
            | Some (w0, (bad, evs)) \<Rightarrow>
                Some (i + 1, (bad, evs @ [Add_field (ib_addr + ucast (2 * (of_nat i :: u32))) ib_vmid name
                                            (ucast w0) 10 (- 16)])))
       | H16m name \<Rightarrow>
           (case hsa_fetch_word stream st i of None \<Rightarrow> None
            | Some (w0, (bad, evs)) \<Rightarrow>
                Some (i + 1, (bad, evs @ [Add_field (ib_addr + ucast (2 * (of_nat i :: u32))) ib_vmid name
                                            (ucast (w0 AND 3)) 10 (- 16)])))
       | H32 name \<Rightarrow>
           (case hsa_fetch_word stream st i of None \<Rightarrow> None
            | Some (w0, st1) \<Rightarrow>
           (case hsa_fetch_word stream st1 (i + 1) of None \<Rightarrow> None
            | Some (w1, (bad, evs)) \<Rightarrow>
                Some (i + 2, (bad, evs @ [Add_field (ib_addr + ucast (2 * (of_nat i :: u32))) ib_vmid name
                                            (ucast (w0 OR push_bit 16 w1)) 10 (- 32)]))))
       | H64 name \<Rightarrow>
           (case hsa_fetch_word stream st i of None \<Rightarrow> None
            | Some (w0, st1) \<Rightarrow>
           (case hsa_fetch_word stream st1 (i + 1) of None \<Rightarrow> None
            | Some (w1, st2) \<Rightarrow>
           (case hsa_fetch_word stream st2 (i + 2) of None \<Rightarrow> None
            | Some (w2, st3) \<Rightarrow>
           (case hsa_fetch_word stream st3 (i + 3) of None \<Rightarrow> None
            | Some (w3, (bad, evs)) \<Rightarrow>
                Some (i + 4, (bad, evs @ [Add_field (ib_addr + ucast (2 * (of_nat i :: u32))) ib_vmid name
                        (ucast w0 OR push_bit 16 (ucast w1) OR push_bit 32 (ucast w2)
                           OR push_bit 48 (ucast w3)) 16 (- 64)]))))))))"

fun hsa_emit_fields ::
  "hsa_stream \<Rightarrow> u64 \<Rightarrow> u32 \<Rightarrow> hsa_field list \<Rightarrow> nat \<times> fetch_state \<Rightarrow> (nat \<times> fetch_state) option" where
  "hsa_emit_fields stream ib_addr ib_vmid [] s = Some s"
| "hsa_emit_fields stream ib_addr ib_vmid (fld # flds) s =
     (case hsa_emit_field stream ib_addr ib_vmid fld s of
        None \<Rightarrow> None
      | Some s' \<Rightarrow> hsa_emit_fields stream ib_addr ib_vmid flds s')"

definition hsa_kernel_dispatch_fields :: "hsa_field list" where
  "hsa_kernel_dispatch_fields =
    [H16m ''setup_dimensions'', H16 ''workgroup_size_x'', H16 ''workgroup_size_y'',
     H16 ''workgroup_size_z'', H16 ''reserved0'', H32 ''grid_size_x'', H32 ''grid_size_y'',
     H32 ''grid_size_z'', H32 ''private_segment_size'', H32 ''group_segment_size'',
     H64 ''kernel_object'', H64 ''kernarg_address'', H64 ''reserved2'',
     H64 ''completion_signal'']"

definition hsa_agent_dispatch_fields :: "hsa_field list" where
  "hsa_agent_dispatch_fields =
    [H16 ''type'', H32 ''reserved0'', H64 ''return_address'', H64 ''arg[0]'', H64 ''arg[1]'',
     H64 ''arg[2]'', H64 ''arg[3]'', H64 ''reserved2'', H64 ''completion_signal'']"

definition hsa_barrier_fields :: "hsa_field list" where
  "hsa_barrier_fields =
    [H16 ''reserved0'', H32 ''reserved1'', H64 ''dep_signal[0]'', H64 ''dep_signal[1]'',
     H64 ''dep_signal[2]'', H64 ''dep_signal[3]'', H64 ''dep_signal[4]'', H64 ''reserved2'',
     H64 ''completion_signal'']"

text \<open>\<open>STR_LOOKUP(hsa_types, type, "HSA_UNK")\<close>.\<close>

definition hsa_opcode_name :: "u32 \<Rightarrow> string" where
  "hsa_opcode_name t =
    (if t = 0 then ''HSA_VENDOR_SPECIFIC'' else if t = 1 then ''HSA_INVALID''
     else if t = 2 then ''HSA_KERNEL_DISPATCH'' else if t = 3 then ''HSA_BARRIER_AND''
     else if t = 4 then ''HSA_AGENT_DISPATCH'' else if t = 5 then ''HSA_BARRIER_OR''
     else ''HSA_UNK'')"

text \<open>
  What \<open>umr_hsa_decode_stream_opcodes\<close> reads of the ASIC: \<open>options.aql_heuristic\<close>,
  \<open>options.user_queue.state.active\<close> and the \<open>hqd_base_addr\<close> of the selected queue.
\<close>

record hsa_asic =
  aql_heuristic :: bool
  user_queue_active :: bool
  hqd_base_addr :: u64

definition hsa_start_opcode :: "hsa_stream \<Rightarrow> u64 \<Rightarrow> u32 \<Rightarrow> string \<Rightarrow> ui_event" where
  "hsa_start_opcode stream ib_addr ib_vmid name =
     Start_opcode ib_addr ib_vmid 0 (hsa_type stream) 0 (hsa_nwords stream) name
       (hsa_header stream) (hsa_words stream)"

text \<open>
  The four words at \<open>off\<close> joined in 64 bits, as the heuristic of case 1 reads them.
\<close>

definition hsa_fetch_u64 :: "hsa_stream \<Rightarrow> fetch_state \<Rightarrow> nat \<Rightarrow> (u64 \<times> fetch_state) option" where
  "hsa_fetch_u64 stream st off =
     (case hsa_fetch_word stream st off of None \<Rightarrow> None
      | Some (w0, st1) \<Rightarrow>
     (case hsa_fetch_word stream st1 (off + 1) of None \<Rightarrow> None
      | Some (w1, st2) \<Rightarrow>
     (case hsa_fetch_word stream st2 (off + 2) of None \<Rightarrow> None
      | Some (w2, st3) \<Rightarrow>
     (case hsa_fetch_word stream st3 (off + 3) of None \<Rightarrow> None
      | Some (w3, st4) \<Rightarrow>
          Some (ucast w0 OR push_bit 16 (ucast w1) OR push_bit 32 (ucast w2)
                  OR push_bit 48 (ucast w3), st4)))))"

text \<open>
  The \<open>switch (stream->type)\<close> for one packet; \<open>ib_addr\<close> is already past the header.
  Case 1 either reports \<open>HSA_INVALID\<close> or falls through to kernel dispatch.
\<close>

definition hsa_decode_switch ::
  "hsa_asic \<Rightarrow> hsa_stream \<Rightarrow> u64 \<Rightarrow> u32 \<Rightarrow> fetch_state \<Rightarrow> fetch_state option" where
  "hsa_decode_switch asic stream ib_addr ib_vmid st =
    (let fields = (\<lambda>flds st. map_option snd (hsa_emit_fields stream ib_addr ib_vmid flds (0, st)));
         invalid_pkt = (\<lambda>st. case st of (bad, evs) \<Rightarrow>
             Some (bad, evs @ [hsa_start_opcode stream (ib_addr - 2) ib_vmid ''HSA_INVALID'']))
     in if hsa_type stream = 1 then
          (if \<not> (aql_heuristic asic \<and> user_queue_active asic) then invalid_pkt st
           else
             (case hsa_fetch_u64 stream st 15 of None \<Rightarrow> None
              | Some (t64, st1) \<Rightarrow>
                if drop_bit 32 t64 \<noteq> drop_bit 32 (hqd_base_addr asic) then invalid_pkt st1
                else
                  (case hsa_fetch_u64 stream st1 19 of None \<Rightarrow> None
                   | Some (t64', (bad, evs)) \<Rightarrow>
                     if drop_bit 32 t64' \<noteq> drop_bit 32 (hqd_base_addr asic)
                     then invalid_pkt (bad, evs)
                     else fields hsa_kernel_dispatch_fields
                            (bad, evs @ [hsa_start_opcode stream (ib_addr - 2) ib_vmid
                                           ''HSA_KERNEL_DISPATCH (heuristic)'']))))
        else if hsa_type stream = 2 then fields hsa_kernel_dispatch_fields st
        else if hsa_type stream = 4 then fields hsa_agent_dispatch_fields st
        else if hsa_type stream = 3 \<or> hsa_type stream = 5 then fields hsa_barrier_fields st
        else Some st)"

text \<open>
  The body of the \<open>while\<close> loop for the packet at the head of the stream, and the loop.
  The result is the calls made and the packets not decoded; a packet found invalid stays
  at the head of what is returned, with its flag set.
\<close>

fun hsa_opcodes_loop ::
  "hsa_asic \<Rightarrow> hsa_stream list \<Rightarrow> u64 \<Rightarrow> u32 \<Rightarrow> u64 \<Rightarrow> ui_event list
     \<Rightarrow> (ui_event list \<times> hsa_stream list) option" where
  "hsa_opcodes_loop asic [] ib_addr ib_vmid opcodes evs = Some (evs, [])"
| "hsa_opcodes_loop asic (stream # next) ib_addr ib_vmid opcodes evs =
    (if opcodes = 0 \<or> hsa_nwords stream = 0 then Some (evs, stream # next)
     else
       (let evs1 = (if hsa_type stream \<noteq> 1
                    then evs @ [hsa_start_opcode stream ib_addr ib_vmid
                                  (hsa_opcode_name (hsa_type stream))]
                    else evs);
            ib_addr = ib_addr + 2
        in case hsa_decode_switch asic stream ib_addr ib_vmid (hsa_invalid stream, evs1) of
             None \<Rightarrow> None
           | Some (bad, evs2) \<Rightarrow>
               if bad then Some (evs2, stream\<lparr> hsa_invalid := True \<rparr> # next)
               else
                 (let evs3 =
                        (if hsa_shader stream \<noteq> [] then
                           evs2 @ map (Add_shader (ib_addr - 2) ib_vmid) (hsa_shader stream)
                             @ (if hsa_kernarg_data stream \<noteq> 0
                                then [Add_data (ib_addr - 2) ib_vmid (hsa_kernarg_data stream)
                                        (hsa_kernarg_size stream)
                                        ''UMR_DATABLOCK_AQL_KERNARG'' 0]
                                else [])
                         else evs2);
                      ib_addr = ib_addr + ucast (2 * (hsa_nwords stream - 1))
                  in hsa_opcodes_loop asic next ib_addr ib_vmid (opcodes - 1) evs3)))"

definition umr_hsa_decode_stream_opcodes ::
  "hsa_asic \<Rightarrow> hsa_stream list \<Rightarrow> u64 \<Rightarrow> u32 \<Rightarrow> u64
     \<Rightarrow> (ui_event list \<times> hsa_stream list) option" where
  "umr_hsa_decode_stream_opcodes asic stream ib_addr ib_vmid opcodes =
    (case hsa_opcodes_loop asic stream ib_addr ib_vmid opcodes [Start_ib ib_addr ib_vmid 0 0 0 0] of
       None \<Rightarrow> None
     | Some (evs, rest) \<Rightarrow> Some (evs @ [Done], rest))"

text \<open>
  The packets \<open>umr_hsa_decode_stream\<close> builds have \<open>nwords = 32\<close> and 31 words (the header
  is not copied), or are the empty first packet of an empty stream. The decoders of
  opcodes fetch offsets up to 30, so for such a packet no fetch is out of bounds.
\<close>

definition hsa_node_ok :: "hsa_stream \<Rightarrow> bool" where
  "hsa_node_ok n = (31 \<le> length (hsa_words n) \<or> unat (hsa_nwords n) \<le> length (hsa_words n))"

text \<open>A packet of a given type as the stream decoder builds it, all payload words zero.\<close>

definition hsa_zero_packet :: "u32 \<Rightarrow> hsa_stream" where
  "hsa_zero_packet t =
     \<lparr> hsa_words = replicate 31 0, hsa_nwords = 32, hsa_header = t, hsa_type = t,
       hsa_barrier = 0, hsa_acquire_fence_scope = 0, hsa_release_fence_scope = 0,
       hsa_invalid = False, hsa_kernel_object = [], hsa_kernel_object_va = 0,
       hsa_kernarg_va = 0, hsa_kernel_code_entry_byte_offset = 0, hsa_kernarg_size = 0,
       hsa_compute_pgm_rsrc1 = 0, hsa_compute_pgm_rsrc2 = 0, hsa_compute_pgm_rsrc3 = 0,
       hsa_kernarg_data = 0, hsa_shader = [] \<rparr>"

text \<open>The number of words a field takes.\<close>

fun hsa_field_width :: "hsa_field \<Rightarrow> nat" where
  "hsa_field_width (H16 n) = 1"
| "hsa_field_width (H16m n) = 1"
| "hsa_field_width (H32 n) = 2"
| "hsa_field_width (H64 n) = 4"

section \<open>UMSCH packets (read_umsch_stream.c)\<close>

text \<open>\<open>struct umr_umsch_stream\<close>, with the fields the decoder of opcodes reads.\<close>

record umsch_stream =
  um_type :: u32
  um_opcode :: u32
  um_nwords :: u32
  um_header_dw :: u32
  um_words :: "u32 list"
  um_invalid :: bool

definition umsch_fetch_word :: "umsch_stream \<Rightarrow> fetch_state \<Rightarrow> u32 \<Rightarrow> (u32 \<times> fetch_state) option" where
  "umsch_fetch_word stream st off =
    (case st of (bad, evs) \<Rightarrow>
      if um_nwords stream \<le> off then
        Some (0, (True,
                  if bad then evs
                  else evs @ [Err_msg ''[ERROR]: UMSCH decoding of opcode went out of bounds.'']))
      else if unat off < length (um_words stream) then Some (um_words stream ! unat off, (bad, evs))
      else None)"

text \<open>
  The \<open>add_field\<close> calls of one opcode, as a table in source order. \<open>m\<close> is the byte
  offset of the field in the packet; the word fetched is \<open>(m >> 2) - 1\<close>.
  \<open>U32\<close>: one word, then \<open>m += 4\<close>. \<open>U64\<close>: two words, then \<open>m += 8\<close>.
  \<open>UBits\<close>: a bit slice of the current word, \<open>m\<close> unchanged. \<open>UAdv\<close>: \<open>m += 4\<close>.
\<close>

datatype umsch_field = U32 string | U64 string | UBits string nat nat | UAdv

definition umsch_emit_field ::
  "umsch_stream \<Rightarrow> u64 \<Rightarrow> u32 \<Rightarrow> umsch_field \<Rightarrow> u32 \<times> fetch_state \<Rightarrow> (u32 \<times> fetch_state) option" where
  "umsch_emit_field stream ib_addr ib_vmid fld s =
    (case s of (m, st) \<Rightarrow>
      (case fld of
         U32 name \<Rightarrow>
           (case umsch_fetch_word stream st (drop_bit 2 m - 1) of None \<Rightarrow> None
            | Some (w0, (bad, evs)) \<Rightarrow>
                Some (m + 4, (bad, evs @ [Add_field (ib_addr + ucast m) ib_vmid name (ucast w0) 16 32])))
       | U64 name \<Rightarrow>
           (case umsch_fetch_word stream st (drop_bit 2 m - 1) of None \<Rightarrow> None
            | Some (w0, st1) \<Rightarrow>
           (case umsch_fetch_word stream st1 (drop_bit 2 m) of None \<Rightarrow> None
            | Some (w1, (bad, evs)) \<Rightarrow>
                Some (m + 8, (bad, evs @ [Add_field (ib_addr + ucast m) ib_vmid name
                                            (ucast w0 OR push_bit 32 (ucast w1)) 16 64]))))
       | UBits name a b \<Rightarrow>
           (case umsch_fetch_word stream st (drop_bit 2 m - 1) of None \<Rightarrow> None
            | Some (w0, (bad, evs)) \<Rightarrow>
                Some (m, (bad, evs @ [Add_field (ib_addr + ucast m) ib_vmid name (BITS w0 a b) 16 32])))
       | UAdv \<Rightarrow> Some (m + 4, st)))"

fun umsch_emit_fields ::
  "umsch_stream \<Rightarrow> u64 \<Rightarrow> u32 \<Rightarrow> umsch_field list \<Rightarrow> u32 \<times> fetch_state \<Rightarrow> (u32 \<times> fetch_state) option" where
  "umsch_emit_fields stream ib_addr ib_vmid [] s = Some s"
| "umsch_emit_fields stream ib_addr ib_vmid (fld # flds) s =
     (case umsch_emit_field stream ib_addr ib_vmid fld s of
        None \<Rightarrow> None
      | Some s' \<Rightarrow> umsch_emit_fields stream ib_addr ib_vmid flds s')"

text \<open>
  The opcodes of type 1 (\<open>UMSCH_API_TYPE_SCHEDULER\<close>): name and fields. The counts of the
  \<open>params\<close> block (1, 1, 2, 1, 8 and 4) are unrolled.
\<close>

definition umsch_fence_fields :: "umsch_field list" where
  "umsch_fence_fields = [U64 ''api_completion_fence_addr'', U32 ''api_completion_fence_value'']"

definition umsch_opcode_table :: "u32 \<Rightarrow> (string \<times> umsch_field list) option" where
  "umsch_opcode_table opc =
    (if opc = 0x00 then Some (''SET_HW_RESOURCES'',
       [U32 ''vmid_mask_mm_vcn'', U32 ''vmid_mask_mm_vpe'', U32 ''collaboration_mask_vpe'',
        U32 ''engine_mask'', U32 ''logging_vmid'', U32 ''vcn0_hqd_mask'', U32 ''vcn1_hqd_mask'',
        U32 ''vcn_hqd_mask'', U32 ''vcn_hqd_mask'', U32 ''vpe_hqd_mask'',
        U64 ''g_sch_ctx_gpu_mc_ptr'']
       @ replicate 8 (U32 ''mmhub_base'') @ [U32 ''mmhub_version'']
       @ replicate 8 (U32 ''osssys_base'')
       @ [U32 ''osssys_version'', U32 ''vcn_version'', U32 ''vpe_version'']
       @ umsch_fence_fields
       @ [UBits ''disable_reset'' 0 1, UBits ''disable_umsch_log'' 1 2,
          UBits ''enable_level_process_quantum_check'' 2 3, UBits ''is_vcn0_enabled'' 3 4,
          UBits ''is_vcn1_enabled'' 4 5, UBits ''use_rs64mem_for_proc_ctx_csa'' 5 6,
          UBits ''enable_umsch_stb'' 6 7, UBits ''reserved'' 7 31, UAdv])
     else if opc = 0x01 then Some (''SET_SCHEDULING_CONFIG'',
       replicate 4 (U64 ''grace_period_other_levels'')
       @ replicate 4 (U64 ''process_quantum_for_level'')
       @ replicate 4 (U64 ''process_grace_period_same_level'')
       @ [U32 ''normal_yield_percent''] @ umsch_fence_fields)
     else if opc = 0x02 then Some (''ADD_QUEUE'',
       [U32 ''process_id'', U64 ''page_table_base_addr'', U64 ''process_va_start'',
        U64 ''process_va_end'', U64 ''process_quantum'', U64 ''process_csa_addr'',
        U64 ''context_quantum'', U64 ''context_csa_addr'', U32 ''inprocess_context_priority'',
        U32 ''context_global_priority_level'', U32 ''doorbell_offset_0'',
        U32 ''doorbell_offset_1'',
        UBits ''vcn0Affinity'' 0 2, UBits ''vcn1Affinity'' 2 4, UBits ''reserved'' 4 31, UAdv,
        U64 ''mqd_addr'', U64 ''h_context'', U64 ''h_queue'', U32 ''engine_type'',
        U32 ''vm_context_cntl'',
        UBits ''is_context_suspended'' 0 1, UBits ''collaboration_mode'' 1 2,
        UBits ''mqd_type'' 2 4, UBits ''reserved'' 4 31, UAdv]
       @ umsch_fence_fields
       @ [U32 ''process_csa_array_index'', U32 ''context_csa_array_index'',
          U64 ''fence_signal_addr''])
     else if opc = 0x03 then Some (''REMOVE_QUEUE'',
       [U32 ''doorbell_offset_0'', U32 ''doorbell_offset_1'', U64 ''context_csa_addr'']
       @ umsch_fence_fields @ [U32 ''context_csa_array_index''])
     else if opc = 0x04 then Some (''PERFORM_YIELD'', [U32 ''dummy''] @ umsch_fence_fields)
     else if opc = 0x05 then Some (''SUSPEND'',
       [U64 ''context_csa_addr'', U64 ''suspend_fence_addr'', U32 ''suspend_fence_value'']
       @ umsch_fence_fields @ [U32 ''context_csa_array_index''])
     else if opc = 0x06 then Some (''RESUME'',
       [U32 ''resume_option'', U64 ''context_csa_addr'', U32 ''engine_type'']
       @ umsch_fence_fields @ [U32 ''context_csa_array_index''])
     else if opc = 0x07 then Some (''RESET'',
       [U32 ''reset_option'', U64 ''doorbell_offset_addr'', U32 ''engine_type'']
       @ umsch_fence_fields)
     else if opc = 0x08 then Some (''SET_LOG_BUFFER'',
       [U32 ''log_type'', U64 ''logging_buffer_addr'', U32 ''number_of_entries'',
        U32 ''interrupt_entry''] @ umsch_fence_fields)
     else if opc = 0x09 then Some (''CHANGE_CONTEXT_PRIORITY'',
       [U32 ''inprocess_context_priority'', U32 ''context_global_priority_level'',
        U64 ''context_quantum'', U64 ''context_csa_addr'']
       @ umsch_fence_fields @ [U32 ''context_csa_array_index''])
     else if opc = 0x0A then Some (''QUERY_SCHEDULER_STATUS'',
       [U32 ''subopcode''] @ umsch_fence_fields
       @ [U64 ''proc_csa_array_size_addr'', U64 ''ctx_csa_array_size_addr'',
          U64 ''healthy_addr'', U32 ''data[20]''])
     else if opc = 0x0B then Some (''UPDATE_AFFINITY'',
       [UBits ''vcn0Affinity'' 0 2, UBits ''vcn1Affinity'' 2 4, UBits ''reserved'' 4 31, UAdv,
        U64 ''context_csa_addr''] @ umsch_fence_fields @ [U32 ''context_csa_array_index''])
     else if opc = 0x0C then Some (''UPDATE_ROOT_PAGE_TABLE'',
       [U64 ''page_table_base_addr'', U64 ''process_csa_addr'', U32 ''process_csa_array_index'']
       @ umsch_fence_fields)
     else None)"

definition umsch_start_opcode :: "umsch_stream \<Rightarrow> u64 \<Rightarrow> u32 \<Rightarrow> string \<Rightarrow> ui_event" where
  "umsch_start_opcode stream ib_addr ib_vmid name =
     Start_opcode ib_addr ib_vmid (sint (um_type stream)) (um_opcode stream) 0 (um_nwords stream)
       name (um_header_dw stream) (um_words stream)"

text \<open>
  The \<open>while (stream && opcodes--)\<close> loop. \<open>has_unhandled\<close> says whether the
  \<open>unhandled\<close> callback of the user interface is set. A packet whose type is not 1 ends
  the loop after the \<open>unhandled\<close> call, and is returned as not decoded.
\<close>

fun umsch_opcodes_loop ::
  "bool \<Rightarrow> umsch_stream list \<Rightarrow> u64 \<Rightarrow> u32 \<Rightarrow> u64 \<Rightarrow> ui_event list
     \<Rightarrow> (ui_event list \<times> umsch_stream list) option" where
  "umsch_opcodes_loop has_unhandled [] ib_addr ib_vmid opcodes evs = Some (evs, [])"
| "umsch_opcodes_loop has_unhandled (stream # next) ib_addr ib_vmid opcodes evs =
    (if opcodes = 0 then Some (evs, stream # next)
     else if um_type stream = 1 then
       (case (case umsch_opcode_table (um_opcode stream) of
                Some (name, flds) \<Rightarrow>
                  map_option snd
                    (umsch_emit_fields stream ib_addr ib_vmid flds
                       (4, (um_invalid stream,
                            evs @ [umsch_start_opcode stream ib_addr ib_vmid name])))
              | None \<Rightarrow>
                  Some (um_invalid stream,
                    if um_nwords stream = 0 \<and> um_header_dw stream = 0
                    then evs @ [umsch_start_opcode stream ib_addr ib_vmid ''UMSCH_UNK'']
                    else if has_unhandled then evs @ [Unhandled ib_addr ib_vmid]
                    else evs)) of
          None \<Rightarrow> None
        | Some (bad, evs1) \<Rightarrow>
            if bad then Some (evs1, stream\<lparr> um_invalid := True \<rparr> # next)
            else umsch_opcodes_loop has_unhandled next
                   (ib_addr + ucast (um_nwords stream * 4)) ib_vmid (opcodes - 1) evs1)
     else Some (if has_unhandled then evs @ [Unhandled ib_addr ib_vmid] else evs,
                stream # next))"

text \<open>
  \<open>umr_umsch_decode_stream_opcodes\<close>: the size passed to \<open>start_ib\<close> is the sum of the
  \<open>nwords\<close> of the whole stream, in 32 bits.
\<close>

definition umr_umsch_decode_stream_opcodes ::
  "bool \<Rightarrow> umsch_stream list \<Rightarrow> u64 \<Rightarrow> u32 \<Rightarrow> u64 \<Rightarrow> u64 \<Rightarrow> u64
     \<Rightarrow> (ui_event list \<times> umsch_stream list) option" where
  "umr_umsch_decode_stream_opcodes has_unhandled stream ib_addr ib_vmid from_addr from_vmid opcodes =
    (let n = foldl (\<lambda>n os. n + um_nwords os) 0 stream
     in case umsch_opcodes_loop has_unhandled stream ib_addr ib_vmid opcodes
               [Start_ib ib_addr ib_vmid from_addr (ucast from_vmid) n 0] of
          None \<Rightarrow> None
        | Some (evs, rest) \<Rightarrow> Some (evs @ [Done], rest))"

text \<open>
  \<open>umr_umsch_decode_stream\<close> allocates \<open>nwords\<close> words for every packet it builds.
\<close>

definition umsch_node_ok :: "umsch_stream \<Rightarrow> bool" where
  "umsch_node_ok n = (unat (um_nwords n) \<le> length (um_words n))"

text \<open>A packet with the given type, opcode and payload words.\<close>

definition umsch_packet :: "u32 \<Rightarrow> u32 \<Rightarrow> u32 list \<Rightarrow> umsch_stream" where
  "umsch_packet ty opc ws =
     \<lparr> um_type = ty, um_opcode = opc, um_nwords = of_nat (length ws),
       um_header_dw = ty OR push_bit 4 opc, um_words = ws, um_invalid = False \<rparr>"

section \<open>PM4 packets (read_pm4_stream.c)\<close>

text \<open>
  What can keep a call from returning a result: the recursion budget of the model is used
  up (the source recurses into indirect buffers without a bound), \<open>memcpy\<close> reads past
  the end of the buffer it was given, an array is read or written past its end, a \<open>NULL\<close>
  pointer is dereferenced, or a variable is read that was never written.
\<close>

datatype fault =
  Out_of_fuel | Out_of_bounds_read | Out_of_bounds_write | Null_dereference | Uninitialised_read

text \<open>
  What the PM4 reader does besides building its result: messages through
  \<open>asic->err_msg\<close>, reads through \<open>umr_read_vram\<close> (partition, VMID, address, size in
  bytes) and calls of \<open>umr_compute_shader_size\<close> (partition, VMID, address).
\<close>

datatype io_event =
    Io_err_msg string
  | Io_read_vram int u32 u64 u32
  | Io_compute_shader_size int u32 u64

text \<open>
  What the reader uses of \<open>struct umr_asic\<close> and of the library. \<open>umr_reg_name\<close>,
  \<open>umr_read_vram\<close> and \<open>umr_compute_shader_size\<close> are not among the sources and are
  taken as given: \<open>umr_read_vram\<close> yields the words read, by index, or \<open>None\<close> when it
  returns a negative value. \<open>regname_size\<close> is \<open>sizeof(reg_pair->regname)\<close>,
  \<open>UMR_MM_HUB\<close> the constant of that name, \<open>family_le_vi\<close> is
  \<open>asic->family <= FAMILY_VI\<close>.
\<close>

record pm4_asic =
  no_follow_ib :: bool
  no_follow_chained_ib :: bool
  no_follow_shader :: bool
  enable_comp_shader :: bool
  enable_vs_shader :: bool
  enable_ps_shader :: bool
  enable_es_shader :: bool
  enable_gs_shader :: bool
  enable_hs_shader :: bool
  enable_ls_shader :: bool
  family_le_vi :: bool
  UMR_MM_HUB :: u32
  regname_size :: nat
  umr_reg_name :: "u64 \<Rightarrow> string"
  umr_read_vram :: "int \<Rightarrow> u32 \<Rightarrow> u64 \<Rightarrow> u32 \<Rightarrow> (nat \<Rightarrow> u32) option"
  umr_compute_shader_size :: "int \<Rightarrow> u32 \<Rightarrow> u64 \<Rightarrow> u32"

text \<open>
  \<open>struct umr_pm4_stream\<close>. The \<open>next\<close> pointers make a stream a list of packets (the
  empty list is \<open>NULL\<close>), \<open>ib\<close> is the stream of the indirect buffer the packet points to,
  \<open>prev\<close> and \<open>parent\<close> are determined by the position in the tree.
\<close>

record pm4_packet =
  pm_pkttype :: u32
  pm_pkt0off :: u32
  pm_opcode :: u32
  pm_header :: u32
  pm_n_words :: u32
  pm_words :: "u32 list"
  pm_ib_offset :: u64
  pm_invalid :: bool
  pm_ib_source_addr :: u64
  pm_ib_source_vmid :: u32
  pm_shader :: "umr_shaders_pgm list"

datatype pm4_stream = Pm4_stream pm4_packet "pm4_stream list"

fun pm4_pkt :: "pm4_stream \<Rightarrow> pm4_packet" where
  "pm4_pkt (Pm4_stream ps ib) = ps"

fun pm4_ib :: "pm4_stream \<Rightarrow> pm4_stream list" where
  "pm4_ib (Pm4_stream ps ib) = ib"

text \<open>A packet as \<open>calloc\<close> returns it.\<close>

definition pm4_zero_packet :: pm4_packet where
  "pm4_zero_packet =
     \<lparr> pm_pkttype = 0, pm_pkt0off = 0, pm_opcode = 0, pm_header = 0, pm_n_words = 0,
       pm_words = [], pm_ib_offset = 0, pm_invalid = False, pm_ib_source_addr = 0,
       pm_ib_source_vmid = 0, pm_shader = [] \<rparr>"

text \<open>
  The state \<open>parse_pm4\<close> works on: the packet, the list of register writes behind
  \<open>*reg_pairs\<close>, and what has been printed, read and computed so far.
\<close>

type_synonym pm4_state = "pm4_packet \<times> umr_shader_reg_pair list \<times> io_event list"

text \<open>
  \<open>fetch_word\<close> of read\_pm4\_stream.c. The stream decoder allocates \<open>n_words\<close> words for
  a packet, so an offset below \<open>n_words\<close> is inside \<open>words\<close>; the model yields 0 should
  the list be shorter.
\<close>

definition pm4_fetch_word :: "pm4_state \<Rightarrow> u32 \<Rightarrow> u32 \<times> pm4_state" where
  "pm4_fetch_word s off =
    (case s of (ps, regs, evs) \<Rightarrow>
      if pm_n_words ps \<le> off then
        (0, (ps\<lparr> pm_invalid := True \<rparr>, regs,
             if pm_invalid ps then evs
             else evs @ [Io_err_msg ''[ERROR]: PM4 decoding of opcode went out of bounds.'']))
      else (if unat off < length (pm_words ps) then pm_words ps ! unat off else 0, s))"

subsection \<open>The register tracker\<close>

text \<open>\<open>strstr(haystack, needle) != NULL\<close>: the needle occurs in the haystack.\<close>

primrec is_prefix :: "string \<Rightarrow> string \<Rightarrow> bool" where
  "is_prefix [] haystack = True"
| "is_prefix (c # needle) haystack =
     (case haystack of [] \<Rightarrow> False | d # rest \<Rightarrow> c = d \<and> is_prefix needle rest)"

fun strstr :: "string \<Rightarrow> string \<Rightarrow> bool" where
  "strstr [] needle = (needle = [])"
| "strstr (c # haystack) needle = (is_prefix needle (c # haystack) \<or> strstr haystack needle)"

text \<open>
  \<open>umr_shader_find_regpair\<close> and \<open>umr_shader_find_partial_regpair\<close> return a pointer to
  the first match; the model returns its index in the list.
\<close>

fun find_index_from :: "('a \<Rightarrow> bool) \<Rightarrow> 'a list \<Rightarrow> nat \<Rightarrow> nat option" where
  "find_index_from P [] i = None"
| "find_index_from P (x # xs) i = (if P x then Some i else find_index_from P xs (Suc i))"

definition umr_shader_find_regpair :: "umr_shader_reg_pair list \<Rightarrow> string \<Rightarrow> nat option" where
  "umr_shader_find_regpair head regname =
     find_index_from (\<lambda>p. rp_regname p = regname) head 0"

definition umr_shader_find_partial_regpair :: "umr_shader_reg_pair list \<Rightarrow> string \<Rightarrow> nat option" where
  "umr_shader_find_partial_regpair head regname =
     find_index_from (\<lambda>p. strstr (rp_regname p) regname) head 0"

text \<open>
  \<open>umr_shader_add_reg_pair\<close>: the write replaces an entry of the same name or is
  appended; \<open>snprintf\<close> keeps at most \<open>sizeof(regname) - 1\<close> characters of the name.
  (Allocation is taken to succeed.)
\<close>

definition umr_shader_add_reg_pair ::
  "pm4_asic \<Rightarrow> umr_shader_reg_pair list \<Rightarrow> string \<Rightarrow> u32 \<Rightarrow> u32 \<Rightarrow> u64 \<Rightarrow> umr_shader_reg_pair list" where
  "umr_shader_add_reg_pair asic head regname val ib_vmid ib_addr =
    (let reg_pair = \<lparr> rp_regname = take (regname_size asic - 1) regname, rp_value = val,
                       rp_vmid = ib_vmid, rp_addr = ib_addr, rp_used = False \<rparr>
     in case umr_shader_find_regpair head regname of
          Some i \<Rightarrow> head[i := reg_pair]
        | None \<Rightarrow> head @ [reg_pair])"

text \<open>
  \<open>umr_copy_regpairs\<close>: a copy of the list sorted by register name (\<open>qsort\<close> with
  \<open>strcmp\<close>; the order of entries with equal names is not determined by the source, the
  model keeps their list order).
\<close>

fun str_less :: "string \<Rightarrow> string \<Rightarrow> bool" where
  "str_less [] [] = False"
| "str_less [] (y # ys) = True"
| "str_less (x # xs) [] = False"
| "str_less (x # xs) (y # ys) =
     (of_char x < (of_char y :: nat) \<or> (x = y \<and> str_less xs ys))"

fun insert_regpair :: "umr_shader_reg_pair \<Rightarrow> umr_shader_reg_pair list \<Rightarrow> umr_shader_reg_pair list" where
  "insert_regpair p [] = [p]"
| "insert_regpair p (q # qs) =
     (if str_less (rp_regname p) (rp_regname q) then p # q # qs else q # insert_regpair p qs)"

definition umr_copy_regpairs :: "umr_shader_reg_pair list \<Rightarrow> umr_shader_reg_pair list" where
  "umr_copy_regpairs head = foldl (\<lambda>acc p. insert_regpair p acc) [] head"

subsection \<open>Shader discovery\<close>

text \<open>
  \<open>add_shader\<close>: a new program at the end of the packet's shader list. Its size is 1
  when shaders are not followed and computed by \<open>umr_compute_shader_size\<close> otherwise.
\<close>

definition add_shader ::
  "pm4_asic \<Rightarrow> pm4_state \<Rightarrow> u32 \<Rightarrow> u64 \<Rightarrow> int \<Rightarrow> shader_type \<Rightarrow> pm4_state" where
  "add_shader asic s vmid shader_addr vm_partition ty =
    (case s of (ps, regs, evs) \<Rightarrow>
      (let follow = \<not> no_follow_shader asic;
           pgm = \<lparr> pgm_vmid = vmid, pgm_addr = shader_addr,
                   pgm_size = (if follow then umr_compute_shader_size asic vm_partition vmid shader_addr
                               else 1),
                   pgm_type = ty, pgm_regs = umr_copy_regpairs regs \<rparr>
       in (ps\<lparr> pm_shader := pm_shader ps @ [pgm] \<rparr>, regs,
           if follow then evs @ [Io_compute_shader_size vm_partition vmid shader_addr] else evs)))"

text \<open>The table \<open>types[]\<close> of \<open>process_shaders\<close>: high register, low register, type.\<close>

definition shader_types :: "(string \<times> string \<times> shader_type) list" where
  "shader_types =
    [(''COMPUTE_PGM_HI'', ''COMPUTE_PGM_LO'', UMR_SHADER_COMPUTE),
     (''SPI_SHADER_PGM_HI_VS'', ''SPI_SHADER_PGM_LO_VS'', UMR_SHADER_VERTEX),
     (''SPI_SHADER_PGM_HI_PS'', ''SPI_SHADER_PGM_LO_PS'', UMR_SHADER_PIXEL),
     (''SPI_SHADER_PGM_HI_ES'', ''SPI_SHADER_PGM_LO_ES'', UMR_SHADER_ES),
     (''SPI_SHADER_PGM_HI_GS'', ''SPI_SHADER_PGM_LO_GS'', UMR_SHADER_GS),
     (''SPI_SHADER_PGM_HI_HS'', ''SPI_SHADER_PGM_LO_HS'', UMR_SHADER_HS),
     (''SPI_SHADER_PGM_HI_LS'', ''SPI_SHADER_PGM_LO_LS'', UMR_SHADER_LS)]"

definition shader_enabled :: "pm4_asic \<Rightarrow> shader_type \<Rightarrow> bool" where
  "shader_enabled asic ty =
    (case ty of
       UMR_SHADER_COMPUTE \<Rightarrow> enable_comp_shader asic
     | UMR_SHADER_VERTEX \<Rightarrow> enable_vs_shader asic
     | UMR_SHADER_PIXEL \<Rightarrow> enable_ps_shader asic
     | UMR_SHADER_ES \<Rightarrow> enable_es_shader asic
     | UMR_SHADER_GS \<Rightarrow> enable_gs_shader asic
     | UMR_SHADER_HS \<Rightarrow> enable_hs_shader asic
     | UMR_SHADER_LS \<Rightarrow> enable_ls_shader asic)"

text \<open>
  The body of the \<open>for\<close> loop of \<open>process_shaders\<close> for one row of the table, and the
  loop: row 0 alone for compute jobs, rows 1 to 6 otherwise.
\<close>

definition process_shader_type ::
  "pm4_asic \<Rightarrow> int \<Rightarrow> u32 \<Rightarrow> pm4_state \<Rightarrow> string \<times> string \<times> shader_type \<Rightarrow> pm4_state" where
  "process_shader_type asic vm_partition vmid s row =
    (case row of (hi_name, lo_name, ty) \<Rightarrow>
     (case s of (ps, regs, evs) \<Rightarrow>
      if \<not> shader_enabled asic ty then s
      else
        (case (umr_shader_find_partial_regpair regs hi_name,
               umr_shader_find_partial_regpair regs lo_name) of
           (Some hi, Some lo) \<Rightarrow>
             if rp_value (regs ! hi) \<noteq> 0 \<or> rp_value (regs ! lo) \<noteq> 0 then
               (let regs1 = regs[hi := (regs ! hi)\<lparr> rp_used := True \<rparr>];
                    regs2 = regs1[lo := (regs1 ! lo)\<lparr> rp_used := True \<rparr>];
                    addr = push_bit 40 (ucast (rp_value (regs ! hi)))
                             OR push_bit 8 (ucast (rp_value (regs ! lo)))
                in add_shader asic (ps, regs2, evs) vmid addr vm_partition ty)
             else s
         | _ \<Rightarrow> s)))"

definition process_shaders :: "pm4_asic \<Rightarrow> int \<Rightarrow> u32 \<Rightarrow> pm4_state \<Rightarrow> bool \<Rightarrow> pm4_state" where
  "process_shaders asic vm_partition vmid s compute_jobs =
     foldl (process_shader_type asic vm_partition vmid) s
       (if compute_jobs then take 1 shader_types else drop 1 shader_types)"

subsection \<open>Register writes of the SET opcodes\<close>

text \<open>
  One iteration of the \<open>for\<close> loop of \<open>SET_CONTEXT_REG\<close> and \<open>SET_UCONFIG_REG\<close>: the
  running register address is a \<open>uint64_t\<close> that is incremented.
\<close>

definition set_reg_step ::
  "pm4_asic \<Rightarrow> u32 \<Rightarrow> pm4_state \<times> u64 \<times> u64 \<Rightarrow> nat \<Rightarrow> pm4_state \<times> u64 \<times> u64" where
  "set_reg_step asic vmid st n =
    (case st of (s, addr, ib_addr) \<Rightarrow>
      (let regname = umr_reg_name asic addr
       in case pm4_fetch_word s (of_nat n) of (val, (ps, regs, evs)) \<Rightarrow>
            ((ps, umr_shader_add_reg_pair asic regs regname val vmid ib_addr, evs),
             addr + 1, ib_addr + 4)))"

definition set_reg ::
  "pm4_asic \<Rightarrow> u32 \<Rightarrow> u64 \<Rightarrow> pm4_state \<Rightarrow> u64 \<Rightarrow> pm4_state" where
  "set_reg asic vmid ib_addr s base =
    (case pm4_fetch_word s 0 of (w0, s1) \<Rightarrow>
      fst (foldl (set_reg_step asic vmid) (s1, BITS w0 0 16 + base, ib_addr + 4)
             [1 ..< unat (pm_n_words (fst s1))]))"

text \<open>
  \<open>SET_SH_REG\<close> and \<open>SET_SH_REG_INDEX\<close>: the base is a \<open>uint32_t\<close> and the register is
  \<open>reg_addr + n - 1\<close>.
\<close>

definition set_sh_reg_step ::
  "pm4_asic \<Rightarrow> u32 \<Rightarrow> u32 \<Rightarrow> pm4_state \<times> u64 \<Rightarrow> nat \<Rightarrow> pm4_state \<times> u64" where
  "set_sh_reg_step asic vmid reg_addr st n =
    (case st of (s, ib_addr) \<Rightarrow>
      (let regname = umr_reg_name asic (ucast (reg_addr + of_nat n - 1))
       in case pm4_fetch_word s (of_nat n) of (val, (ps, regs, evs)) \<Rightarrow>
            ((ps, umr_shader_add_reg_pair asic regs regname val vmid ib_addr, evs), ib_addr + 4)))"

definition set_sh_reg :: "pm4_asic \<Rightarrow> u32 \<Rightarrow> u64 \<Rightarrow> pm4_state \<Rightarrow> pm4_state" where
  "set_sh_reg asic vmid ib_addr s =
    (case pm4_fetch_word s 0 of (w0, s1) \<Rightarrow>
      fst (foldl (set_sh_reg_step asic vmid (ucast (BITS w0 0 16) + 0x2C00)) (s1, ib_addr + 4)
             [1 ..< unat (pm_n_words (fst s1))]))"

text \<open>
  The \<open>_PAIRS\<close> opcodes: \<open>for (n = 0; n < n_words; n += 2)\<close>, a register offset and its
  value per doublet.
\<close>

definition set_reg_pairs_step ::
  "pm4_asic \<Rightarrow> u32 \<Rightarrow> u64 \<Rightarrow> pm4_state \<times> u64 \<Rightarrow> nat \<Rightarrow> pm4_state \<times> u64" where
  "set_reg_pairs_step asic vmid base st n =
    (case st of (s, ib_addr) \<Rightarrow>
      (case pm4_fetch_word s (of_nat n) of (w, s1) \<Rightarrow>
        (let regname = umr_reg_name asic (base + BITS w 0 16)
         in case pm4_fetch_word s1 (of_nat n + 1) of (val, (ps, regs, evs)) \<Rightarrow>
              ((ps, umr_shader_add_reg_pair asic regs regname val vmid ib_addr, evs),
               ib_addr + 8))))"

definition set_reg_pairs :: "pm4_asic \<Rightarrow> u32 \<Rightarrow> u64 \<Rightarrow> pm4_state \<Rightarrow> u64 \<Rightarrow> pm4_state" where
  "set_reg_pairs asic vmid ib_addr s base =
     fst (foldl (set_reg_pairs_step asic vmid base) (s, ib_addr)
            (map (\<lambda>k. 2 * k) [0 ..< (unat (pm_n_words (fst s)) + 1) div 2]))"

text \<open>
  \<open>SET_SH_REG_PAIRS_PACKED(_N)\<close>: \<open>for (n = 1; n < n_words; n += 3)\<close>, two register
  offsets packed in one word, then their two values.
\<close>

definition set_reg_packed_half ::
  "pm4_asic \<Rightarrow> u32 \<Rightarrow> nat \<Rightarrow> pm4_state \<times> u64 \<Rightarrow> nat \<Rightarrow> pm4_state \<times> u64" where
  "set_reg_packed_half asic vmid n st m =
    (case st of (s, ib_addr) \<Rightarrow>
      (case pm4_fetch_word s (of_nat n) of (w, s1) \<Rightarrow>
        (let regname = umr_reg_name asic (0x2C00 + BITS w (16 * m) (16 * (m + 1)))
         in case pm4_fetch_word s1 (of_nat n + of_nat m + 1) of (val, (ps, regs, evs)) \<Rightarrow>
              ((ps, umr_shader_add_reg_pair asic regs regname val vmid ib_addr, evs),
               ib_addr + 4))))"

definition set_reg_packed_step ::
  "pm4_asic \<Rightarrow> u32 \<Rightarrow> pm4_state \<times> u64 \<Rightarrow> nat \<Rightarrow> pm4_state \<times> u64" where
  "set_reg_packed_step asic vmid st n =
    (case st of (s, ib_addr) \<Rightarrow>
       foldl (set_reg_packed_half asic vmid n) (s, ib_addr + 4) [0, 1])"

definition set_reg_packed :: "pm4_asic \<Rightarrow> u32 \<Rightarrow> u64 \<Rightarrow> pm4_state \<Rightarrow> pm4_state" where
  "set_reg_packed asic vmid ib_addr s =
     fst (foldl (set_reg_packed_step asic vmid) (s, ib_addr + 4)
            (map (\<lambda>k. 1 + 3 * k) [0 ..< (unat (pm_n_words (fst s)) + 1) div 3]))"

subsection \<open>Indirect buffers\<close>

text \<open>
  The result of decoding a buffer: the stream, the register writes and what was printed
  and read on the way.
\<close>

type_synonym pm4_decoded = "pm4_stream list \<times> umr_shader_reg_pair list \<times> io_event list"

text \<open>
  The recursive call \<open>umr_pm4_decode_stream(asic, vm_partition, vmid, addr, buf, size / 4,
  reg_pairs, ip_version)\<close> is a parameter here: VMID, address, buffer and register writes
  to what the call returns.
\<close>

type_synonym pm4_child_decoder =
  "u32 \<Rightarrow> u64 \<Rightarrow> u32 list \<Rightarrow> umr_shader_reg_pair list \<Rightarrow> fault + pm4_decoded"

text \<open>
  Lines 467-484 of \<open>parse_pm4\<close>, from the size guard on, with the address of the child
  buffer, its size in bytes and the third word of the packet as they were computed before.
  A child stream that comes back \<open>NULL\<close> is dereferenced by \<open>ps->ib->parent = ps\<close>.
\<close>

definition pm4_follow_ib ::
  "pm4_child_decoder \<Rightarrow> pm4_asic \<Rightarrow> int \<Rightarrow> u32 \<Rightarrow> pm4_state \<Rightarrow> u64 \<Rightarrow> u32
     \<Rightarrow> fault + (pm4_state \<times> pm4_stream list)" where
  "pm4_follow_ib decode asic vm_partition vmid s ib_addr size_bytes =
    (if size_bytes > 1024 * 1024 * 8 then Inr (s, [])
     else
       (case pm4_fetch_word s 2 of (w2, (ps, regs, evs)) \<Rightarrow>
         (let t = drop_bit 24 w2 AND 0xF;
              tvmid = (if t = 0 then vmid else t);
              evs1 = evs @ [Io_read_vram vm_partition tvmid ib_addr size_bytes]
          in case umr_read_vram asic vm_partition tvmid ib_addr size_bytes of
               None \<Rightarrow> Inr ((ps, regs, evs1 @ [Io_err_msg ''[ERROR]: Could not read IB'']), [])
             | Some buf \<Rightarrow>
                 (case decode tvmid ib_addr (map buf [0 ..< unat size_bytes div 4]) regs of
                    Inl e \<Rightarrow> Inl e
                  | Inr (ib, regs', evs') \<Rightarrow>
                      if ib = [] then Inl Null_dereference
                      else Inr ((ps\<lparr> pm_ib_source_addr := ib_addr, pm_ib_source_vmid := tvmid \<rparr>,
                                 regs', evs1 @ evs'), ib)))))"

text \<open>
  The case \<open>INDIRECT_BUFFER_CIK\<close> / \<open>INDIRECT_BUFFER_CONST\<close> of \<open>parse_pm4\<close>.
\<close>

definition pm4_indirect_buffer ::
  "pm4_child_decoder \<Rightarrow> pm4_asic \<Rightarrow> int \<Rightarrow> u32 \<Rightarrow> pm4_state
     \<Rightarrow> fault + (pm4_state \<times> pm4_stream list)" where
  "pm4_indirect_buffer decode asic vm_partition vmid s =
    (case (if \<not> no_follow_chained_ib asic \<and> pm_n_words (fst s) = 3
           then (case pm4_fetch_word s 2 of (w, s') \<Rightarrow> (BITS w 20 21 \<noteq> 0, s'))
           else (False, s)) of
       (follow_chained_ib, s0) \<Rightarrow>
         if \<not> no_follow_ib asic \<or> follow_chained_ib then
           (case pm4_fetch_word s0 0 of (w0, s1) \<Rightarrow>
            (case pm4_fetch_word s1 1 of (w1, s2) \<Rightarrow>
            (case pm4_fetch_word s2 2 of (w2, s3) \<Rightarrow>
              (let ib_addr = (ucast w0 AND NOT 3) OR push_bit 32 (ucast (w1 AND 0xFFFF));
                   size_bytes = (w2 AND (push_bit 20 1 - 1)) * 4
               in pm4_follow_ib decode asic vm_partition vmid s3 ib_addr size_bytes))))
         else Inr (s0, []))"

text \<open>
  \<open>parse_pm4\<close>: the switch on the opcode. The result is the state and the child stream
  attached to \<open>ps->ib\<close> (empty when none is attached).
\<close>

definition parse_pm4 ::
  "pm4_child_decoder \<Rightarrow> pm4_asic \<Rightarrow> int \<Rightarrow> u32 \<Rightarrow> u64 \<Rightarrow> pm4_state
     \<Rightarrow> fault + (pm4_state \<times> pm4_stream list)" where
  "parse_pm4 decode asic vm_partition vmid ib_addr s =
    (let opc = pm_opcode (fst s)
     in if opc \<in> {0x15, 0x16, 0xA7, 0xAA, 0xAD}
        then Inr (process_shaders asic vm_partition vmid s True, [])
        else if opc \<in> {0x4C, 0x4D, 0x25, 0x27, 0x2D, 0x38}
        then Inr (process_shaders asic vm_partition vmid s False, [])
        else if opc = 0x69 then Inr (set_reg asic vmid ib_addr s 0xA000, [])
        else if opc = 0x79 then Inr (set_reg asic vmid ib_addr s 0xC000, [])
        else if opc = 0xB8 then Inr (set_reg_pairs asic vmid ib_addr s 0xA000, [])
        else if opc = 0xBA then Inr (set_reg_pairs asic vmid ib_addr s 0x2C00, [])
        else if opc \<in> {0xBB, 0xBC, 0xBD} then Inr (set_reg_packed asic vmid ib_addr s, [])
        else if opc = 0xBE then Inr (set_reg_pairs asic vmid ib_addr s 0xC000, [])
        else if opc = 0x76 \<or> opc = 0x9B then Inr (set_sh_reg asic vmid ib_addr s, [])
        else if opc = 0x3F \<or> opc = 0x33
        then pm4_indirect_buffer decode asic vm_partition vmid s
        else Inr (s, []))"

subsection \<open>The stream decoder\<close>

text \<open>The local \<open>uvd_ib\<close> of \<open>umr_pm4_decode_stream\<close>.\<close>

record uvd_ib =
  uvd_n :: u32
  uvd_size :: u32
  uvd_vmid :: u32
  uvd_addr :: u64

definition uvd_zero :: uvd_ib where
  "uvd_zero = \<lparr> uvd_n = 0, uvd_size = 0, uvd_vmid = 0, uvd_addr = 0 \<rparr>"

text \<open>
  The type-0 branch of the loop: register writes that announce a UVD indirect buffer are
  collected, and once all of them were seen the buffer is read and decoded.
\<close>

definition pm4_uvd_collect :: "pm4_asic \<Rightarrow> pm4_state \<Rightarrow> uvd_ib \<Rightarrow> pm4_state \<times> uvd_ib" where
  "pm4_uvd_collect asic s uvd =
    (let name = umr_reg_name asic (ucast (pm_pkt0off (fst s)));
         r = (if strstr name ''mmUVD_LMI_RBC_IB_VMID'' then
                (case pm4_fetch_word s 0 of (w, s') \<Rightarrow>
                   (s', uvd\<lparr> uvd_vmid := w OR (if family_le_vi asic then 0 else UMR_MM_HUB asic),
                              uvd_n := uvd_n uvd OR 1 \<rparr>))
              else if strstr name ''mmUVD_LMI_RBC_IB_64BIT_BAR_LOW'' then
                (case pm4_fetch_word s 0 of (w, s') \<Rightarrow>
                   (s', uvd\<lparr> uvd_addr := uvd_addr uvd OR ucast w, uvd_n := uvd_n uvd OR 2 \<rparr>))
              else if strstr name ''mmUVD_LMI_RBC_IB_64BIT_BAR_HIGH'' then
                (case pm4_fetch_word s 0 of (w, s') \<Rightarrow>
                   (s', uvd\<lparr> uvd_addr := uvd_addr uvd OR push_bit 32 (ucast w),
                              uvd_n := uvd_n uvd OR 4 \<rparr>))
              else if strstr name ''mmUVD_RBC_IB_SIZE'' then
                (case pm4_fetch_word s 0 of (w, s') \<Rightarrow>
                   (s', uvd\<lparr> uvd_size := w * 4, uvd_n := uvd_n uvd OR 8 \<rparr>))
              else (s, uvd))
     in case r of (s', uvd') \<Rightarrow>
          if uvd_n uvd' = 14 then (s', uvd'\<lparr> uvd_vmid := 0, uvd_n := 15 \<rparr>) else (s', uvd'))"

definition pm4_uvd ::
  "pm4_child_decoder \<Rightarrow> pm4_asic \<Rightarrow> int \<Rightarrow> pm4_state \<Rightarrow> uvd_ib
     \<Rightarrow> fault + ((pm4_state \<times> pm4_stream list) \<times> uvd_ib)" where
  "pm4_uvd decode asic vm_partition s uvd =
    (case pm4_uvd_collect asic s uvd of (s1, uvd1) \<Rightarrow>
      if \<not> no_follow_ib asic \<and> uvd_n uvd1 = 15 then
        (case s1 of (ps, regs, evs) \<Rightarrow>
          (let evs1 = evs @ [Io_read_vram vm_partition (uvd_vmid uvd1) (uvd_addr uvd1) (uvd_size uvd1)]
           in case umr_read_vram asic vm_partition (uvd_vmid uvd1) (uvd_addr uvd1) (uvd_size uvd1) of
                None \<Rightarrow>
                  Inr (((ps, regs, evs1 @ [Io_err_msg ''[ERROR]: Could not read IB'']), []), uvd_zero)
              | Some buf \<Rightarrow>
                  (case decode (uvd_vmid uvd1) (uvd_addr uvd1)
                          (map buf [0 ..< unat (uvd_size uvd1) div 4]) regs of
                     Inl e \<Rightarrow> Inl e
                   | Inr (ib, regs', evs') \<Rightarrow>
                       if ib = [] then Inl Null_dereference
                       else Inr (((ps\<lparr> pm_ib_source_addr := uvd_addr uvd1,
                                        pm_ib_source_vmid := uvd_vmid uvd1 \<rparr>,
                                   regs', evs1 @ evs'), ib), uvd_zero))))
      else Inr ((s1, []), uvd1))"

text \<open>The fields taken from the header word of a packet.\<close>

definition pm4_header :: "u32 \<Rightarrow> u64 \<Rightarrow> pm4_packet" where
  "pm4_header hdr ib_addr =
    (let pkttype = drop_bit 30 hdr;
         ps = pm4_zero_packet\<lparr> pm_header := hdr, pm_pkttype := pkttype,
                pm_n_words := (drop_bit 16 hdr + 1) AND 0x3FFF, pm_ib_offset := ib_addr \<rparr>
     in if pkttype = 0 then ps\<lparr> pm_pkt0off := hdr AND 0xFFFF \<rparr>
        else if pkttype = 2 then ps\<lparr> pm_n_words := pm_n_words ps - 1 \<rparr>
        else if pkttype = 3 then ps\<lparr> pm_opcode := drop_bit 8 hdr AND 0xFF \<rparr>
        else ps)"

text \<open>
  The \<open>while (nwords)\<close> loop of \<open>umr_pm4_decode_stream\<close> on the words not yet consumed;
  \<open>nwords\<close> is their number, a \<open>uint32_t\<close>. The first argument bounds the number of
  packets decoded plus the depth of indirect buffers followed. A packet that does not fit
  in the remaining words ends the stream. Copying the payload reads \<open>n_words\<close> words after
  the header, whatever the check before decided.
\<close>

fun pm4_decode_loop ::
  "nat \<Rightarrow> pm4_asic \<Rightarrow> int \<Rightarrow> u32 \<Rightarrow> u64 \<Rightarrow> u32 list \<Rightarrow> uvd_ib
     \<Rightarrow> umr_shader_reg_pair list \<Rightarrow> io_event list \<Rightarrow> fault + pm4_decoded" where
  "pm4_decode_loop 0 asic vm_partition vmid ib_addr stream uvd regs evs = Inl Out_of_fuel"
| "pm4_decode_loop (Suc fuel) asic vm_partition vmid ib_addr [] uvd regs evs = Inr ([], regs, evs)"
| "pm4_decode_loop (Suc fuel) asic vm_partition vmid ib_addr (hdr # payload) uvd regs evs =
    (let nwords = (of_nat (Suc (length payload)) :: u32);
         ps = pm4_header hdr ib_addr;
         n_words = pm_n_words ps
     in if nwords < 1 + n_words then Inr ([], regs, evs)
        else if n_words \<noteq> 0 \<and> length payload < unat n_words then Inl Out_of_bounds_read
        else
          (let ps = ps\<lparr> pm_words := take (unat n_words) payload \<rparr>;
               child = (\<lambda>tvmid addr buf regs.
                          if buf = [] then Inr ([Pm4_stream pm4_zero_packet []], regs, [])
                          else pm4_decode_loop fuel asic vm_partition tvmid addr buf uvd_zero regs [])
           in case (if pm_pkttype ps = 3 then
                      (case parse_pm4 child asic vm_partition vmid (ib_addr + 4) (ps, regs, evs) of
                         Inl e \<Rightarrow> Inl e | Inr r \<Rightarrow> Inr (r, uvd))
                    else if pm_pkttype ps = 0 then
                      pm4_uvd child asic vm_partition (ps, regs, evs) uvd
                    else Inr (((ps, regs, evs), []), uvd)) of
                Inl e \<Rightarrow> Inl e
              | Inr (((ps', regs', evs'), ib), uvd') \<Rightarrow>
                  if nwords - (1 + n_words) = 0 then Inr ([Pm4_stream ps' ib], regs', evs')
                  else
                    (case pm4_decode_loop fuel asic vm_partition vmid
                            (ib_addr + ucast (4 * (1 + n_words)))
                            (drop (unat (1 + n_words)) (hdr # payload)) uvd' regs' evs' of
                       Inl e \<Rightarrow> Inl e
                     | Inr (rest, regs'', evs'') \<Rightarrow> Inr (Pm4_stream ps' ib # rest, regs'', evs''))))"

text \<open>
  \<open>umr_pm4_decode_stream\<close>. \<open>reg_head\<close> is \<open>None\<close> for a \<open>NULL\<close> pointer: the register
  writes are then collected in a local list. With no words at all the loop is not entered
  and the freshly allocated first packet is returned. (Allocation is taken to succeed.)
\<close>

definition umr_pm4_decode_stream ::
  "nat \<Rightarrow> pm4_asic \<Rightarrow> int \<Rightarrow> u32 \<Rightarrow> u64 \<Rightarrow> u32 list \<Rightarrow> umr_shader_reg_pair list option
     \<Rightarrow> fault + pm4_decoded" where
  "umr_pm4_decode_stream fuel asic vm_partition vmid from_addr stream reg_head =
    (let regs = (case reg_head of None \<Rightarrow> [] | Some r \<Rightarrow> r)
     in if stream = [] then Inr ([Pm4_stream pm4_zero_packet []], regs, [])
        else pm4_decode_loop fuel asic vm_partition vmid from_addr stream uvd_zero regs [])"

text \<open>
  An ASIC for concrete runs: every shader type enabled, indirect buffers and shaders
  followed, the two compute program registers named at their GFX9 offsets, no readable
  VRAM, and every shader two words long.
\<close>

definition compute_reg_name :: "u64 \<Rightarrow> string" where
  "compute_reg_name a =
    (if a = 0x2E0C then ''gfx900.mmCOMPUTE_PGM_LO''
     else if a = 0x2E0D then ''gfx900.mmCOMPUTE_PGM_HI''
     else ''gfx900.mmOTHER'')"

definition no_vram :: "int \<Rightarrow> u32 \<Rightarrow> u64 \<Rightarrow> u32 \<Rightarrow> (nat \<Rightarrow> u32) option" where
  "no_vram vm_partition vmid addr size_bytes = None"

definition two_word_shader :: "int \<Rightarrow> u32 \<Rightarrow> u64 \<Rightarrow> u32" where
  "two_word_shader vm_partition vmid addr = 8"

definition sample_pm4_asic :: pm4_asic where
  "sample_pm4_asic =
     \<lparr> no_follow_ib = False, no_follow_chained_ib = False, no_follow_shader = False,
       enable_comp_shader = True, enable_vs_shader = True, enable_ps_shader = True,
       enable_es_shader = True, enable_gs_shader = True, enable_hs_shader = True,
       enable_ls_shader = True, family_le_vi = False, UMR_MM_HUB = 0x100, regname_size = 128,
       umr_reg_name = compute_reg_name, umr_read_vram = no_vram,
       umr_compute_shader_size = two_word_shader \<rparr>"

text \<open>A decoder of child buffers for runs that follow none.\<close>

definition no_child :: pm4_child_decoder where
  "no_child tvmid addr buf regs = Inl Out_of_fuel"


subsection \<open>What shader discovery finds, stated on the register writes\<close>

text \<open>
  The name and value of every tracked register write, in list order.
\<close>

definition reg_view :: "umr_shader_reg_pair list \<Rightarrow> (string \<times> u32) list" where
  "reg_view regs = map (\<lambda>r. (rp_regname r, rp_value r)) regs"

text \<open>
  The address programmed for a pair of registers: taken from the first write whose name
  contains the name of the high register and the first whose name contains the name of
  the low register, when both exist and at least one of the two values is not zero.
\<close>

definition shader_pair_address :: "umr_shader_reg_pair list \<Rightarrow> string \<Rightarrow> string \<Rightarrow> u64 option" where
  "shader_pair_address regs hi_name lo_name =
    (case (find (\<lambda>nv. strstr (fst nv) hi_name) (reg_view regs),
           find (\<lambda>nv. strstr (fst nv) lo_name) (reg_view regs)) of
       (Some hi, Some lo) \<Rightarrow>
         if snd hi \<noteq> 0 \<or> snd lo \<noteq> 0
         then Some (push_bit 40 (ucast (snd hi)) OR push_bit 8 (ucast (snd lo)))
         else None
     | _ \<Rightarrow> None)"

text \<open>
  The programs a dispatch (compute jobs) or a draw finds: one for each enabled row of the
  table that has an address, in table order, as type, VMID and address.
\<close>

definition row_shader ::
  "pm4_asic \<Rightarrow> u32 \<Rightarrow> umr_shader_reg_pair list \<Rightarrow> string \<times> string \<times> shader_type
     \<Rightarrow> (shader_type \<times> u32 \<times> u64) list" where
  "row_shader asic vmid regs row =
    (case row of (hi_name, lo_name, ty) \<Rightarrow>
      if shader_enabled asic ty then
        (case shader_pair_address regs hi_name lo_name of
           Some a \<Rightarrow> [(ty, vmid, a)]
         | None \<Rightarrow> [])
      else [])"

definition discovered_shaders ::
  "pm4_asic \<Rightarrow> u32 \<Rightarrow> umr_shader_reg_pair list \<Rightarrow> bool \<Rightarrow> (shader_type \<times> u32 \<times> u64) list" where
  "discovered_shaders asic vmid regs compute_jobs =
     concat (map (row_shader asic vmid regs)
               (if compute_jobs then take 1 shader_types else drop 1 shader_types))"

definition pgm_key :: "umr_shaders_pgm \<Rightarrow> shader_type \<times> u32 \<times> u64" where
  "pgm_key p = (pgm_type p, pgm_vmid p, pgm_addr p)"

text \<open>The opcodes that schedule compute shaders and those that schedule draws.\<close>

definition dispatch_opcodes :: "u32 set" where
  "dispatch_opcodes = {0x15, 0x16, 0xA7, 0xAA, 0xAD}"

definition draw_opcodes :: "u32 set" where
  "draw_opcodes = {0x4C, 0x4D, 0x25, 0x27, 0x2D, 0x38}"

text \<open>Register writes for concrete runs.\<close>

definition reg_write :: "string \<Rightarrow> u32 \<Rightarrow> umr_shader_reg_pair" where
  "reg_write name val =
     \<lparr> rp_regname = name, rp_value = val, rp_vmid = 0, rp_addr = 0, rp_used = False \<rparr>"

text \<open>The programs registered on each packet of a decoded stream, packet by packet.\<close>

definition stream_shaders :: "fault + pm4_decoded \<Rightarrow> (shader_type \<times> u32 \<times> u64) list list" where
  "stream_shaders r =
    (case r of
       Inl f \<Rightarrow> []
     | Inr (stream, regs, evs) \<Rightarrow> map (\<lambda>n. map pgm_key (pm_shader (pm4_pkt n))) stream)"



section \<open>Access to GPU memory (read_vram.c, access_vram_ai.c)\<close>

subsection \<open>The ASIC, its callbacks and what a call leaves behind\<close>

text \<open>
  What a call does besides returning: messages through \<open>mem_funcs.vm_message\<close>,
  \<open>err_msg\<close> and \<open>std_msg\<close> (recorded by their fixed text, without the values printed
  into them; the output of \<open>print_base\<close>, \<open>print_pde\<close> and \<open>print_pte\<close> by the name of
  the function), calls of
  the memory callbacks \<open>access_sram\<close> and \<open>access_linear_vram\<close> (address, length,
  \<open>write_en\<close>; for VRAM also the XGMI node the call went to), copies from and to process
  memory, \<open>umr_apply_callbacks\<close>, the callback \<open>va_addr_decode\<close> and the hand-over to
  \<open>umr_access_vram_vi\<close>.
\<close>

datatype vm_event =
    Ev_vm_message string
  | Ev_err_msg string
  | Ev_std_msg string
  | Ev_print string
  | Ev_access_sram u64 u32 bool
  | Ev_access_linear_vram "nat option" u64 u32 bool
  | Ev_process_memcpy u64 u32 bool
  | Ev_apply_callbacks
  | Ev_va_addr_decode "pde_fields list" int pte_fields
  | Ev_access_vram_vi u32 u64 u32 bool

fun is_memory_access :: "vm_event \<Rightarrow> bool" where
  "is_memory_access (Ev_access_sram a n w) = True"
| "is_memory_access (Ev_access_linear_vram node a n w) = True"
| "is_memory_access (Ev_process_memcpy a n w) = True"
| "is_memory_access (Ev_access_vram_vi v a n w) = True"
| "is_memory_access e = False"

text \<open>
  \<open>struct umr_vm_pagewalk\<close>, the page-walk data a caller may ask for, as far as
  \<open>umr_access_vram_ai\<close> writes it. The structure is declared in \<open>umr.h\<close>, which is not
  among the sources; its arrays are taken as unbounded here.
\<close>

record pagewalk =
  pw_va :: u64
  pw_vmid :: u32
  pw_page_table_depth :: int
  pw_page_table_block_size :: u64
  pw_levels :: nat
  pw_pde_idx :: "nat \<Rightarrow> u64"
  pw_pde_va_mask :: "nat \<Rightarrow> u64"
  pw_pde_fields :: "nat \<Rightarrow> pde_fields"
  pw_pde :: "nat \<Rightarrow> u64"
  pw_pte_idx :: u64
  pw_pte_va_mask :: u64
  pw_pte_offset :: u64
  pw_pte :: u64
  pw_pte_fields :: pte_fields
  pw_pte_page_mask :: u64
  pw_pte_start_addr :: u64
  pw_sys_or_vram :: int
  pw_phys :: u64

text \<open>
  Everything outside the function that a call can change: the memory behind the
  callbacks (of a type \<open>'w\<close> that only the callbacks look into), the bytes of the caller's
  buffer, the record of what was printed and called, \<open>options.user_queue.state.va\<close>, and
  the caller's \<open>struct umr_vm_pagewalk\<close> (\<open>None\<close> when \<open>vmdata\<close> is \<open>NULL\<close>).
\<close>

record 'w vm_io =
  io_world :: 'w
  io_data :: "u8 list"
  io_log :: "vm_event list"
  io_uq_va :: u64
  io_vmdata :: "pagewalk option"

text \<open>
  A memory callback \<open>f(asic, address, size, dst, write_en)\<close>: from the memory, the
  address, the size and the bytes to write (\<open>None\<close> for a read) to the value returned, the
  bytes it stored at \<open>dst\<close> and the memory afterwards.
\<close>

type_synonym 'w mem_callback = "'w \<Rightarrow> u64 \<Rightarrow> u32 \<Rightarrow> u8 list option \<Rightarrow> int \<times> u8 list \<times> 'w"

text \<open>
  The values of \<open>enum umr_hub_access\<close> (declared in \<open>umr.h\<close>).
\<close>

record hub_ids =
  hub_LINEAR :: u32
  hub_GFX :: u32
  hub_MM :: u32
  hub_MM_VC0 :: u32
  hub_MM_VC1 :: u32
  hub_USER :: u32
  hub_PROCESS :: u32

text \<open>
  A node of the XGMI hive as \<open>umr_access_vram\<close> reads it: the VRAM size of the node, and
  the VRAM size found through entry \<open>n\<close> of the node's own table of nodes (entry \<open>n\<close> being
  the position of the node in the table of the ASIC the call was made on; \<open>None\<close> when that
  entry is the terminating \<open>NULL\<close>).
\<close>

record xgmi_node =
  node_vram_size :: u64
  node_own_entry_vram_size :: "u64 option"

text \<open>
  What the two functions read of \<open>struct umr_asic\<close> and of the library. The register
  database (\<open>umr_read_reg_by_name_by_ip_by_instance\<close>,
  \<open>umr_bitslice_reg_by_name_by_ip_by_instance\<close>,
  \<open>umr_bitslice_compose_value_by_name_by_ip_by_instance\<close>,
  \<open>umr_find_reg_data_by_ip_by_instance\<close>), the callbacks and \<open>umr_access_vram_vi\<close> are
  taken as given. The family is read through the three comparisons the code makes.
\<close>

record 'w vm_asic =
  asic_decoders :: decoder_asic
  asic_hubs :: hub_ids
  asic_family_gt_VI :: bool
  asic_family_eq_AI :: bool
  asic_family_ge_NV :: bool
  asic_verbose :: bool
  asic_no_fold_vm_decode :: bool
  asic_hub_name :: string
  asic_use_xgmi :: bool
  asic_xgmi_callbacks_applied :: bool
  asic_xgmi_nodes :: "xgmi_node list"
  asic_uq_active :: bool
  asic_uq_START_ADDR_LO32 :: u32
  asic_uq_START_ADDR_HI32 :: u32
  asic_uq_END_ADDR_LO32 :: u32
  asic_uq_END_ADDR_HI32 :: u32
  asic_uq_BASE_ADDR_LO32 :: u32
  asic_uq_BASE_ADDR_HI32 :: u32
  asic_uq_num_level :: int
  asic_uq_block_size :: u64
  asic_read_reg :: "'w \<Rightarrow> string \<Rightarrow> int \<Rightarrow> string \<Rightarrow> u64"
  asic_bitslice_reg :: "string \<Rightarrow> int \<Rightarrow> string \<Rightarrow> string \<Rightarrow> u64 \<Rightarrow> u64"
  asic_bitslice_compose :: "string \<Rightarrow> int \<Rightarrow> string \<Rightarrow> string \<Rightarrow> u64 \<Rightarrow> u64"
  asic_find_reg_data :: "string \<Rightarrow> int \<Rightarrow> string \<Rightarrow> bool"
  asic_access_sram :: "'w mem_callback"
  asic_access_linear_vram :: "nat option \<Rightarrow> 'w mem_callback"
  asic_process_read :: "'w \<Rightarrow> u64 \<Rightarrow> u32 \<Rightarrow> u8 list"
  asic_process_write :: "'w \<Rightarrow> u64 \<Rightarrow> u8 list \<Rightarrow> 'w"
  asic_gpu_bus_to_cpu_address :: "u64 \<Rightarrow> u64"
  asic_has_va_addr_decode :: bool
  asic_access_vram_vi :: "'w vm_io \<Rightarrow> u32 \<Rightarrow> u64 \<Rightarrow> u32 \<Rightarrow> u64 \<Rightarrow> bool \<Rightarrow> int \<times> 'w vm_io"

text \<open>\<open>umr_gfx_get_ip_ver\<close>: the version of the \<open>gfx\<close> block, instance 0 or else -1.\<close>

definition umr_gfx_get_ip_ver :: "decoder_asic \<Rightarrow> (int \<times> int) option" where
  "umr_gfx_get_ip_ver d =
    (case find_ip_block d ''gfx'' 0 of
       Some ip \<Rightarrow> Some (maj ip, minor ip)
     | None \<Rightarrow>
        (case find_ip_block d ''gfx'' (- 1) of
           Some ip \<Rightarrow> Some (maj ip, minor ip)
         | None \<Rightarrow> None))"

text \<open>Adding to the record of a call.\<close>

definition io_emit :: "'w vm_io \<Rightarrow> vm_event list \<Rightarrow> 'w vm_io" where
  "io_emit io evs = io\<lparr> io_log := io_log io @ evs \<rparr>"

text \<open>
  Bytes stored at offset \<open>off\<close> of a buffer, and the bytes a write takes from there.
\<close>

definition store_bytes :: "u8 list \<Rightarrow> nat \<Rightarrow> u8 list \<Rightarrow> u8 list" where
  "store_bytes buf off bs = take off buf @ bs @ drop (off + length bs) buf"

definition load_bytes :: "u8 list \<Rightarrow> nat \<Rightarrow> nat \<Rightarrow> u8 list" where
  "load_bytes buf off n = take n (drop off buf)"

text \<open>
  A 64-bit entry and its eight bytes in memory (little endian, as on the hosts the
  tool runs on).
\<close>

definition bytes_of_u64 :: "u64 \<Rightarrow> u8 list" where
  "bytes_of_u64 x = map (\<lambda>i. ucast (drop_bit (8 * i) x)) [0 ..< 8]"

definition u64_of_bytes :: "u8 list \<Rightarrow> u64" where
  "u64_of_bytes bs = foldr (\<lambda>b acc. ucast b OR push_bit 8 acc) bs 0"

subsection \<open>Linear addresses (read_vram.c)\<close>

text \<open>
  The two alignment checks at the head of \<open>umr_access_vram\<close>: the message of the check
  that fails, if one does. \<open>ptr\<close> is the value of the pointer \<open>data\<close>.
\<close>

definition vram_misaligned :: "u64 \<Rightarrow> u32 \<Rightarrow> u64 \<Rightarrow> string option" where
  "vram_misaligned address size_bytes ptr =
    (if address AND 3 \<noteq> 0 \<or> size_bytes AND 3 \<noteq> 0
     then Some ''[ERROR]:  The address and size must be a multiple of 4 to access VRAM''
     else if ptr AND 3 \<noteq> 0
     then Some ''[BUG]: vram read destination is not 4-byte aligned''
     else None)"

text \<open>
  \<open>round_up_next_gib\<close>. For \<open>x\<close> above \<open>2^64 - 2^30\<close> the sum wraps around and the loop
  does not end; the first argument bounds the number of rounds.
\<close>

fun round_up_next_gib :: "nat \<Rightarrow> u64 \<Rightarrow> u64 \<Rightarrow> u64 option" where
  "round_up_next_gib 0 y x = None"
| "round_up_next_gib (Suc fuel) y x =
     (if y < x then round_up_next_gib fuel (y + 1024 * 1024 * 1024) x else Some y)"

text \<open>
  The segment size of an XGMI node from the first \<open>LFB_SIZE\<close> register the ASIC has, 0
  when it has none.
\<close>

definition xgmi_segment_size :: "'w vm_asic \<Rightarrow> 'w \<Rightarrow> u64" where
  "xgmi_segment_size asic w =
    (let part = options_vm_partition (asic_decoders asic)
     in if asic_find_reg_data asic ''gfx'' part ''@mmMC_VM_XGMI_LFB_SIZE_ALDE''
        then push_bit 24 (asic_read_reg asic w ''gfx'' part ''mmMC_VM_XGMI_LFB_SIZE_ALDE'')
        else if asic_find_reg_data asic ''gfx'' part ''@mmMC_VM_XGMI_LFB_SIZE''
        then push_bit 24 (asic_read_reg asic w ''gfx'' part ''mmMC_VM_XGMI_LFB_SIZE'')
        else if asic_find_reg_data asic ''gfx'' part ''@mmGCMC_VM_XGMI_LFB_SIZE''
        then push_bit 24 (asic_read_reg asic w ''gfx'' part ''mmGCMC_VM_XGMI_LFB_SIZE'')
        else 0)"

text \<open>
  The \<open>for\<close> loop over the nodes of the hive, on the nodes from position \<open>n\<close> on: the node
  the address falls into and the address relative to it, with the message printed when
  the block crosses the end of the node. After \<open>asic\<close> was replaced by the node, the size
  compared with is read through the node's own table. When no node matches, ASIC and
  address stay as they were.
\<close>

fun xgmi_route ::
  "nat \<Rightarrow> xgmi_node list \<Rightarrow> nat \<Rightarrow> u64 \<Rightarrow> u64 \<Rightarrow> u32
     \<Rightarrow> fault + ((nat \<times> u64) option \<times> vm_event list)" where
  "xgmi_route fuel [] n addr segment_size size_bytes = Inr (None, [])"
| "xgmi_route fuel (node # nodes) n addr segment_size size_bytes =
    (if addr < (if segment_size \<noteq> 0 then segment_size else node_vram_size node) then
       (case node_own_entry_vram_size node of
          None \<Rightarrow> Inl Null_dereference
        | Some vram_size \<Rightarrow>
            Inr (Some (n, addr),
                 if addr + ucast size_bytes > vram_size
                 then [Ev_err_msg ''[BUG]: Block being read spans multiple XGMI nodes and this isn't supported by UMR.'']
                 else []))
     else if segment_size \<noteq> 0
     then xgmi_route fuel nodes (Suc n) (addr - segment_size) segment_size size_bytes
     else
       (case round_up_next_gib fuel (1024 * 1024 * 1024) (node_vram_size node) of
          None \<Rightarrow> Inl Out_of_fuel
        | Some gib \<Rightarrow> xgmi_route fuel nodes (Suc n) (addr - gib) segment_size size_bytes))"

text \<open>
  The branch \<open>(vmid & 0xFF00) == UMR_LINEAR_HUB\<close> of \<open>umr_access_vram\<close>: the XGMI node is
  looked up when XGMI is in use, and the access is handed to \<open>access_linear_vram\<close>. The
  result is the value returned, the bytes stored at \<open>data\<close> and the state afterwards;
  \<open>wdata\<close> holds the bytes to write when \<open>write_en\<close> is set.
\<close>

definition access_linear_hub ::
  "nat \<Rightarrow> 'w vm_asic \<Rightarrow> 'w vm_io \<Rightarrow> u64 \<Rightarrow> u32 \<Rightarrow> u8 list option
     \<Rightarrow> fault + (int \<times> u8 list \<times> 'w vm_io)" where
  "access_linear_hub fuel asic io address size_bytes wdata =
    (case (if asic_use_xgmi asic then
             (case xgmi_route fuel (asic_xgmi_nodes asic) 0 address
                     (xgmi_segment_size asic (io_world io)) size_bytes of
                Inl f \<Rightarrow> Inl f
              | Inr (r, msgs) \<Rightarrow>
                  Inr (r, (if asic_xgmi_callbacks_applied asic then [] else [Ev_apply_callbacks]) @ msgs))
           else Inr (None, [])) of
       Inl f \<Rightarrow> Inl f
     | Inr (r, evs) \<Rightarrow>
        (let node = map_option fst r;
             address = (case r of Some (n, a) \<Rightarrow> a | None \<Rightarrow> address)
         in case asic_access_linear_vram asic node (io_world io) address size_bytes wdata of
              (rv, bs, w') \<Rightarrow>
                Inr (rv, bs,
                     io\<lparr> io_world := w',
                         io_log := io_log io @ evs
                           @ [Ev_access_linear_vram node address size_bytes (wdata \<noteq> None)] \<rparr>)))"

text \<open>
  \<open>umr_access_vram(asic, partition, UMR_LINEAR_HUB, address, size, data, write_en, NULL)\<close>,
  the call \<open>access_vram_ai.c\<close> makes for physical addresses: with the hub bits equal to
  \<open>UMR_LINEAR_HUB\<close> (and \<open>UMR_PROCESS_HUB\<close> a different value of the enumeration) the
  call runs the alignment checks and the linear branch.
\<close>

definition umr_access_vram_linear ::
  "nat \<Rightarrow> 'w vm_asic \<Rightarrow> 'w vm_io \<Rightarrow> u64 \<Rightarrow> u32 \<Rightarrow> u64 \<Rightarrow> u8 list option
     \<Rightarrow> fault + (int \<times> u8 list \<times> 'w vm_io)" where
  "umr_access_vram_linear fuel asic io address size_bytes ptr wdata =
    (case vram_misaligned address size_bytes ptr of
       Some msg \<Rightarrow> Inr (- 1, [], io_emit io [Ev_err_msg msg])
     | None \<Rightarrow> access_linear_hub fuel asic io address size_bytes wdata)"

subsection \<open>GFX9+ translation: reading the configuration (access_vram_ai.c)\<close>

text \<open>
  \<open>struct umr_vm_ai_state\<close> without the copies of the registers, which are only printed.
  \<open>vm_capturing\<close> is \<open>vm.vmdata != NULL\<close>.
\<close>

record vm_ai_state =
  vm_capturing :: bool
  vm_va_tally :: u64
  vm_page_table_start_addr :: u64
  vm_page_table_end_addr :: u64
  vm_page_table_base_addr :: u64
  vm_page_table_block_size :: u64
  vm_pde0_block_fragment_size :: u64
  vm_page_table_depth :: int
  vm_fb_offset :: u64
  vm_system_aperture_low :: u64
  vm_system_aperture_high :: u64
  vm_fb_top :: u64
  vm_fb_bottom :: u64
  vm_agp_base :: u64
  vm_agp_bot :: u64
  vm_agp_top :: u64
  vm_zfb :: bool
  vm_pte_idx :: u64
  vm_pte_entry :: u64
  vm_ptb_mask :: u64
  vm_pte_page_mask :: u64
  vm_pte_addr :: u64
  vm_log2_ptb_entries :: u64
  vm_pte_block_fragment_size :: u32
  vm_pte_fields :: pte_fields
  vm_further :: bool
  vm_pte_is_pde :: bool
  vm_pde_idx :: u64
  vm_pde_entry :: u64
  vm_pde_address :: u64
  vm_pde_addr :: u64
  vm_pde_fields :: pde_fields
  vm_pde_array :: "pde_fields list"
  vm_pde_cnt :: int
  vm_pde_was_pte :: bool

text \<open>The state after \<open>memset(&vm, 0, sizeof vm)\<close>.\<close>

definition vm_zero :: vm_ai_state where
  "vm_zero =
     \<lparr> vm_capturing = False, vm_va_tally = 0, vm_page_table_start_addr = 0,
       vm_page_table_end_addr = 0, vm_page_table_base_addr = 0, vm_page_table_block_size = 0,
       vm_pde0_block_fragment_size = 0, vm_page_table_depth = 0, vm_fb_offset = 0,
       vm_system_aperture_low = 0, vm_system_aperture_high = 0, vm_fb_top = 0,
       vm_fb_bottom = 0, vm_agp_base = 0, vm_agp_bot = 0, vm_agp_top = 0, vm_zfb = False,
       vm_pte_idx = 0, vm_pte_entry = 0, vm_ptb_mask = 0, vm_pte_page_mask = 0, vm_pte_addr = 0,
       vm_log2_ptb_entries = 0, vm_pte_block_fragment_size = 0, vm_pte_fields = pte_zero,
       vm_further = False, vm_pte_is_pde = False, vm_pde_idx = 0, vm_pde_entry = 0,
       vm_pde_address = 0, vm_pde_addr = 0, vm_pde_fields = pde_zero,
       vm_pde_array = replicate 8 pde_zero, vm_pde_cnt = 0, vm_pde_was_pte = False \<rparr>"

text \<open>A number as \<open>"%" PRIu32\<close> prints it.\<close>

fun dec_string :: "nat \<Rightarrow> string" where
  "dec_string n =
     (if n < 10 then [char_of (48 + n)]
      else dec_string (n div 10) @ [char_of (48 + n mod 10)])"

declare dec_string.simps [simp del]

text \<open>
  The \<open>switch (hubid)\<close>: the name of the hub and the two register prefixes
  (\<open>vm0prefix\<close>, \<open>regprefix\<close>), or nothing for a hub that is not known.
\<close>

definition vm_hub_select :: "'w vm_asic \<Rightarrow> u32 \<Rightarrow> (string \<times> string \<times> string) option" where
  "vm_hub_select asic hubid =
    (let h = asic_hubs asic
     in if hubid = hub_MM_VC0 h then
          Some (''mmhub'', if asic_family_eq_AI asic then (''VMSHAREDVC0_'', ''VML2VC0_'') else ('''', ''''))
        else if hubid = hub_MM_VC1 h then
          Some (''mmhub'', if asic_family_eq_AI asic then (''VMSHAREDVC1_'', ''VML2VC1_'') else ('''', ''''))
        else if hubid = hub_MM h then
          Some (''mmhub'', if asic_family_ge_NV asic then (''MM'', ''MM'') else ('''', ''''))
        else if hubid = hub_GFX h then
          Some (''gfx'', if asic_family_ge_NV asic then (''GC'', ''GC'') else ('''', ''''))
        else if hubid = hub_USER h then
          Some (asic_hub_name asic, '''', '''')
        else None)"

text \<open>
  A function either returns here, with a value and the state it leaves, or goes on.
\<close>

datatype ('r, 's) flow = Returned 'r | Continue 's

text \<open>
  \<open>(dst) ? umr_access_vram(asic, partition, UMR_LINEAR_HUB, address, size, dst, write_en,
  NULL) : 0\<close>, the way out of the VMID 0 cases that need no translation. \<open>dst\<close> is the
  pointer value, 0 for \<open>NULL\<close>.
\<close>

definition linear_passthrough ::
  "nat \<Rightarrow> 'w vm_asic \<Rightarrow> 'w vm_io \<Rightarrow> u64 \<Rightarrow> u32 \<Rightarrow> u64 \<Rightarrow> bool
     \<Rightarrow> fault + (int \<times> 'w vm_io)" where
  "linear_passthrough fuel asic io address size_bytes dst write_en =
    (if dst = 0 then Inr (0, io)
     else
       (case umr_access_vram_linear fuel asic io address size_bytes dst
               (if write_en then Some (load_bytes (io_data io) 0 (unat size_bytes)) else None) of
          Inl f \<Rightarrow> Inl f
        | Inr (rv, bs, io') \<Rightarrow> Inr (rv, io'\<lparr> io_data := store_bytes (io_data io') 0 bs \<rparr>)))"

text \<open>
  Lines 667-820: the \<open>gfx\<close> IP block, the hub, and the registers that describe the
  frame buffer, the AGP aperture and the page table of the VMID (or, for a user queue,
  the saved copy of them). The result is the IP block, the VMID without the hub bits, the
  hub with its prefixes and the state, or the return of -1.
\<close>

definition vm_ai_registers ::
  "'w vm_asic \<Rightarrow> 'w vm_io \<Rightarrow> int \<Rightarrow> u32 \<Rightarrow> u64
     \<Rightarrow> ((int \<times> 'w vm_io), (ip_block \<times> u32 \<times> (string \<times> string \<times> string) \<times> vm_ai_state \<times> 'w vm_io)) flow" where
  "vm_ai_registers asic io partn vmid address =
    (case find_ip_block (asic_decoders asic) ''gfx'' (options_vm_partition (asic_decoders asic)) of
       None \<Rightarrow> Returned (- 1, io_emit io [Ev_vm_message ''[BUG]: Cannot find a 'gfx' IP block in this ASIC''])
     | Some ip \<Rightarrow>
        (let io = (if asic_uq_active asic then io\<lparr> io_uq_va := address \<rparr> else io);
             io = io\<lparr> io_vmdata := map_option (\<lambda>d. d\<lparr> pw_va := address, pw_vmid := vmid \<rparr>) (io_vmdata io) \<rparr>;
             hubid = vmid AND 0xFF00;
             vmid = vmid AND 0xFF
         in case vm_hub_select asic hubid of
              None \<Rightarrow> Returned (- 1, io_emit io [Ev_vm_message ''[ERROR]: Invalid hub specified in umr_read_vram_ai()''])
            | Some (hub, vm0prefix, regprefix) \<Rightarrow>
               (let rd = (\<lambda>name. (ucast (asic_read_reg asic (io_world io) hub partn name) :: u32));
                    vm0 = (\<not> asic_uq_active asic \<and> vmid = 0);
                    sa_high = (if vm0 then rd (''mm'' @ vm0prefix @ ''MC_VM_SYSTEM_APERTURE_HIGH_ADDR'') else 0);
                    sa_low = (if vm0 then rd (''mm'' @ vm0prefix @ ''MC_VM_SYSTEM_APERTURE_LOW_ADDR'') else 0);
                    fb_bottom = push_bit 24 (ucast (rd (''mm'' @ vm0prefix @ ''MC_VM_FB_LOCATION_BASE'')) :: u64);
                    fb_top = push_bit 24 ((ucast (rd (''mm'' @ vm0prefix @ ''MC_VM_FB_LOCATION_TOP'')) :: u64) + 1);
                    zfb = (fb_top < fb_bottom);
                    ctx = (\<lambda>name. ''mm'' @ regprefix @ ''VM_CONTEXT'' @ dec_string (unat vmid) @ name);
                    cntl = asic_read_reg asic (io_world io) hub partn (ctx ''_CNTL'');
                    start_lo = (if asic_uq_active asic then asic_uq_START_ADDR_LO32 asic
                                else rd (ctx ''_PAGE_TABLE_START_ADDR_LO32''));
                    start_hi = (if asic_uq_active asic then asic_uq_START_ADDR_HI32 asic
                                else rd (ctx ''_PAGE_TABLE_START_ADDR_HI32''));
                    end_lo = (if asic_uq_active asic then asic_uq_END_ADDR_LO32 asic
                              else rd (ctx ''_PAGE_TABLE_END_ADDR_LO32''));
                    end_hi = (if asic_uq_active asic then asic_uq_END_ADDR_HI32 asic
                              else rd (ctx ''_PAGE_TABLE_END_ADDR_HI32''));
                    base_lo = (if asic_uq_active asic then asic_uq_BASE_ADDR_LO32 asic
                               else rd (ctx ''_PAGE_TABLE_BASE_ADDR_LO32''));
                    base_hi = (if asic_uq_active asic then asic_uq_BASE_ADDR_HI32 asic
                               else rd (ctx ''_PAGE_TABLE_BASE_ADDR_HI32''));
                    depth = (if asic_uq_active asic then asic_uq_num_level asic
                             else u64_to_int (asic_bitslice_reg asic hub partn (ctx ''_CNTL'')
                                    ''PAGE_TABLE_DEPTH'' (ucast (ucast cntl :: u32))));
                    block_size = (if asic_uq_active asic then asic_uq_block_size asic - 9
                                  else asic_bitslice_reg asic hub partn (ctx ''_CNTL'')
                                         ''PAGE_TABLE_BLOCK_SIZE'' (ucast (ucast cntl :: u32)));
                    io = io\<lparr> io_vmdata := map_option
                            (\<lambda>d. d\<lparr> pw_page_table_depth := depth, pw_page_table_block_size := block_size \<rparr>)
                            (io_vmdata io) \<rparr>;
                    base = (ucast base_lo OR push_bit 32 (ucast base_hi) :: u64);
                    io = (if base = 0xFFFFFFFFFFFFFFFF
                          then io_emit io [Ev_vm_message ''PAGE_TABLE_BASE_ADDRESS read as all F's likely indicates that the ASIC is powered off (possibly via gfxoff)'']
                          else io);
                    io = (if asic_verbose asic
                          then io_emit io [Ev_vm_message ''=== VM Decoding of address'',
                                           Ev_vm_message ''mm%sVM_CONTEXT%u_PAGE_TABLE_START_ADDR_LO32=0x%x'']
                          else io);
                    vm = vm_zero\<lparr>
                           vm_capturing := (io_vmdata io \<noteq> None),
                           vm_system_aperture_low := push_bit 18 (ucast sa_low),
                           vm_system_aperture_high := (if vm0 then push_bit 18 (ucast sa_high + 1) else 0),
                           vm_fb_bottom := fb_bottom,
                           vm_fb_top := fb_top,
                           vm_zfb := zfb,
                           vm_agp_base := (if zfb then push_bit 24 (ucast (rd (''mm'' @ regprefix @ ''MC_VM_AGP_BASE''))) else 0),
                           vm_agp_bot := (if zfb then push_bit 24 (ucast (rd (''mm'' @ regprefix @ ''MC_VM_AGP_BOT''))) else 0),
                           vm_agp_top := (if zfb then push_bit 24 (ucast (rd (''mm'' @ regprefix @ ''MC_VM_AGP_TOP'')) + 1) OR 0xFFFFFF
                                          else 0),
                           vm_page_table_depth := depth,
                           vm_page_table_block_size := block_size,
                           vm_page_table_start_addr := page_table_addr start_lo start_hi,
                           vm_page_table_end_addr := page_table_addr end_lo end_hi,
                           vm_page_table_base_addr := base,
                           vm_fb_offset := push_bit 24 (ucast (rd (''mm'' @ regprefix @ ''MC_VM_FB_OFFSET''))) \<rparr>
                in Continue (ip, vmid, (hub, vm0prefix, regprefix), vm, io))))"

text \<open>
  Lines 892-945: a flat table spans the whole address range; the base address registers
  hold the first PDE; and for VMID 0 the system access mode decides whether the address
  is physical, in which case the call ends with the linear access. (The registers
  \<open>mmVGA_MEMORY_BASE_ADDRESS\<close> and \<open>mmVGA_MEMORY_BASE_ADDRESS_HIGH\<close> read for an APU are
  only printed and are left out.) The function goes on with an address that has to be
  translated.
\<close>

definition vm_ai_prefix ::
  "nat \<Rightarrow> 'w vm_asic \<Rightarrow> 'w vm_io \<Rightarrow> int \<Rightarrow> u32 \<Rightarrow> u64 \<Rightarrow> u32 \<Rightarrow> u64 \<Rightarrow> bool
     \<Rightarrow> fault + ((int \<times> 'w vm_io), (ip_block \<times> u32 \<times> vm_ai_state \<times> 'w vm_io)) flow" where
  "vm_ai_prefix fuel asic io partn vmid address size_bytes dst write_en =
    (case vm_ai_registers asic io partn vmid address of
       Returned r \<Rightarrow> Inr (Returned r)
     | Continue (ip, vmid, (hub, vm0prefix, regprefix), vm, io) \<Rightarrow>
        (let vm = (if vm_page_table_depth vm = 0
                   then vm\<lparr> vm_page_table_block_size :=
                            log2_vm_size (vm_page_table_start_addr vm) (vm_page_table_end_addr vm) - 21 \<rparr>
                   else vm);
             dec = umr_decode_pde_entry (asic_decoders asic) (vm_page_table_base_addr vm);
             io = io_emit io (map Ev_err_msg (snd dec));
             vm = vm\<lparr> vm_pde_fields := fst dec \<rparr>;
             vm = (if pde_system (fst dec) = 0
                   then vm\<lparr> vm_page_table_base_addr := vm_page_table_base_addr vm - vm_fb_offset vm \<rparr>
                   else vm);
             in_sa = (vm_system_aperture_low vm \<le> address \<and> address < vm_system_aperture_high vm);
             in_fb = (vm_fb_bottom vm \<le> address \<and> address < vm_fb_top vm);
             pass = (\<lambda>io a. case linear_passthrough fuel asic io a size_bytes dst write_en of
                               Inl f \<Rightarrow> Inl f | Inr r \<Rightarrow> Inr (Returned r));
             translate = (\<lambda>io. Inr (Continue (ip, vmid, vm, io)))
         in if \<not> asic_uq_active asic \<and> vmid = 0 then
              (let tlb = (ucast (asic_read_reg asic (io_world io) hub partn
                                   (''mm'' @ vm0prefix @ ''MC_VM_MX_L1_TLB_CNTL'')) :: u32);
                   sam = (ucast (asic_bitslice_reg asic hub partn
                                   (''mm'' @ vm0prefix @ ''MC_VM_MX_L1_TLB_CNTL'')
                                   ''SYSTEM_ACCESS_MODE'' (ucast tlb)) :: u32)
               in if sam = 0 then pass io address
                  else if sam = 1 then translate io
                  else if sam = 2 then
                    (if \<not> in_sa then (if in_fb then pass io (address - vm_fb_bottom vm) else pass io address)
                     else translate io)
                  else if sam = 3 then
                    (if in_sa then
                       (let io = (if asic_verbose asic
                                  then io_emit io [Ev_std_msg ''[VERBOSE]: Address is inside SAM'']
                                  else io)
                        in if in_fb then pass io (address - vm_fb_bottom vm) else pass io address)
                     else translate io)
                  else translate (io_emit io [Ev_vm_message ''[WARNING]: Unhandled SYSTEM_ACCESS_MODE mode'']))
            else translate io))"

text \<open>
  Lines 947-953: an address that is translated has to be within the span of the root
  page table, from the start address to the last byte of the page the end address names.
\<close>

definition vm_ai_setup ::
  "nat \<Rightarrow> 'w vm_asic \<Rightarrow> 'w vm_io \<Rightarrow> int \<Rightarrow> u32 \<Rightarrow> u64 \<Rightarrow> u32 \<Rightarrow> u64 \<Rightarrow> bool
     \<Rightarrow> fault + ((int \<times> 'w vm_io), (ip_block \<times> u32 \<times> vm_ai_state \<times> 'w vm_io)) flow" where
  "vm_ai_setup fuel asic io partn vmid address size_bytes dst write_en =
    (case vm_ai_prefix fuel asic io partn vmid address size_bytes dst write_en of
       Inl f \<Rightarrow> Inl f
     | Inr (Returned r) \<Rightarrow> Inr (Returned r)
     | Inr (Continue (ip, vmid, vm, io)) \<Rightarrow>
         if address < vm_page_table_start_addr vm \<or> address > vm_page_table_end_addr vm + 0xFFF
         then Inr (Returned (- 1, io_emit io
                [Ev_vm_message ''[ERROR]: Address is not in range of memory spanned by root page table of VM context'']))
         else Inr (Continue (ip, vmid, vm, io)))"

text \<open>
  The span of the root page table as the range check sees it: the start and the end
  address, when the call gets as far as the check.
\<close>

definition vm_span ::
  "fault + ((int \<times> 'w vm_io), (ip_block \<times> u32 \<times> vm_ai_state \<times> 'w vm_io)) flow
     \<Rightarrow> (u64 \<times> u64) option" where
  "vm_span r =
    (case r of
       Inr (Continue (ip, vmid, vm, io)) \<Rightarrow>
         Some (vm_page_table_start_addr vm, vm_page_table_end_addr vm)
     | _ \<Rightarrow> None)"

subsection \<open>GFX9+ translation: the page walk (access_vram_ai.c)\<close>

text \<open>
  A left shift of a \<open>uint64_t\<close> by an amount that is itself a \<open>uint64_t\<close>. C leaves the
  shift by 64 or more undefined; the model then gives 0.
\<close>

definition shl64u :: "u64 \<Rightarrow> u64 \<Rightarrow> u64" where
  "shl64u x n = push_bit (unat n) x"

text \<open>
  What stays the same during a call: the ASIC, the major version of the \<open>gfx\<close> block,
  the VMID, the pointer \<open>dst\<close> (0 for \<open>NULL\<close>), \<open>write_en\<close>, and the bound on the rounds
  of \<open>round_up_next_gib\<close>.
\<close>

record 'w vm_call =
  call_asic :: "'w vm_asic"
  call_maj :: int
  call_vmid :: u32
  call_dst :: u64
  call_write_en :: bool
  call_fuel :: nat

text \<open>
  The state and the local variables of \<open>umr_access_vram_ai\<close> during the walk.
  \<open>wk_off\<close> is \<open>pdst - dst\<close>.
\<close>

record 'w walk =
  wk_vm :: vm_ai_state
  wk_io :: "'w vm_io"
  wk_address :: u64
  wk_size :: u32
  wk_off :: nat
  wk_va_mask :: u64
  wk_offset_mask :: u64
  wk_current_depth :: int
  wk_total_vm_bits :: int
  wk_top_pdb_bits :: int

text \<open>
  \<open>access_translated_address\<close>: VRAM inside the AGP aperture in zero-frame-buffer mode
  and system memory go to \<open>access_sram\<close>, other VRAM through \<open>umr_access_vram\<close> with the
  linear hub. \<open>ptr\<close> is the pointer \<open>dst\<close>, \<open>wdata\<close> the bytes to write if any. The
  result is the value returned, the bytes stored at \<open>dst\<close> and the state.
\<close>

definition access_translated_address ::
  "'w vm_call \<Rightarrow> vm_ai_state \<Rightarrow> 'w vm_io \<Rightarrow> u64 \<Rightarrow> int \<Rightarrow> string \<Rightarrow> u64 \<Rightarrow> u32
     \<Rightarrow> u8 list option \<Rightarrow> fault + (int \<times> u8 list \<times> 'w vm_io)" where
  "access_translated_address call vm io addr sys name ptr len wdata =
    (let sram = (\<lambda>a.
           case asic_access_sram (call_asic call) (io_world io) a len wdata of
             (rv, bs, w') \<Rightarrow>
               (let io' = io\<lparr> io_world := w',
                              io_log := io_log io @ [Ev_access_sram a len (wdata \<noteq> None)] \<rparr>
                in if rv < 0
                   then Inr (- 1, bs, io_emit io'
                          [Ev_vm_message (''[ERROR]: Cannot read '' @ name @ '' entry at SYSRAM address'')])
                   else Inr (0, bs, io')))
     in if sys = 0 then
          (if vm_zfb vm \<and> vm_agp_bot vm \<le> addr \<and> addr < vm_agp_top vm
           then sram ((addr - vm_agp_bot vm) + vm_agp_base vm)
           else
             (case umr_access_vram_linear (call_fuel call) (call_asic call) io addr len ptr wdata of
                Inl f \<Rightarrow> Inl f
              | Inr (rv, bs, io') \<Rightarrow>
                  if rv < 0
                  then Inr (- 1, bs, io_emit io'
                         [Ev_vm_message (''[ERROR]: Cannot read '' @ name @ '' entry at VRAM address'')])
                  else Inr (0, bs, io')))
        else sram addr)"

text \<open>
  Reading a PDE or a PTE: eight bytes into a local 64-bit variable, whose address is
  aligned. Bytes the callback did not store keep their old value.
\<close>

definition entry_ptr :: u64 where
  "entry_ptr = 8"

definition read_entry ::
  "'w vm_call \<Rightarrow> vm_ai_state \<Rightarrow> 'w vm_io \<Rightarrow> u64 \<Rightarrow> u64 \<Rightarrow> string \<Rightarrow> u64
     \<Rightarrow> fault + (int \<times> u64 \<times> 'w vm_io)" where
  "read_entry call vm io addr system name old =
    (case access_translated_address call vm io addr (u64_to_int system) name entry_ptr 8 None of
       Inl f \<Rightarrow> Inl f
     | Inr (rv, bs, io') \<Rightarrow>
         Inr (rv, u64_of_bytes (take 8 (bs @ drop (length bs) (bytes_of_u64 old))), io'))"

text \<open>\<open>prepare_pde_to_pte\<close>.\<close>

definition prepare_pde_to_pte :: "vm_ai_state \<Rightarrow> int \<Rightarrow> int \<Rightarrow> vm_ai_state" where
  "prepare_pde_to_pte vm current_depth total_vm_bits =
    (let bfs = pde_frag_size (vm_pde_fields vm);
         bs = vm_page_table_block_size vm;
         start_bit = (if current_depth \<noteq> 0
                      then min (word_of_int (9 * (current_depth - 1)) + bs + 21) (word_of_int total_vm_bits)
                      else bfs + 12);
         end_bit = (if current_depth \<noteq> 0
                    then min (word_of_int (9 * current_depth) + bs + 21) (word_of_int total_vm_bits)
                    else bs + 21);
         log2 = end_bit - start_bit
     in vm\<lparr> vm_pde0_block_fragment_size := bfs,
             vm_log2_ptb_entries := log2,
             vm_ptb_mask := shl64u 1 log2 - 1,
             vm_pte_page_mask := shl64u 1 start_bit - 1 \<rparr>)"

text \<open>
  Storing the PDE just decoded in \<open>pde_array[pde_cnt++]\<close>, after the comparison with the
  entry that is there (which decides, in verbose mode, whether the PDE is printed), and
  the capture of the level for the caller.
\<close>

definition record_pde :: "'w vm_call \<Rightarrow> string \<Rightarrow> 'w walk \<Rightarrow> fault + 'w walk" where
  "record_pde call printer wk =
    (let vm = wk_vm wk; io = wk_io wk; cnt = vm_pde_cnt vm; asic = call_asic call
     in if cnt < 0 \<or> cnt \<ge> 8 then
          Inl (if asic_no_fold_vm_decode asic then Out_of_bounds_write else Out_of_bounds_read)
        else
          (let io = (if (asic_no_fold_vm_decode asic \<or> vm_pde_fields vm \<noteq> vm_pde_array vm ! nat cnt)
                        \<and> asic_verbose asic
                     then io_emit io [Ev_print printer] else io);
               vm' = vm\<lparr> vm_pde_array := (vm_pde_array vm)[nat cnt := vm_pde_fields vm],
                          vm_pde_cnt := cnt + 1 \<rparr>;
               io = (if vm_capturing vm then
                       io\<lparr> io_vmdata := map_option
                            (\<lambda>d. d\<lparr> pw_pde_idx := (pw_pde_idx d)(pw_levels d := vm_pde_idx vm),
                                    pw_pde_va_mask := (pw_pde_va_mask d)
                                       (pw_levels d := vm_va_tally vm + vm_page_table_start_addr vm),
                                    pw_pde_fields := (pw_pde_fields d)(pw_levels d := vm_pde_fields vm),
                                    pw_pde := (pw_pde d)(pw_levels d := vm_pde_entry vm),
                                    pw_levels := pw_levels d + 1 \<rparr>)
                            (io_vmdata io) \<rparr>
                     else io)
           in Inr (wk\<lparr> wk_vm := vm', wk_io := io \<rparr>)))"

text \<open>
  The head of the \<open>do\<close> loop (lines 962-1018): the walk of a page starts from the base
  PDE, whose bits of the address are those of the top-most PDB.
\<close>

definition vm_page_begin :: "'w vm_call \<Rightarrow> 'w walk \<Rightarrow> fault + 'w walk" where
  "vm_page_begin call wk =
    (let vm = wk_vm wk;
         dec = umr_decode_pde_entry (asic_decoders (call_asic call)) (vm_page_table_base_addr vm);
         total_vm_bits = total_vm_bits_of (vm_page_table_start_addr vm) (vm_page_table_end_addr vm);
         top_pdb_bits = top_pdb_bits_of total_vm_bits (vm_page_table_depth vm) (vm_page_table_block_size vm);
         va_mask = top_va_mask total_vm_bits top_pdb_bits;
         vm = vm\<lparr> vm_pde_entry := vm_page_table_base_addr vm,
                   vm_pte_idx := 0, vm_pte_entry := 0, vm_pte_addr := 0, vm_log2_ptb_entries := 0,
                   vm_pte_block_fragment_size := 0, vm_pte_fields := pte_zero, vm_pte_is_pde := False,
                   vm_pde_cnt := 0, vm_ptb_mask := 511, vm_pte_page_mask := 0xFFF,
                   vm_further := False, vm_pde_was_pte := False,
                   vm_pde_fields := fst dec,
                   vm_pde_address := pde_pte_base_addr (fst dec),
                   vm_va_tally := wk_address wk AND va_mask \<rparr>
     in record_pde call ''print_base''
          (wk\<lparr> wk_vm := vm, wk_io := io_emit (wk_io wk) (map Ev_err_msg (snd dec)),
               wk_va_mask := va_mask, wk_total_vm_bits := total_vm_bits,
               wk_top_pdb_bits := top_pdb_bits, wk_current_depth := vm_page_table_depth vm \<rparr>))"

text \<open>
  How a pass through the \<open>while (current_depth)\<close> loop ends: with \<open>return -1\<close>, at
  \<open>invalid_page\<close>, at \<open>pde_is_pte\<close>, or at the end of the loop body.
\<close>

datatype 's pde_exit = Pde_return 's | Pde_invalid 's | Pde_as_pte 's | Pde_next 's

definition vm_pde_step :: "'w vm_call \<Rightarrow> 'w walk \<Rightarrow> fault + 'w walk pde_exit" where
  "vm_pde_step call wk =
    (let vm = wk_vm wk; address = wk_address wk; cd = wk_current_depth wk;
         idx = pde_index (wk_total_vm_bits wk) (wk_top_pdb_bits wk) (vm_page_table_depth vm) cd address;
         va_mask = pde_va_mask (wk_total_vm_bits wk) (wk_top_pdb_bits wk) (vm_page_table_depth vm) cd
                     (wk_va_mask wk);
         vm = vm\<lparr> vm_pde_idx := idx, vm_pde_addr := vm_pde_address vm + idx * 8 \<rparr>
     in case read_entry call vm (wk_io wk) (vm_pde_addr vm) (pde_system (vm_pde_fields vm)) ''PDE''
               (vm_pde_entry vm) of
          Inl f \<Rightarrow> Inl f
        | Inr (rv, entry, io) \<Rightarrow>
           (let vm = vm\<lparr> vm_pde_entry := entry \<rparr>;
                wk = wk\<lparr> wk_vm := vm, wk_io := io, wk_va_mask := va_mask \<rparr>
            in if rv < 0 then Inr (Pde_return wk)
               else
                 (let dec = umr_decode_pde_entry (asic_decoders (call_asic call)) entry;
                      f = fst dec;
                      io = io_emit io (map Ev_err_msg (snd dec));
                      vm = vm\<lparr> vm_pde_fields := f \<rparr>
                  in if pde_pte f = 0 then
                       (let vm = vm\<lparr> vm_va_tally := vm_va_tally vm OR (address AND va_mask) \<rparr>;
                            vm = (if (asic_no_fold_vm_decode (call_asic call)
                                       \<or> vm_pde_fields vm \<noteq> vm_pde_array vm ! nat (vm_pde_cnt vm))
                                      \<and> asic_verbose (call_asic call)
                                  then vm\<lparr> vm_pte_is_pde := False \<rparr> else vm)
                        in case record_pde call ''print_pde'' (wk\<lparr> wk_vm := vm, wk_io := io \<rparr>) of
                             Inl e \<Rightarrow> Inl e
                           | Inr wk \<Rightarrow>
                              (let vm = wk_vm wk;
                                   f = (if pde_system f = 0
                                        then f\<lparr> pde_pte_base_addr := pde_pte_base_addr f - vm_fb_offset vm \<rparr>
                                        else f);
                                   vm = vm\<lparr> vm_pde_fields := f \<rparr>
                               in if pde_valid f = 0 then Inr (Pde_invalid (wk\<lparr> wk_vm := vm \<rparr>))
                                  else Inr (Pde_next
                                         (wk\<lparr> wk_vm := vm\<lparr> vm_pde_address := pde_pte_base_addr f \<rparr>,
                                              wk_current_depth := cd - 1 \<rparr>))))
                     else
                       Inr (Pde_as_pte
                         (wk\<lparr> wk_vm := prepare_pde_to_pte
                                (vm\<lparr> vm_pte_entry := vm_pde_entry vm, vm_pte_idx := vm_pde_idx vm,
                                      vm_pte_addr := vm_pde_addr vm, vm_pde_was_pte := True \<rparr>)
                                cd (wk_total_vm_bits wk),
                              wk_io := io \<rparr>)))))"

text \<open>
  The \<open>while (current_depth)\<close> loop. The first argument bounds the number of passes: the
  depth comes from a register, and a negative depth would not reach 0.
\<close>

fun vm_pde_levels :: "nat \<Rightarrow> 'w vm_call \<Rightarrow> 'w walk \<Rightarrow> fault + 'w walk pde_exit" where
  "vm_pde_levels fuel call wk =
    (if wk_current_depth wk = 0 then Inr (Pde_next wk)
     else
       (case fuel of
          0 \<Rightarrow> Inl Out_of_fuel
        | Suc fuel' \<Rightarrow>
           (case vm_pde_step call wk of
              Inr (Pde_next wk') \<Rightarrow> vm_pde_levels fuel' call wk'
            | r \<Rightarrow> r)))"

declare vm_pde_levels.simps [simp del]

text \<open>
  Lines 1112-1115, the label \<open>pte_further\<close>: the PTE is read from the block the last
  PDE points to. The result is the value of \<open>access_translated_address\<close>.
\<close>

definition vm_pte_fetch :: "'w vm_call \<Rightarrow> 'w walk \<Rightarrow> fault + (int \<times> 'w walk)" where
  "vm_pte_fetch call wk =
    (let vm = wk_vm wk;
         vm = vm\<lparr> vm_pte_addr := pde_pte_base_addr (vm_pde_fields vm) + vm_pte_idx vm * 8 \<rparr>
     in case read_entry call vm (wk_io wk) (vm_pte_addr vm) (pde_system (vm_pde_fields vm)) ''PTE''
               (vm_pte_entry vm) of
          Inl f \<Rightarrow> Inl f
        | Inr (rv, entry, io) \<Rightarrow>
            Inr (rv, wk\<lparr> wk_vm := vm\<lparr> vm_pte_entry := entry \<rparr>, wk_io := io \<rparr>))"

text \<open>
  Lines 1121-1165: the VA mask of the PTE, computed unless the walk is already behind a
  PTE-further.
\<close>

definition vm_pte_va_mask :: "'w walk \<Rightarrow> u64" where
  "vm_pte_va_mask wk =
    (let vm = wk_vm wk; cd = wk_current_depth wk; bs = vm_page_table_block_size vm;
         total = (word_of_int (wk_total_vm_bits wk) :: u64)
     in if vm_further vm then wk_va_mask wk
        else
          (let bits_to_use = (if pde_pte (vm_pde_fields vm) \<noteq> 0
                              then u64_to_int (min (word_of_int (9 * cd) + bs + 21) total)
                              else u64_to_int (bs + 21));
               lower_bits_to_ignore = (if pde_pte (vm_pde_fields vm) \<noteq> 0
                              then u64_to_int (min (word_of_int (9 * (cd - 1)) + bs + 21) total)
                              else u64_to_int (12 + vm_pde0_block_fragment_size vm))
           in (shl64 1 bits_to_use - 1) AND NOT (shl64 1 lower_bits_to_ignore - 1)))"

text \<open>
  Lines 1116-1246, from the label \<open>pde_is_pte\<close> to the \<open>goto pte_further\<close>: the PTE is
  decoded, and when it has to be walked as a PDE the state is set up for one more level.
  The result tells whether the jump is taken. \<open>1 << num_entry_bits\<close> is a shift of an
  \<open>int\<close>, computed here in 32 bits.
\<close>

definition vm_pte_decode :: "'w vm_call \<Rightarrow> 'w walk \<Rightarrow> 'w walk \<times> bool" where
  "vm_pte_decode call wk =
    (let asic = call_asic call; vm = wk_vm wk; address = wk_address wk;
         dec = umr_decode_pte_entry (asic_decoders asic) (vm_pte_entry vm);
         io = io_emit (wk_io wk) (map Ev_err_msg (snd dec));
         va_mask = vm_pte_va_mask wk;
         is_pde = pte_is_pde_of (call_maj call) (fst dec);
         pf = (fst dec)\<lparr> pte_pte_mask := va_mask \<rparr>;
         vm = vm\<lparr> vm_pte_fields := pf, vm_pte_is_pde := is_pde, vm_pte_block_fragment_size := 0 \<rparr>;
         vdec = umr_decode_pde_entry (asic_decoders asic) (vm_pte_entry vm);
         vm = (if asic_verbose asic then
                 (if is_pde
                  then vm\<lparr> vm_pde_addr := vm_pte_addr vm, vm_pde_idx := vm_pte_idx vm,
                            vm_pde_entry := vm_pte_entry vm, vm_pde_fields := fst vdec,
                            vm_va_tally := vm_va_tally vm OR (address AND va_mask) \<rparr>
                  else vm\<lparr> vm_va_tally := vm_va_tally vm OR (address AND va_mask) \<rparr>)
               else vm);
         io = (if asic_verbose asic then
                 (if is_pde then io_emit io (map Ev_err_msg (snd vdec) @ [Ev_print ''print_pde''])
                  else io_emit io [Ev_print ''print_pte''])
               else io)
     in if is_pde then
          (let pdec = umr_decode_pde_entry (asic_decoders asic) (vm_pte_entry vm);
               f = (if call_maj call \<ge> 11 \<and> pde_tfs_addr (vm_pde_fields vm) \<noteq> 0
                       \<and> wk_current_depth wk = 0 \<and> \<not> vm_pde_was_pte vm
                    then (fst pdec)\<lparr> pde_pte_base_addr :=
                            pde_pte_base_addr (fst pdec) + pde_pte_base_addr (vm_pde_fields vm) \<rparr>
                    else if pde_system (fst pdec) = 0
                    then (fst pdec)\<lparr> pde_pte_base_addr := pde_pte_base_addr (fst pdec) - vm_fb_offset vm \<rparr>
                    else fst pdec);
               pte_bfs = (ucast (pde_frag_size f) :: u32);
               last_level_ptb_bits = sint (12 + pte_bfs);
               num_entry_bits = (ucast (vm_pde0_block_fragment_size vm - ucast pte_bfs) :: u32);
               upper_mask = (ucast (shl64u 1 (12 + vm_pde0_block_fragment_size vm) - 1) :: u32);
               pte_page_mask = shl64 1 last_level_ptb_bits - 1;
               vm = vm\<lparr> vm_pde_fields := f,
                         vm_pte_block_fragment_size := pte_bfs,
                         vm_pte_idx := shr64 address last_level_ptb_bits
                                         AND scast ((push_bit (unat num_entry_bits) 1 :: u32) - 1),
                         vm_pte_page_mask := pte_page_mask,
                         vm_pde_cnt := vm_pde_cnt vm + 1,
                         vm_further := True \<rparr>
           in (wk\<lparr> wk_vm := vm, wk_io := io_emit io (map Ev_err_msg (snd pdec)),
                    wk_va_mask := va_mask AND (ucast upper_mask AND NOT pte_page_mask) \<rparr>, True))
        else (wk\<lparr> wk_vm := vm, wk_io := io, wk_va_mask := va_mask \<rparr>, False))"

text \<open>
  The walk from \<open>pte_further\<close> (with the fetch) or from \<open>pde_is_pte\<close> (without) until a
  PTE is reached that is not walked as a PDE. A page table may send the walk in a
  circle; the first argument bounds the number of PTEs decoded. The result is the value
  returned by a failed fetch, if any.
\<close>

fun vm_pte_levels :: "nat \<Rightarrow> 'w vm_call \<Rightarrow> bool \<Rightarrow> 'w walk \<Rightarrow> fault + (int \<times> 'w walk)" where
  "vm_pte_levels 0 call fetch wk = Inl Out_of_fuel"
| "vm_pte_levels (Suc fuel) call fetch wk =
    (case (if fetch then vm_pte_fetch call wk else Inr (0, wk)) of
       Inl f \<Rightarrow> Inl f
     | Inr (rv, wk1) \<Rightarrow>
         if rv < 0 then Inr (- 1, wk1)
         else
           (case vm_pte_decode call wk1 of
              (wk2, again) \<Rightarrow>
                if again then vm_pte_levels fuel call True wk2 else Inr (0, wk2)))"

text \<open>
  How the translation of a page ends: with \<open>return -1\<close>, at \<open>invalid_page\<close>, or with the
  page accessed.
\<close>

datatype 's page_exit = Page_return 's | Page_invalid 's | Page_done 's

text \<open>
  Lines 1248-1339: the physical address of the page, the part of the request that lies
  in it, and the access to it.
\<close>

definition vm_page_access :: "'w vm_call \<Rightarrow> 'w walk \<Rightarrow> fault + 'w walk page_exit" where
  "vm_page_access call wk =
    (let asic = call_asic call; vm = wk_vm wk; io = wk_io wk; address = wk_address wk;
         cd = wk_current_depth wk;
         pf = vm_pte_fields vm;
         pf = (if pte_system pf = 0
               then pf\<lparr> pte_page_base_addr := pte_page_base_addr pf - vm_fb_offset vm \<rparr> else pf);
         vm = vm\<lparr> vm_pte_fields := pf \<rparr>
     in if call_dst call \<noteq> 0 \<and> pte_prt pf = 0 \<and> pte_valid pf = 0
        then Inr (Page_invalid (wk\<lparr> wk_vm := vm \<rparr>))
        else
          (let offset_mask =
                 (if vm_pde_was_pte vm \<and> cd \<noteq> 0
                  then shl64u 1 (word_of_int ((cd - 1) * 9) + (21 + vm_page_table_block_size vm)) - 1
                  else if \<not> vm_further vm
                  then shl64u 1 (word_of_int (cd * 9) + (12 + vm_pde0_block_fragment_size vm)) - 1
                  else shl64u 1 (ucast (12 + vm_pte_block_fragment_size vm)) - 1);
               page_start_addr = asic_gpu_bus_to_cpu_address asic (pte_page_base_addr pf);
               start_addr = page_start_addr + (address AND offset_mask);
               io = (if vm_capturing vm then
                       io\<lparr> io_vmdata := map_option
                            (\<lambda>d. d\<lparr> pw_pte_idx := vm_pte_idx vm,
                                    pw_pte_va_mask := vm_va_tally vm + vm_page_table_start_addr vm,
                                    pw_pte_offset := address AND offset_mask,
                                    pw_pte := vm_pte_entry vm,
                                    pw_pte_fields := pf,
                                    pw_pte_page_mask := offset_mask,
                                    pw_pte_start_addr := start_addr \<rparr>)
                            (io_vmdata io) \<rparr>
                     else io);
               page_end_addr = page_start_addr + vm_pte_page_mask vm + 1;
               chunk_size = (if start_addr + ucast (wk_size wk) > page_end_addr
                             then (ucast (page_end_addr - start_addr) :: u32) else wk_size wk);
               io = (if asic_verbose asic then
                       io_emit
                         (if vm_capturing vm then
                            io\<lparr> io_vmdata := map_option
                                 (\<lambda>d. if pte_system pf = 1
                                       then d\<lparr> pw_sys_or_vram := 1, pw_phys := start_addr \<rparr>
                                       else d\<lparr> pw_sys_or_vram := 0, pw_phys := start_addr + vm_fb_offset vm \<rparr>)
                                 (io_vmdata io) \<rparr>
                          else io)
                         [Ev_vm_message ''Computed address we will read from'']
                     else io);
               done = (\<lambda>io. Page_done
                         (wk\<lparr> wk_vm := vm\<lparr> vm_capturing := False \<rparr>, wk_io := io,
                              wk_offset_mask := offset_mask,
                              wk_off := (if call_dst call \<noteq> 0 then wk_off wk + unat chunk_size else wk_off wk),
                              wk_size := wk_size wk - chunk_size,
                              wk_address := address + ucast chunk_size \<rparr>))
           in if pte_valid pf \<noteq> 0 then
                (if call_dst call \<noteq> 0 then
                   (case access_translated_address call vm io start_addr (u64_to_int (pte_system pf))
                           ''user page'' (call_dst call + of_nat (wk_off wk)) chunk_size
                           (if call_write_en call
                            then Some (load_bytes (io_data io) (wk_off wk) (unat chunk_size)) else None) of
                      Inl f \<Rightarrow> Inl f
                    | Inr (rv, bs, io') \<Rightarrow>
                       (let io' = io'\<lparr> io_data := store_bytes (io_data io') (wk_off wk) bs \<rparr>
                        in if rv < 0
                           then Inr (Page_return (wk\<lparr> wk_vm := vm, wk_io := io' \<rparr>))
                           else Inr (done io')))
                 else Inr (done io))
              else
                Inr (done (if asic_verbose asic \<and> pte_prt pf \<noteq> 0
                           then io_emit io [Ev_vm_message ''Page is set as PRT so we cannot read/write it, skipping ahead.'']
                           else io))))"

text \<open>One pass through the body of the \<open>do\<close> loop: the translation of one page.\<close>

definition vm_page :: "nat \<Rightarrow> 'w vm_call \<Rightarrow> 'w walk \<Rightarrow> fault + 'w walk page_exit" where
  "vm_page fuel call wk =
    (case vm_page_begin call wk of
       Inl f \<Rightarrow> Inl f
     | Inr wk0 \<Rightarrow>
        (case vm_pde_levels fuel call wk0 of
           Inl f \<Rightarrow> Inl f
         | Inr (Pde_return wk1) \<Rightarrow> Inr (Page_return wk1)
         | Inr (Pde_invalid wk1) \<Rightarrow> Inr (Page_invalid wk1)
         | Inr x \<Rightarrow>
            (let fetch = (case x of Pde_as_pte wk1 \<Rightarrow> False | _ \<Rightarrow> True);
                 wk1 = (case x of
                          Pde_next wk1 \<Rightarrow>
                            (let vm = prepare_pde_to_pte (wk_vm wk1) (wk_current_depth wk1)
                                        (wk_total_vm_bits wk1)
                             in wk1\<lparr> wk_vm := vm\<lparr> vm_pte_idx :=
                                      drop_bit (unat (12 + vm_pde0_block_fragment_size vm)) (wk_address wk1)
                                        AND vm_ptb_mask vm \<rparr> \<rparr>)
                        | Pde_as_pte wk1 \<Rightarrow> wk1
                        | Pde_return wk1 \<Rightarrow> wk1
                        | Pde_invalid wk1 \<Rightarrow> wk1)
             in case vm_pte_levels fuel call fetch wk1 of
                  Inl f \<Rightarrow> Inl f
                | Inr (rv, wk2) \<Rightarrow>
                    if rv < 0 then Inr (Page_return wk2) else vm_page_access call wk2)))"

text \<open>
  The \<open>do ... while (size)\<close> loop. A page of which no byte is accessed leaves \<open>size\<close> as
  it is; the first argument bounds the number of pages, and of the passes of the loops
  inside.
\<close>

fun vm_pages :: "nat \<Rightarrow> 'w vm_call \<Rightarrow> 'w walk \<Rightarrow> fault + 'w walk page_exit" where
  "vm_pages 0 call wk = Inl Out_of_fuel"
| "vm_pages (Suc fuel) call wk =
    (case vm_page fuel call wk of
       Inr (Page_done wk') \<Rightarrow>
         if wk_size wk' \<noteq> 0 then vm_pages fuel call wk' else Inr (Page_done wk')
     | r \<Rightarrow> r)"

text \<open>
  \<open>umr_access_vram_ai\<close>: the value returned and what the call leaves behind. The first
  argument bounds the loops.
\<close>

definition umr_access_vram_ai ::
  "nat \<Rightarrow> 'w vm_asic \<Rightarrow> 'w vm_io \<Rightarrow> int \<Rightarrow> u32 \<Rightarrow> u64 \<Rightarrow> u32 \<Rightarrow> u64 \<Rightarrow> bool
     \<Rightarrow> fault + (int \<times> 'w vm_io)" where
  "umr_access_vram_ai fuel asic io partn vmid address size_bytes dst write_en =
    (case vm_ai_setup fuel asic io partn vmid address size_bytes dst write_en of
       Inl f \<Rightarrow> Inl f
     | Inr (Returned r) \<Rightarrow> Inr r
     | Inr (Continue (ip, vmid', vm, io')) \<Rightarrow>
        (let call = \<lparr> call_asic = asic, call_maj = maj ip, call_vmid = vmid', call_dst = dst,
                      call_write_en = write_en, call_fuel = fuel \<rparr>;
             wk = \<lparr> wk_vm = vm, wk_io = io', wk_address = address - vm_page_table_start_addr vm,
                    wk_size = size_bytes, wk_off = 0, wk_va_mask = 0, wk_offset_mask = 0,
                    wk_current_depth = 0, wk_total_vm_bits = 0, wk_top_pdb_bits = 0 \<rparr>
         in case vm_pages fuel call wk of
              Inl f \<Rightarrow> Inl f
            | Inr (Page_return wk') \<Rightarrow> Inr (- 1, wk_io wk')
            | Inr (Page_invalid wk') \<Rightarrow>
                Inr (- 1, io_emit (wk_io wk') [Ev_vm_message ''[ERROR]: No valid mapping for''])
            | Inr (Page_done wk') \<Rightarrow>
                Inr (0, io_emit (wk_io wk')
                      ((if asic_verbose asic then [Ev_vm_message ''=== Completed VM Decoding ===''] else [])
                       @ (if asic_has_va_addr_decode asic
                          then [Ev_va_addr_decode (vm_pde_array (wk_vm wk')) (vm_pde_cnt (wk_vm wk'))
                                  (vm_pte_fields (wk_vm wk'))]
                          else [])))))"

subsection \<open>The entry point (read_vram.c)\<close>

text \<open>
  \<open>umr_access_vram\<close>. \<open>data\<close> is the value of the pointer, \<open>io_data\<close> what it points to.
  The alignment checks come first. Process memory is copied directly. Addresses of a VM
  hub are cut to 48 bits on families after VI, and the page walk for them is
  \<open>umr_access_vram_vi\<close> up to GFX8 (taken as given) and \<open>umr_access_vram_ai\<close> from GFX9
  on. \<open>maj\<close> is not initialised when the ASIC has no \<open>gfx\<close> block.
\<close>

definition umr_access_vram ::
  "nat \<Rightarrow> 'w vm_asic \<Rightarrow> 'w vm_io \<Rightarrow> int \<Rightarrow> u32 \<Rightarrow> u64 \<Rightarrow> u32 \<Rightarrow> u64 \<Rightarrow> bool
     \<Rightarrow> fault + (int \<times> 'w vm_io)" where
  "umr_access_vram fuel asic io partn vmid address size_bytes data write_en =
    (let ver = umr_gfx_get_ip_ver (asic_decoders asic);
         hub = vmid AND 0xFF00
     in case vram_misaligned address size_bytes data of
          Some msg \<Rightarrow> Inr (- 1, io_emit io [Ev_err_msg msg])
        | None \<Rightarrow>
           if hub = hub_PROCESS (asic_hubs asic) then
             (if data = 0 then Inl Null_dereference
              else if \<not> write_en then
                Inr (0, io\<lparr> io_data := store_bytes (io_data io) 0
                                 (asic_process_read asic (io_world io) address size_bytes),
                             io_log := io_log io @ [Ev_process_memcpy address size_bytes False] \<rparr>)
              else
                Inr (0, io\<lparr> io_world := asic_process_write asic (io_world io) address
                                 (load_bytes (io_data io) 0 (unat size_bytes)),
                             io_log := io_log io @ [Ev_process_memcpy address size_bytes True] \<rparr>))
           else
             (let address = (if hub \<noteq> hub_LINEAR (asic_hubs asic) \<and> asic_family_gt_VI asic
                             then address AND 0xFFFFFFFFFFFF else address)
              in if hub = hub_LINEAR (asic_hubs asic) then
                   (case access_linear_hub fuel asic io address size_bytes
                           (if write_en then Some (load_bytes (io_data io) 0 (unat size_bytes)) else None) of
                      Inl f \<Rightarrow> Inl f
                    | Inr (rv, bs, io') \<Rightarrow> Inr (rv, io'\<lparr> io_data := store_bytes (io_data io') 0 bs \<rparr>))
                 else
                   (case ver of
                      None \<Rightarrow> Inl Uninitialised_read
                    | Some (mj, mn) \<Rightarrow>
                        if mj \<le> 8
                        then Inr (asic_access_vram_vi asic
                                    (io_emit io [Ev_access_vram_vi vmid address size_bytes write_en])
                                    vmid address size_bytes data write_en)
                        else umr_access_vram_ai fuel asic io partn vmid address size_bytes data write_en)))"

subsection \<open>What a call is judged by, and an ASIC for concrete runs\<close>

text \<open>
  Of the result of a call: the value returned, the memory behind the callbacks, the
  caller's buffer and the memory accesses made, in order.
\<close>

definition call_summary ::
  "fault + (int \<times> 'w vm_io) \<Rightarrow> fault + (int \<times> 'w \<times> u8 list \<times> vm_event list)" where
  "call_summary r =
    (case r of
       Inl f \<Rightarrow> Inl f
     | Inr (rv, io) \<Rightarrow> Inr (rv, io_world io, io_data io, filter is_memory_access (io_log io)))"

text \<open>
  A call is quiet when it leaves the memory and the caller's buffer as they were and
  adds no memory access to the record.
\<close>

definition io_quiet :: "'w vm_io \<Rightarrow> 'w vm_io \<Rightarrow> bool" where
  "io_quiet io io' =
    (io_world io' = io_world io \<and> io_data io' = io_data io \<and>
     length (io_log io) \<le> length (io_log io') \<and>
     take (length (io_log io)) (io_log io') = io_log io \<and>
     filter is_memory_access (drop (length (io_log io)) (io_log io')) = [])"

text \<open>
  A memory for concrete runs: 64-bit entries by address (a multiple of 8), 0 where there
  is none. Reads yield the bytes; writes are accepted and dropped.
\<close>

type_synonym sample_memory = "(u64 \<times> u64) list"

definition sample_byte :: "sample_memory \<Rightarrow> u64 \<Rightarrow> u8" where
  "sample_byte m a =
    (case map_of m (a AND NOT 7) of
       None \<Rightarrow> 0
     | Some e \<Rightarrow> ucast (drop_bit (8 * unat (a AND 7)) e))"

definition sample_read :: "sample_memory mem_callback" where
  "sample_read m a n wdata =
    (case wdata of
       None \<Rightarrow> (0, map (\<lambda>i. sample_byte m (a + of_nat i)) [0 ..< unat n], m)
     | Some bs \<Rightarrow> (0, [], m))"

text \<open>
  The registers of the sample ASIC: VMID 3 of the GFX hub has a flat page table
  (\<open>PAGE_TABLE_DEPTH = 0\<close>) from address 0 to the page at \<open>0xF000\<close>, with the base PDE
  \<open>0x100001\<close> (valid, in VRAM at \<open>0x100000\<close>); every other register reads 0. The two
  fields of \<open>VM_CONTEXTx_CNTL\<close> are bits 1-2 and 3-6.
\<close>

definition sample_reg :: "sample_memory \<Rightarrow> string \<Rightarrow> int \<Rightarrow> string \<Rightarrow> u64" where
  "sample_reg m hub partn name =
    (if name = ''mmVM_CONTEXT3_PAGE_TABLE_END_ADDR_LO32'' then 0xF
     else if name = ''mmVM_CONTEXT3_PAGE_TABLE_BASE_ADDR_LO32'' then 0x100001
     else if name = ''mmVM_CONTEXT3_CNTL'' then 1
     else 0)"

definition sample_bitslice :: "string \<Rightarrow> int \<Rightarrow> string \<Rightarrow> string \<Rightarrow> u64 \<Rightarrow> u64" where
  "sample_bitslice hub partn name field v =
    (if field = ''PAGE_TABLE_DEPTH'' then drop_bit 1 v AND 3
     else if field = ''PAGE_TABLE_BLOCK_SIZE'' then drop_bit 3 v AND 15
     else if field = ''SYSTEM_ACCESS_MODE'' then drop_bit 3 v AND 3
     else 0)"

definition sample_hubs :: hub_ids where
  "sample_hubs =
     \<lparr> hub_LINEAR = 0xFF00, hub_GFX = 0, hub_MM = 0x100, hub_MM_VC0 = 0x200, hub_MM_VC1 = 0x300,
       hub_USER = 0x400, hub_PROCESS = 0x500 \<rparr>"

definition sample_vm_asic :: "sample_memory vm_asic" where
  "sample_vm_asic =
     \<lparr> asic_decoders = gfx_asic 9 0,
       asic_hubs = sample_hubs,
       asic_family_gt_VI = True, asic_family_eq_AI = True, asic_family_ge_NV = False,
       asic_verbose = False, asic_no_fold_vm_decode = False, asic_hub_name = ''gfx'',
       asic_use_xgmi = False, asic_xgmi_callbacks_applied = False, asic_xgmi_nodes = [],
       asic_uq_active = False,
       asic_uq_START_ADDR_LO32 = 0, asic_uq_START_ADDR_HI32 = 0,
       asic_uq_END_ADDR_LO32 = 0, asic_uq_END_ADDR_HI32 = 0,
       asic_uq_BASE_ADDR_LO32 = 0, asic_uq_BASE_ADDR_HI32 = 0,
       asic_uq_num_level = 0, asic_uq_block_size = 0,
       asic_read_reg = sample_reg,
       asic_bitslice_reg = sample_bitslice,
       asic_bitslice_compose = sample_bitslice,
       asic_find_reg_data = (\<lambda>ip partn name. False),
       asic_access_sram = sample_read,
       asic_access_linear_vram = (\<lambda>node. sample_read),
       asic_process_read = (\<lambda>m a n. map (\<lambda>i. sample_byte m (a + of_nat i)) [0 ..< unat n]),
       asic_process_write = (\<lambda>m a bs. m),
       asic_gpu_bus_to_cpu_address = (\<lambda>a. a),
       asic_has_va_addr_decode = False,
       asic_access_vram_vi = (\<lambda>io vmid address size_bytes data write_en. (- 1, io)) \<rparr>"

text \<open>
  The VRAM of the sample: the last entry of the page table at \<open>0x100000\<close> maps the page
  at \<open>0xF000\<close> to the page at \<open>0x200000\<close>, which starts with the two words
  \<open>0xAABBCCDD\<close> and \<open>0x11223344\<close>.
\<close>

definition sample_vram :: sample_memory where
  "sample_vram = [(0x100078, 0x200001), (0x200000, 0x11223344AABBCCDD)]"

definition sample_io :: "u8 list \<Rightarrow> sample_memory vm_io" where
  "sample_io buf =
     \<lparr> io_world = sample_vram, io_data = buf, io_log = [], io_uq_va = 0, io_vmdata = None \<rparr>"


section \<open>Properties of the field decoders\<close>

lemma mask5_numeral: "(0x1F :: u64) = mask 5"
  by (simp add: mask_eq_exp_minus_1)

lemma pde_addr_mask: "(0xFFFFFFFFFFC0 :: u64) = push_bit 6 (mask 42)"
  by (simp add: mask_eq_exp_minus_1 push_bit_eq_mult)

lemma pte_addr_mask: "(0xFFFFFFFFF000 :: u64) = push_bit 12 (mask 36)"
  by (simp add: mask_eq_exp_minus_1 push_bit_eq_mult)

lemma flag_bit0: "((w::u64) AND 1) = of_bool (bit w 0)"
  by (simp add: and_one_eq bit_iff_odd_drop_bit mod2_eq_if)

lemma field5_bit: "bit (drop_bit k (w::u64) AND 0x1F) n \<longleftrightarrow> n < 5 \<and> bit w (k + n)"
  unfolding mask5_numeral by (auto simp: bit_simps)

lemma pde_addr_bit: "bit ((w::u64) AND 0xFFFFFFFFFFC0) n \<longleftrightarrow> 6 \<le> n \<and> n \<le> 47 \<and> bit w n"
  unfolding pde_addr_mask by (auto simp: bit_simps)

lemma pde_switch_gfx9_10:
  assumes "mj = 9 \<or> mj = 10"
  shows "decode_pde_switch mj mn raw =
     \<lparr> pde_frag_size = drop_bit 59 raw AND 0x1F,
         pde_pte_base_addr = raw AND 0xFFFFFFFFFFC0,
         pde_valid = of_bool (bit raw 0),
         pde_system = of_bool (bit raw 1),
         pde_coherent = of_bool (bit raw 2),
         pde_pte = of_bool (bit raw 54),
         pde_further = of_bool (bit raw 56),
         pde_tfs_addr = 0,
         pde_llc_noalloc = (if mj = 10 \<and> mn \<ge> 3 then of_bool (bit raw 58) else 0),
         pde_mtype = 0, pde_pa_rsvd = 0, pde_mall_reuse = 0 \<rparr>"
proof (cases "mj = 9")
  case True
  then show ?thesis
    by (simp add: decode_pde_switch_def pde_zero_def flag_bit0 bit_drop_bit_eq)
next
  case False
  with assms have "mj = 10" by simp
  then show ?thesis
    by (cases "mn \<ge> 3") (simp_all add: decode_pde_switch_def pde_zero_def flag_bit0 bit_drop_bit_eq)
qed

text \<open>
  Claim C8. On GFX9 and GFX10 \<open>umr_decode_pde_entry\<close> extracts, from any raw 64-bit entry,
  \<open>frag_size\<close> = bits 63:59, \<open>pte_base_addr\<close> = bits 47:6 in place (the entry masked with
  \<open>0xFFFFFFFFFFC0\<close>), \<open>valid\<close> = bit 0, \<open>system\<close> = bit 1, \<open>coherent\<close> = bit 2,
  \<open>pte\<close> = bit 54, \<open>further\<close> = bit 56, and \<open>llc_noalloc\<close> = bit 58 exactly when the
  block is GFX10 with minor version 3 or more; every other field stays zero and nothing is
  printed.
\<close>

theorem pde_gfx9_gfx10_layout:
  assumes ip: "find_ip_block asic ''gfx'' (options_vm_partition asic) = Some ip"
    and gen: "maj ip = 9 \<or> maj ip = 10"
  shows "umr_decode_pde_entry asic raw =
     (\<lparr> pde_frag_size = drop_bit 59 raw AND 0x1F,
         pde_pte_base_addr = raw AND 0xFFFFFFFFFFC0,
         pde_valid = of_bool (bit raw 0),
         pde_system = of_bool (bit raw 1),
         pde_coherent = of_bool (bit raw 2),
         pde_pte = of_bool (bit raw 54),
         pde_further = of_bool (bit raw 56),
         pde_tfs_addr = 0,
         pde_llc_noalloc = (if maj ip = 10 \<and> minor ip \<ge> 3 then of_bool (bit raw 58) else 0),
         pde_mtype = 0, pde_pa_rsvd = 0, pde_mall_reuse = 0 \<rparr>, [])
   \<and> (\<forall>n. bit (pde_frag_size (fst (umr_decode_pde_entry asic raw))) n \<longleftrightarrow> n < 5 \<and> bit raw (59 + n))
   \<and> (\<forall>n. bit (pde_pte_base_addr (fst (umr_decode_pde_entry asic raw))) n
           \<longleftrightarrow> 6 \<le> n \<and> n \<le> 47 \<and> bit raw n)"
proof -
  have eq: "umr_decode_pde_entry asic raw = (decode_pde_switch (maj ip) (minor ip) raw, [])"
    by (simp add: umr_decode_pde_entry_def ip)
  show ?thesis
    unfolding eq pde_switch_gfx9_10 [OF gen] by (simp add: field5_bit pde_addr_bit)
qed

theorem pde_gfx9_gfx10_layout_witness:
  "find_ip_block (gfx_asic 10 3) ''gfx'' (options_vm_partition (gfx_asic 10 3)) = Some \<lparr> maj = 10, minor = 3 \<rparr>
   \<and> umr_decode_pde_entry (gfx_asic 10 3) 0xFD40000012345047 =
     (\<lparr> pde_frag_size = 0x1F, pde_pte_base_addr = 0x12345040, pde_valid = 1, pde_system = 1,
         pde_coherent = 1, pde_pte = 1, pde_further = 1, pde_tfs_addr = 0, pde_llc_noalloc = 1,
         pde_mtype = 0, pde_pa_rsvd = 0, pde_mall_reuse = 0 \<rparr>, [])"
proof -
  have h: "find_ip_block (gfx_asic 10 3) ''gfx'' (options_vm_partition (gfx_asic 10 3)) = Some \<lparr> maj = 10, minor = 3 \<rparr>"
    by (simp add: gfx_asic_def)
  have g: "maj \<lparr> maj = 10, minor = 3 \<rparr> = 9 \<or> maj \<lparr> maj = 10, minor = 3 \<rparr> = 10" by simp
  have b: "bit (0xFD40000012345047 :: u64) 0" "bit (0xFD40000012345047 :: u64) 1"
    "bit (0xFD40000012345047 :: u64) 2" "bit (0xFD40000012345047 :: u64) 54"
    "bit (0xFD40000012345047 :: u64) 56" "bit (0xFD40000012345047 :: u64) 58"
    by (simp_all add: bit_iff_odd_drop_bit drop_bit_eq_div)
  have v: "drop_bit 59 (0xFD40000012345047 :: u64) AND 0x1F = 0x1F"
     "(0xFD40000012345047 :: u64) AND 0xFFFFFFFFFFC0 = 0x12345040"
    by (simp_all add: drop_bit_eq_div)
  show ?thesis
    using pde_gfx9_gfx10_layout [OF h g, of "0xFD40000012345047"] h b v by simp
qed

lemma pde_switch_unrecognized:
  "mj \<noteq> 9 \<Longrightarrow> mj \<noteq> 10 \<Longrightarrow> mj \<noteq> 11 \<Longrightarrow> mj \<noteq> 12 \<Longrightarrow> decode_pde_switch mj mn raw = pde_zero"
  by (simp add: decode_pde_switch_def)

lemma pte_fields_unrecognized:
  "mj \<noteq> 9 \<Longrightarrow> mj \<noteq> 10 \<Longrightarrow> mj \<noteq> 11 \<Longrightarrow> mj \<noteq> 12 \<Longrightarrow>
   decode_pte_fields mj mn raw = pte_zero\<lparr> pte_page_base_addr := raw AND 0xFFFFFFFFF000 \<rparr>"
  by (simp add: decode_pte_fields_def decode_pte_switch_def)

text \<open>
  Claim C2, as amended. Both decoders are total, and once the \<open>gfx\<close> IP block is found
  their result depends on nothing but the raw entry and the block's major and minor
  version: two ASICs of the same generation decode the same raw entry to the same record,
  and no message is printed. For a major version outside 9..12 \<open>umr_decode_pde_entry\<close>
  returns the all-zero record, and \<open>umr_decode_pte_entry\<close> returns the record whose fields
  are all zero except \<open>page_base_addr\<close>, which is the raw entry masked with
  \<open>0xFFFFFFFFF000\<close>: the address is extracted after the switch, for every generation.
\<close>

theorem decoders_pure_total:
  assumes ip1: "find_ip_block a1 ''gfx'' (options_vm_partition a1) = Some ip1"
    and ip2: "find_ip_block a2 ''gfx'' (options_vm_partition a2) = Some ip2"
    and same: "maj ip1 = maj ip2" "minor ip1 = minor ip2"
  shows "umr_decode_pde_entry a1 raw = umr_decode_pde_entry a2 raw
       \<and> umr_decode_pte_entry a1 raw = umr_decode_pte_entry a2 raw
       \<and> snd (umr_decode_pde_entry a1 raw) = []
       \<and> snd (umr_decode_pte_entry a1 raw) = []
       \<and> (maj ip1 \<notin> {9, 10, 11, 12} \<longrightarrow>
            fst (umr_decode_pde_entry a1 raw) = pde_zero
          \<and> fst (umr_decode_pte_entry a1 raw)
              = pte_zero\<lparr> pte_page_base_addr := raw AND 0xFFFFFFFFF000 \<rparr>)"
  using assms
  by (simp add: umr_decode_pde_entry_def umr_decode_pte_entry_def
      pde_switch_unrecognized pte_fields_unrecognized)

theorem decoders_pure_total_witness:
  "find_ip_block (gfx_asic 13 0) ''gfx'' (options_vm_partition (gfx_asic 13 0)) = Some \<lparr> maj = 13, minor = 0 \<rparr>
   \<and> maj \<lparr> maj = 13, minor = 0 \<rparr> \<notin> {9, 10, 11, 12}
   \<and> umr_decode_pde_entry (gfx_asic 13 0) 0x8000000000345047 = (pde_zero, [])
   \<and> umr_decode_pte_entry (gfx_asic 13 0) 0x8000000000345047
        = (pte_zero\<lparr> pte_page_base_addr := 0x345000 \<rparr>, [])"
proof -
  have h: "find_ip_block (gfx_asic 13 0) ''gfx'' (options_vm_partition (gfx_asic 13 0)) = Some \<lparr> maj = 13, minor = 0 \<rparr>"
    by (simp add: gfx_asic_def)
  have v: "(0x8000000000345047 :: u64) AND 0xFFFFFFFFF000 = 0x345000" by simp
  show ?thesis
    using decoders_pure_total [OF h h, of "0x8000000000345047"] h v
    by (simp add: prod_eq_iff)
qed

text \<open>
  The claim as written fails for the PTE decoder: on a GFX major version it does not
  recognise (13 here) the decoded page base address is not zero.
\<close>

theorem pte_unrecognized_not_zero_counterexample:
  "fst (umr_decode_pte_entry (gfx_asic 13 0) 0x8000000000345047) \<noteq> pte_zero"
  by (simp add: umr_decode_pte_entry_def gfx_asic_def pte_fields_unrecognized pte_zero_def)

lemma pte_switch_is_pde_gfx12:
  "snd (decode_pte_switch 12 mn raw) = of_bool (\<not> bit raw 63)"
  by (simp add: decode_pte_switch_def Let_def flag_bit0 bit_drop_bit_eq)

lemma pte_switch_is_pde_gfx9_11:
  "mj = 9 \<or> mj = 10 \<or> mj = 11 \<Longrightarrow> snd (decode_pte_switch mj mn raw) = of_bool (bit raw 56)"
  by (auto simp: decode_pte_switch_def Let_def flag_bit0 bit_drop_bit_eq)

lemma pte_switch_flags_gfx12:
  "pte_pte (fst (decode_pte_switch 12 mn raw)) = of_bool (bit raw 63)"
  "pte_valid (fst (decode_pte_switch 12 mn raw)) = of_bool (bit raw 0)"
  "pte_further (fst (decode_pte_switch 12 mn raw)) = 0"
  by (simp_all add: decode_pte_switch_def Let_def pte_common_def pte_zero_def flag_bit0 bit_drop_bit_eq)

lemma pte_switch_flags_gfx9_11:
  assumes "mj = 9 \<or> mj = 10 \<or> mj = 11"
  shows "pte_pte (fst (decode_pte_switch mj mn raw)) = 0"
  "pte_valid (fst (decode_pte_switch mj mn raw)) = of_bool (bit raw 0)"
  "pte_further (fst (decode_pte_switch mj mn raw)) = of_bool (bit raw 56)"
  using assms
  by (auto simp: decode_pte_switch_def Let_def pte_common_def pte_zero_def flag_bit0 bit_drop_bit_eq)

lemma decode_pte_fields_sel:
  "pte_pte (decode_pte_fields mj mn raw) = pte_pte (fst (decode_pte_switch mj mn raw))"
  "pte_valid (decode_pte_fields mj mn raw) = pte_valid (fst (decode_pte_switch mj mn raw))"
  "pte_further (decode_pte_fields mj mn raw) = pte_further (fst (decode_pte_switch mj mn raw))"
  "pte_page_base_addr (decode_pte_fields mj mn raw) =
     (if snd (decode_pte_switch mj mn raw) \<noteq> 0 then raw AND 0xFFFFFFFFFFC0 else raw AND 0xFFFFFFFFF000)"
  by (simp_all add: decode_pte_fields_def split: prod.splits)

text \<open>
  Claim C3. The continuation flag of a leaf entry has opposite polarity on GFX12. The PTE
  decoder masks the address as a directory pointer (\<open>raw & 0xFFFFFFFFFFC0\<close>) on GFX12
  exactly when bit 63 is clear, and on GFX9-11 exactly when the \<open>further\<close> flag, bit 56,
  is set; otherwise it uses the 4 KiB page mask \<open>raw & 0xFFFFFFFFF000\<close>. The translation
  engine walks the entry as a PDE on GFX12 exactly when bit 63 is clear and the entry is
  valid, and below GFX12 exactly when bit 56 is set and the entry is valid, whatever
  bit 63 holds there.
\<close>

theorem gfx12_pte_polarity:
  assumes ip: "find_ip_block asic ''gfx'' (options_vm_partition asic) = Some ip"
    and gen: "maj ip \<in> {9, 10, 11, 12}"
  shows "pte_page_base_addr (fst (umr_decode_pte_entry asic raw)) =
           (if maj ip = 12
            then (if \<not> bit raw 63 then raw AND 0xFFFFFFFFFFC0 else raw AND 0xFFFFFFFFF000)
            else (if bit raw 56 then raw AND 0xFFFFFFFFFFC0 else raw AND 0xFFFFFFFFF000))
       \<and> pte_is_pde_of (maj ip) (fst (umr_decode_pte_entry asic raw)) =
           (if maj ip \<ge> 12 then \<not> bit raw 63 \<and> bit raw 0 else bit raw 56 \<and> bit raw 0)"
proof -
  have eq: "fst (umr_decode_pte_entry asic raw) = decode_pte_fields (maj ip) (minor ip) raw"
    by (simp add: umr_decode_pte_entry_def ip)
  show ?thesis
  proof (cases "maj ip = 12")
    case True
    then show ?thesis
      unfolding eq
      by (simp add: decode_pte_fields_sel pte_switch_is_pde_gfx12 pte_switch_flags_gfx12
          pte_is_pde_of_def)
  next
    case False
    with gen have g: "maj ip = 9 \<or> maj ip = 10 \<or> maj ip = 11" by simp
    then have lt: "\<not> maj ip \<ge> 12" by auto
    show ?thesis
      unfolding eq using False lt
      by (simp add: decode_pte_fields_sel pte_switch_is_pde_gfx9_11 [OF g]
          pte_switch_flags_gfx9_11 [OF g] pte_is_pde_of_def)
  qed
qed

theorem gfx12_pte_polarity_witness:
  "find_ip_block (gfx_asic 12 0) ''gfx'' (options_vm_partition (gfx_asic 12 0)) = Some \<lparr> maj = 12, minor = 0 \<rparr>
   \<and> maj \<lparr> maj = 12, minor = 0 \<rparr> \<in> {9, 10, 11, 12}
   \<and> pte_page_base_addr (fst (umr_decode_pte_entry (gfx_asic 12 0) 0x0100000000345FC1)) = 0x345FC0
   \<and> pte_is_pde_of 12 (fst (umr_decode_pte_entry (gfx_asic 12 0) 0x0100000000345FC1))"
proof -
  have h: "find_ip_block (gfx_asic 12 0) ''gfx'' (options_vm_partition (gfx_asic 12 0)) = Some \<lparr> maj = 12, minor = 0 \<rparr>"
    by (simp add: gfx_asic_def)
  have g: "maj \<lparr> maj = 12, minor = 0 \<rparr> \<in> {9, 10, 11, 12}" by simp
  have b: "\<not> bit (0x0100000000345FC1 :: u64) 63" "bit (0x0100000000345FC1 :: u64) 0"
    by (simp_all add: bit_iff_odd_drop_bit drop_bit_eq_div)
  have v: "(0x0100000000345FC1 :: u64) AND 0xFFFFFFFFFFC0 = 0x345FC0" by simp
  show ?thesis
    using gfx12_pte_polarity [OF h g, of "0x0100000000345FC1"] h b v by simp
qed

section \<open>Properties of the directory index computation\<close>

lemma log2_loop_bits:
  "unat s < 2 ^ k \<Longrightarrow> (k = 0 \<or> 2 ^ (k - 1) \<le> unat s) \<Longrightarrow>
   log2_loop s n = n + of_nat k"
proof (induction k arbitrary: s n)
  case 0
  then have "s = 0" by (simp add: unat_eq_0)
  then show ?case by simp
next
  case (Suc k)
  from Suc.prems have lo: "2 ^ k \<le> unat s" by simp
  then have "0 < unat s" by (meson less_le_trans zero_less_numeral zero_less_power)
  then have pos: "0 < s" by (simp add: word_less_nat_alt)
  have u: "unat (drop_bit 1 s) = unat s div 2" by (simp add: drop_bit_eq_div unat_div)
  have hi: "unat (drop_bit 1 s) < 2 ^ k" using Suc.prems(1) unfolding u by simp
  have lo': "k = 0 \<or> 2 ^ (k - 1) \<le> unat (drop_bit 1 s)"
  proof (cases k)
    case 0 then show ?thesis by simp
  next
    case (Suc j)
    with lo have "2 * 2 ^ j \<le> unat s" by simp
    then have "2 ^ j \<le> unat s div 2" by simp
    with Suc show ?thesis unfolding u by simp
  qed
  have "log2_loop s n = log2_loop (drop_bit 1 s) (n + 1)" using pos by simp
  also have "\<dots> = (n + 1) + of_nat k" by (rule Suc.IH [OF hi lo'])
  finally show ?case by simp
qed

lemma page_table_addr_aligned: "4096 dvd unat (page_table_addr lo32 hi32)"
proof -
  have "take_bit 12 (page_table_addr lo32 hi32) = 0"
    by (rule bit_eqI) (auto simp: page_table_addr_def bit_simps)
  then have "unat (page_table_addr lo32 hi32) mod 2 ^ 12 = 0"
    by (metis take_bit_nat_eq_self_iff unat_eq_0 unsigned_take_bit_eq take_bit_eq_mod)
  then show ?thesis by (simp add: dvd_eq_mod_eq_0)
qed

lemma log2_vm_size_ceil:
  fixes s e :: u64
  assumes le: "s \<le> e" and as: "4096 dvd unat s" and ae: "4096 dvd unat e"
  shows "\<exists>k. log2_vm_size s e = of_nat k \<and> k \<le> 64 \<and> 12 \<le> k
           \<and> unat e - unat s + 4096 \<le> 2 ^ k \<and> 2 ^ k < 2 * (unat e - unat s + 4096)"
proof -
  let ?d = "e - s"
  have ud: "unat ?d = unat e - unat s" using le by (simp add: unat_sub)
  have les: "unat s \<le> unat e" using le by (simp add: word_le_nat_alt)
  have dvd: "4096 dvd unat ?d" unfolding ud using as ae les by (simp add: dvd_diff_nat)
  have lt: "unat ?d < 2 ^ 64" using unsigned_less [of ?d, where 'a = nat] by simp
  show ?thesis
  proof (cases "?d > 0xFFFFFFFFFFFFFFFF - 4096")
    case True
    then have "unat ?d > 18446744073709547519" by (simp add: word_less_nat_alt)
    with dvd lt have "unat ?d = 18446744073709547520" by (elim dvdE) simp
    then have "unat e - unat s + 4096 = 2 ^ 64" unfolding ud [symmetric] by simp
    moreover have "log2_vm_size s e = of_nat 64" using True by (simp add: log2_vm_size_def)
    ultimately show ?thesis by (intro exI [of _ 64]) simp
  next
    case False
    then have small: "unat ?d \<le> 18446744073709547519" by (simp add: word_less_nat_alt not_less word_le_nat_alt)
    have usz: "unat (?d + 4096) = unat ?d + 4096"
      using small by (simp add: unat_word_ariths)
    define m where "m = unat ?d + 4095"
    have um: "unat (?d + 4096 - 1) = m"
    proof -
      have "?d + 4096 - 1 = ?d + 4095" by simp
      moreover have "unat (?d + 4095) = unat ?d + 4095"
        using small by (simp add: unat_word_ariths)
      ultimately show ?thesis by (simp only: m_def)
    qed
    have m1: "1 \<le> m" by (simp add: m_def)
    from ex_power_ivl1 [of 2 m] m1 obtain j where j: "2 ^ j \<le> m" "m < 2 ^ (j + 1)" by auto
    have mlt: "m < 2 ^ 64" using small by (simp add: m_def)
    have j64: "j < 64"
    proof (rule ccontr)
      assume "\<not> j < 64"
      then have "64 \<le> j" by simp
      then have "(2::nat) ^ 64 \<le> 2 ^ j" by (rule power_increasing) simp
      with j(1) mlt show False by linarith
    qed
    have j11: "11 \<le> j"
    proof (rule ccontr)
      assume "\<not> 11 \<le> j"
      then have "j + 1 \<le> 11" by simp
      then have "(2::nat) ^ (j + 1) \<le> 2 ^ 11" by (rule power_increasing) simp
      with j(2) have "m < 2 ^ 11" by linarith
      then have "m < 2048" by simp
      then show False by (simp add: m_def)
    qed
    have nle1: "\<not> (?d + 4096 \<le> 1)" using usz by (simp add: word_le_nat_alt)
    have "log2_vm_size s e = log2_loop (?d + 4096 - 1) 0"
      using False nle1 by (simp add: log2_vm_size_def Let_def)
    also have "\<dots> = 0 + of_nat (j + 1)"
      by (rule log2_loop_bits) (use j um in simp_all)
    finally have r: "log2_vm_size s e = of_nat (j + 1)" by simp
    have span: "unat e - unat s + 4096 = m + 1" by (simp add: m_def ud)
    show ?thesis
      by (intro exI [of _ "j + 1"]) (use r j j64 j11 span in auto)
  qed
qed


lemma sint_u32_small: "- (2 ^ 31) \<le> t \<Longrightarrow> t < 2 ^ 31 \<Longrightarrow> sint (word_of_int t :: u32) = t"
  by (simp add: sint_sbintrunc' signed_take_bit_int_eq_self)

lemma ucast_u64_u32_wi: "(ucast (word_of_int t :: u64) :: u32) = word_of_int t"
  by (rule ucast_down_wi) (simp add: is_down)

lemma u64_to_int_small: "k < 2 ^ 31 \<Longrightarrow> u64_to_int (of_nat k) = int k"
proof -
  assume k: "k < 2 ^ 31"
  have "u64_to_int (word_of_int (int k)) = sint (word_of_int (int k) :: u32)"
    unfolding u64_to_int_def ucast_u64_u32_wi ..
  also have "\<dots> = int k" by (rule sint_u32_small) (use k in simp_all)
  finally show ?thesis by simp
qed

lemma top_pdb_bits_formula:
  assumes d: "1 \<le> depth"
    and lo: "- (2 ^ 31) \<le> tvb - 9 * (depth - 1) - (int (unat bs) + 21)"
    and hi: "tvb - 9 * (depth - 1) - (int (unat bs) + 21) < 2 ^ 31"
  shows "top_pdb_bits_of tvb depth bs = tvb - 9 * (depth - 1) - (int (unat bs) + 21)"
proof -
  define t where "t = tvb - 9 * (depth - 1) - (int (unat bs) + 21)"
  have "(word_of_int (tvb - 9 * (depth - 1)) :: u64) - (bs + 21) = word_of_int t"
    by (simp add: t_def)
  then have "top_pdb_bits_of tvb depth bs = sint (word_of_int t :: u32)"
    using d by (simp add: top_pdb_bits_of_def u64_to_int_def ucast_u64_u32_wi)
  also have "\<dots> = t" by (rule sint_u32_small) (use lo hi in \<open>simp_all only: t_def\<close>)
  finally show ?thesis by (simp only: t_def)
qed

lemma shr_bound:
  fixes a :: u64
  assumes "unat a < 2 ^ (n + t)"
  shows "unat (drop_bit n a) < 2 ^ t"
proof -
  have "unat (drop_bit n a) = unat a div 2 ^ n"
    unfolding unat_drop_bit_eq by (simp add: drop_bit_eq_div)
  moreover have "unat a div 2 ^ n < 2 ^ t"
    using assms by (simp add: less_mult_imp_div_less power_add mult.commute)
  ultimately show ?thesis by simp
qed

lemma and_511_bound: "unat ((x :: u64) AND 511) < 2 ^ 9"
proof -
  have "x AND 511 \<le> 511" by (rule word_and_le1)
  then have "unat (x AND 511) \<le> 511" by (simp add: word_le_nat_alt)
  then show ?thesis by simp
qed

lemma nat_split_sum: "0 \<le> t \<Longrightarrow> t \<le> int k \<Longrightarrow> nat (int k - t) + nat t = k"
  by arith

lemma top_bits_range:
  fixes a b c :: int
  assumes "0 \<le> b" "a \<le> 64" "1 \<le> c"
  shows "a - 9 * (c - 1) - (b + 21) \<le> 64" "a - 9 * (c - 1) - (b + 21) \<le> a"
  using assms by arith+

lemma take_bit_unat_self:
  fixes w :: u64
  assumes "unat w < 2 ^ n"
  shows "take_bit n w = w"
  using assms by (simp add: word_unat_eq_iff unsigned_take_bit_eq take_bit_nat_eq_self)

lemma and_511_take_bit: "(x :: u64) AND 511 = take_bit 9 x"
  by (simp add: take_bit_eq_mask mask_eq_exp_minus_1)

lemma lower_level_index:
  assumes "cd \<noteq> depth"
  shows "pde_index tvb tpb depth cd a
           = take_bit 9 (drop_bit (nat ((tvb - tpb) - (depth - cd) * 9)) a)"
  using assms
  by (simp add: pde_index_def pde_amount_to_shift_def shr64_def Let_def and_511_take_bit)

text \<open>
  Claim C7. With the start and end addresses taken from their registers, a span of
  \<open>end - start + 4096\<close> bytes (the end address names the last page), a depth of at
  least 1, and a block size that leaves room for the levels and keeps every shift below
  64 bits, \<open>total_vm_bits\<close> is the ceiling of the binary logarithm of the span and the
  width computed for the top directory is
  \<open>total_vm_bits - 9 * (depth - 1) - (block_size + 21)\<close>. For every address that passes
  the range check, the selector of the top level is the field of that width that ends at
  bit \<open>total_vm_bits\<close> of the address relative to the start: it is the address shifted
  right by \<open>9 * (depth - 1) + block_size + 21\<close>, and no bit above the field is set. The
  width is not larger than needed: the last byte of the span has a top-level selector
  that needs all of its bits. The selector of a level below the top, with
  \<open>current_depth = cd\<close>, is the 9-bit field of the address that starts at bit
  \<open>9 * (cd - 1) + block_size + 21\<close>, one of 512 entries.
\<close>

theorem top_pdb_index_width:
  fixes s e va bs :: u64
  assumes s: "s = page_table_addr slo shi" and e: "e = page_table_addr elo ehi"
    and le: "s \<le> e"
    and depth: "1 \<le> depth"
    and fit: "9 * (depth - 1) + int (unat bs) + 21 \<le> total_vm_bits_of s e"
    and shift: "9 * (depth - 1) + int (unat bs) + 21 < 64"
    and inr: "s \<le> va" "va \<le> e + 0xFFF"
  shows "let tvb = total_vm_bits_of s e;
             top = top_pdb_bits_of tvb depth bs;
             span = unat e - unat s + 4096
         in 0 \<le> tvb \<and> span \<le> 2 ^ nat tvb \<and> 2 ^ nat tvb < 2 * span
          \<and> top = tvb - 9 * (depth - 1) - (int (unat bs) + 21)
          \<and> pde_index tvb top depth depth (va - s)
                = drop_bit (nat (9 * (depth - 1) + int (unat bs) + 21)) (va - s)
          \<and> pde_index tvb top depth depth (va - s)
                = take_bit (nat top) (drop_bit (nat (tvb - top)) (va - s))
          \<and> unat (pde_index tvb top depth depth (va - s)) < 2 ^ nat top
          \<and> (0 < top \<longrightarrow> 2 ^ (nat top - 1) \<le> unat (pde_index tvb top depth depth (e + 0xFFF - s)))
          \<and> (\<forall>cd. 1 \<le> cd \<and> cd < depth \<longrightarrow>
                pde_index tvb top depth cd (va - s)
                  = take_bit 9 (drop_bit (nat (9 * (cd - 1) + int (unat bs) + 21)) (va - s)))
          \<and> (\<forall>cd. cd \<noteq> depth \<longrightarrow> unat (pde_index tvb top depth cd (va - s)) < 2 ^ 9)"
proof -
  have as: "4096 dvd unat s" and ae: "4096 dvd unat e"
    unfolding s e by (rule page_table_addr_aligned)+
  from log2_vm_size_ceil [OF le as ae] obtain k where
    k: "log2_vm_size s e = of_nat k" "k \<le> 64" "12 \<le> k"
       "unat e - unat s + 4096 \<le> 2 ^ k" "2 ^ k < 2 * (unat e - unat s + 4096)"
    by blast
  have tot: "total_vm_bits_of s e = int k"
    unfolding total_vm_bits_of_def k(1) by (rule u64_to_int_small) (use k(2) in simp)
  define t where "t = int k - 9 * (depth - 1) - (int (unat bs) + 21)"
  define sh where "sh = 9 * (depth - 1) + int (unat bs) + 21"
  have t0: "0 \<le> t" using fit unfolding tot t_def by simp
  have k64: "int k \<le> 64" using k(2) by simp
  have ub: "0 \<le> int (unat bs)" by simp
  have t64: "t \<le> 64" and tk: "t \<le> int k"
    unfolding t_def using top_bits_range [OF ub k64 depth] by blast+
  have top: "top_pdb_bits_of (int k) depth bs = t"
    unfolding t_def
    by (rule top_pdb_bits_formula [OF depth]) (use t0 t64 in \<open>simp_all add: t_def\<close>)
  have ksh: "int k - t = sh" by (simp add: t_def sh_def)
  have sh0: "0 \<le> sh" using depth by (simp add: sh_def)
  have shift': "pde_amount_to_shift (int k) t depth depth = sh"
    by (simp add: pde_amount_to_shift_def ksh)
  have kt: "nat sh + nat t = k" using nat_split_sum [OF t0 tk] unfolding ksh .
  have ue: "unat (e + 0xFFF) = unat e + 4095"
  proof -
    have "unat e < 2 ^ 64" using unsigned_less [of e, where 'a = nat] by simp
    with ae have "unat e \<le> 18446744073709547520" by (elim dvdE) simp
    then show ?thesis by (simp add: unat_word_ariths)
  qed
  have les: "unat s \<le> unat e" using le by (simp add: word_le_nat_alt)
  have top_eq: "\<And>a. pde_index (int k) t depth depth a = drop_bit (nat sh) a"
    by (simp add: pde_index_def shift' shr64_def Let_def)
  have bound: "\<And>a :: u64. unat a < unat e - unat s + 4096 \<Longrightarrow> unat (drop_bit (nat sh) a) < 2 ^ nat t"
  proof -
    fix a :: u64
    assume "unat a < unat e - unat s + 4096"
    with k(4) have "unat a < 2 ^ k" by simp
    then have "unat a < 2 ^ (nat sh + nat t)" unfolding kt .
    then show "unat (drop_bit (nat sh) a) < 2 ^ nat t" by (rule shr_bound)
  qed
  have ua: "unat (va - s) = unat va - unat s" using inr(1) by (simp add: unat_sub)
  have "unat va \<le> unat e + 4095" using inr(2) ue by (simp add: word_le_nat_alt)
  moreover have "unat s \<le> unat va" using inr(1) by (simp add: word_le_nat_alt)
  ultimately have "unat (va - s) < unat e - unat s + 4096" using les unfolding ua by simp
  then have idx: "unat (drop_bit (nat sh) (va - s)) < 2 ^ nat t" by (rule bound)
  have field: "drop_bit (nat sh) (va - s) = take_bit (nat t) (drop_bit (nat sh) (va - s))"
    using take_bit_unat_self [OF idx] by simp
  have last_byte: "0 < t \<Longrightarrow> 2 ^ (nat t - 1) \<le> unat (drop_bit (nat sh) (e + 0xFFF - s))"
  proof -
    assume tpos: "0 < t"
    have sle: "s \<le> e + 0xFFF" using les ue by (simp add: word_le_nat_alt)
    have um: "unat (e + 0xFFF - s) = unat e - unat s + 4095"
      using sle les ue by (simp add: unat_sub)
    have "2 ^ k < 2 * (unat e - unat s + 4096)" by (rule k(5))
    moreover have "0 < k" using k(3) by simp
    then have "(2::nat) ^ k = 2 * 2 ^ (k - 1)" by (cases k) simp_all
    ultimately have "2 ^ (k - 1) < unat e - unat s + 4096" by simp
    then have lo: "2 ^ (k - 1) \<le> unat (e + 0xFFF - s)" unfolding um by simp
    have "k - 1 = nat sh + (nat t - 1)" using kt tpos by simp
    then have "(2::nat) ^ (k - 1) = 2 ^ nat sh * 2 ^ (nat t - 1)" by (simp add: power_add)
    with lo have "2 ^ nat sh * 2 ^ (nat t - 1) \<le> unat (e + 0xFFF - s)" by simp
    then have "2 ^ (nat t - 1) \<le> unat (e + 0xFFF - s) div 2 ^ nat sh"
      by (simp add: less_eq_div_iff_mult_less_eq mult.commute)
    moreover have "unat (drop_bit (nat sh) (e + 0xFFF - s)) = unat (e + 0xFFF - s) div 2 ^ nat sh"
      unfolding unat_drop_bit_eq by (simp add: drop_bit_eq_div)
    ultimately show ?thesis by simp
  qed
  have lower: "\<And>cd. 1 \<le> cd \<and> cd < depth \<Longrightarrow>
      pde_index (int k) t depth cd (va - s)
        = take_bit 9 (drop_bit (nat (9 * (cd - 1) + int (unat bs) + 21)) (va - s))"
  proof -
    fix cd :: int
    assume c: "1 \<le> cd \<and> cd < depth"
    then have ne: "cd \<noteq> depth" by simp
    have eq: "(int k - t) - (depth - cd) * 9 = 9 * (cd - 1) + int (unat bs) + 21"
      unfolding ksh sh_def by simp
    show "pde_index (int k) t depth cd (va - s)
        = take_bit 9 (drop_bit (nat (9 * (cd - 1) + int (unat bs) + 21)) (va - s))"
      by (simp only: lower_level_index [OF ne] eq)
  qed
  have low: "\<And>cd. cd \<noteq> depth \<Longrightarrow> unat (pde_index (int k) t depth cd (va - s)) < 2 ^ 9"
    unfolding pde_index_def Let_def using and_511_bound by simp
  have c1: "pde_index (int k) t depth depth (va - s) = drop_bit (nat sh) (va - s)"
    by (rule top_eq)
  have c2: "pde_index (int k) t depth depth (va - s)
              = take_bit (nat t) (drop_bit (nat (int k - t)) (va - s))"
    unfolding ksh top_eq using field .
  have c3: "unat (pde_index (int k) t depth depth (va - s)) < 2 ^ nat t"
    unfolding top_eq by (rule idx)
  have c4: "0 < t \<longrightarrow> 2 ^ (nat t - 1) \<le> unat (pde_index (int k) t depth depth (e + 0xFFF - s))"
    unfolding top_eq using last_byte by blast
  have t_eq: "t = int k - 9 * (depth - 1) - (int (unat bs) + 21)" by (rule t_def)
  show ?thesis
    unfolding tot Let_def top
    using k(4,5) c1 c2 c3 c4 lower low t_eq unfolding sh_def by simp
qed

theorem top_pdb_index_width_witness:
  "(0 :: u64) = page_table_addr 0 0 \<and> (0xFFFFFFFFF000 :: u64) = page_table_addr 0xFFFFFFFF 0xF
   \<and> (0 :: u64) \<le> 0xFFFFFFFFF000 \<and> (1 :: int) \<le> 3
   \<and> 9 * (3 - 1) + int (unat (0 :: u64)) + 21 \<le> total_vm_bits_of 0 0xFFFFFFFFF000
   \<and> 9 * (3 - 1) + int (unat (0 :: u64)) + 21 < (64 :: int)
   \<and> (0 :: u64) \<le> 0x123456789000 \<and> (0x123456789000 :: u64) \<le> 0xFFFFFFFFF000 + 0xFFF
   \<and> total_vm_bits_of 0 0xFFFFFFFFF000 = 48
   \<and> top_pdb_bits_of 48 3 0 = 9
   \<and> pde_index 48 9 3 3 (0x123456789000 - 0) = 0x24
   \<and> pde_index 48 9 3 3 (0xFFFFFFFFF000 + 0xFFF - 0) = 0x1FF
   \<and> pde_index 48 9 3 2 (0x123456789000 - 0) = 0xD1
   \<and> pde_index 48 9 3 1 (0x123456789000 - 0) = 0xB3"
proof -
  have s: "(0 :: u64) = page_table_addr 0 0" by (simp add: page_table_addr_def)
  have e: "(0xFFFFFFFFF000 :: u64) = page_table_addr 0xFFFFFFFF 0xF" by code_simp
  have tvb: "total_vm_bits_of 0 0xFFFFFFFFF000 = 48" by code_simp
  have le: "(0 :: u64) \<le> 0xFFFFFFFFF000" by simp
  have d: "(1 :: int) \<le> 3" by simp
  have fit: "9 * (3 - 1) + int (unat (0 :: u64)) + 21 \<le> total_vm_bits_of 0 0xFFFFFFFFF000"
    unfolding tvb by simp
  have sh: "9 * (3 - 1) + int (unat (0 :: u64)) + 21 < (64 :: int)" by simp
  have i1: "(0 :: u64) \<le> 0x123456789000" by simp
  have i2: "(0x123456789000 :: u64) \<le> 0xFFFFFFFFF000 + 0xFFF" by simp
  have top: "top_pdb_bits_of 48 3 0 = 9" by code_simp
  have v1: "drop_bit 39 (0x123456789000 :: u64) = 0x24" by code_simp
  have v2: "take_bit 9 (drop_bit 30 (0x123456789000 :: u64)) = 0xD1" by code_simp
  have v3: "take_bit 9 (drop_bit 21 (0x123456789000 :: u64)) = 0xB3" by code_simp
  have v4: "pde_index 48 9 3 3 (0xFFFFFFFFF000 + 0xFFF - 0) = 0x1FF" by code_simp
  have all: "(\<forall>cd. 1 \<le> cd \<and> cd < (3 :: int) \<longrightarrow> P cd) \<Longrightarrow> P 2 \<and> P 1" for P by simp
  show ?thesis
    using top_pdb_index_width [OF s e le d fit sh i1 i2] s e tvb top v1 v2 v3 v4
    by (auto simp: Let_def dest!: all)
qed

section \<open>Order of the user-interface callbacks\<close>

lemma extends_inner_refl [simp]: "extends_inner evs evs"
  by (simp add: extends_inner_def)

lemma extends_inner_trans:
  "extends_inner a b \<Longrightarrow> extends_inner b c \<Longrightarrow> extends_inner a c"
  by (auto simp: extends_inner_def)

lemma extends_inner_snoc:
  "inner_event e \<Longrightarrow> extends_inner a b \<Longrightarrow> extends_inner a (b @ [e])"
  by (auto simp: extends_inner_def)

lemma extends_inner_append:
  "list_all inner_event es \<Longrightarrow> extends_inner a b \<Longrightarrow> extends_inner a (b @ es)"
  by (auto simp: extends_inner_def)

lemma inner_event_simps [simp]:
  "inner_event (Add_field a v n x r z)"
  "inner_event (Err_msg m)"
  "inner_event (Start_opcode a v p opc so nw nm h ws)"
  "inner_event (Add_shader a v pg)"
  "inner_event (Add_data a v ba bv ty et)"
  "inner_event (Unhandled a v)"
  by (simp_all add: inner_event_def)

lemma hsa_fetch_word_ok:
  assumes "hsa_node_ok stream" "off \<le> 30"
  shows "\<exists>w bad' evs'. hsa_fetch_word stream (bad, evs) off = Some (w, (bad', evs'))
           \<and> extends_inner evs evs'"
  using assms
  by (auto simp: hsa_fetch_word_def hsa_node_ok_def intro!: extends_inner_snoc)


lemma hsa_fetch_word_ext:
  "hsa_fetch_word stream (bad, evs) off = Some (w, (bad', evs')) \<Longrightarrow> extends_inner evs evs'"
  by (auto simp: hsa_fetch_word_def intro!: extends_inner_snoc split: if_splits)

lemma hsa_fetch_word_total:
  "hsa_node_ok stream \<Longrightarrow> off \<le> 30 \<Longrightarrow> hsa_fetch_word stream st off \<noteq> None"
  by (cases st) (auto simp: hsa_fetch_word_def hsa_node_ok_def)

lemma hsa_emit_field_ext:
  assumes "hsa_emit_field stream a v fld (i, (bad, evs)) = Some (i', (bad', evs'))"
  shows "i' = i + hsa_field_width fld \<and> extends_inner evs evs'"
proof (cases fld)
  case (H16 n)
  with assms show ?thesis
    by (auto simp: hsa_emit_field_def split: option.splits prod.splits
        dest!: hsa_fetch_word_ext intro!: extends_inner_snoc)
next
  case (H16m n)
  with assms show ?thesis
    by (auto simp: hsa_emit_field_def split: option.splits prod.splits
        dest!: hsa_fetch_word_ext intro!: extends_inner_snoc)
next
  case (H32 n)
  with assms show ?thesis
    by (auto simp: hsa_emit_field_def split: option.splits prod.splits
        dest!: hsa_fetch_word_ext intro!: extends_inner_snoc
        intro: extends_inner_trans)
next
  case (H64 n)
  with assms show ?thesis
    by (auto simp: hsa_emit_field_def split: option.splits prod.splits
        dest!: hsa_fetch_word_ext intro!: extends_inner_snoc
        intro: extends_inner_trans)
qed

lemma hsa_emit_field_total:
  assumes "hsa_node_ok stream" "i + hsa_field_width fld \<le> 31"
  shows "hsa_emit_field stream a v fld (i, st) \<noteq> None"
  using assms
  by (cases fld)
     (auto simp: hsa_emit_field_def hsa_fetch_word_total split: option.splits prod.splits)


lemma hsa_emit_fields_ok:
  assumes "hsa_node_ok stream" "i + sum_list (map hsa_field_width flds) \<le> 31"
  shows "\<exists>i' bad' evs'. hsa_emit_fields stream a v flds (i, (bad, evs)) = Some (i', (bad', evs'))
           \<and> extends_inner evs evs'"
  using assms
proof (induction flds arbitrary: i bad evs)
  case Nil
  then show ?case by simp
next
  case (Cons fld flds)
  from Cons.prems have w: "i + hsa_field_width fld \<le> 31" by simp
  from hsa_emit_field_total [OF Cons.prems(1) w, of a v "(bad, evs)"]
  obtain i1 bad1 evs1 where
    s1: "hsa_emit_field stream a v fld (i, (bad, evs)) = Some (i1, (bad1, evs1))"
    by (cases "hsa_emit_field stream a v fld (i, (bad, evs))") auto
  from hsa_emit_field_ext [OF s1] have i1: "i1 = i + hsa_field_width fld"
    and e1: "extends_inner evs evs1" by simp_all
  have "i1 + sum_list (map hsa_field_width flds) \<le> 31" using Cons.prems(2) i1 by simp
  from Cons.IH [OF Cons.prems(1) this, of bad1 evs1]
  obtain i' bad' evs' where
    s2: "hsa_emit_fields stream a v flds (i1, (bad1, evs1)) = Some (i', (bad', evs'))"
    and e2: "extends_inner evs1 evs'" by blast
  show ?case using s1 s2 extends_inner_trans [OF e1 e2] by simp
qed

lemma hsa_fetch_u64_ok:
  assumes "hsa_node_ok stream" "off + 3 \<le> 30"
  shows "\<exists>t bad' evs'. hsa_fetch_u64 stream (bad, evs) off = Some (t, (bad', evs'))
           \<and> extends_inner evs evs'"
proof -
  from assms have o: "off \<le> 30" "off + 1 \<le> 30" "off + 2 \<le> 30" "off + 3 \<le> 30" by simp_all
  from hsa_fetch_word_ok [OF assms(1) o(1)] obtain w0 b0 e0 where
    f0: "hsa_fetch_word stream (bad, evs) off = Some (w0, (b0, e0))" and x0: "extends_inner evs e0"
    by blast
  from hsa_fetch_word_ok [OF assms(1) o(2)] obtain w1 b1 e1 where
    f1: "hsa_fetch_word stream (b0, e0) (off + 1) = Some (w1, (b1, e1))" and x1: "extends_inner e0 e1"
    by blast
  from hsa_fetch_word_ok [OF assms(1) o(3)] obtain w2 b2 e2 where
    f2: "hsa_fetch_word stream (b1, e1) (off + 2) = Some (w2, (b2, e2))" and x2: "extends_inner e1 e2"
    by blast
  from hsa_fetch_word_ok [OF assms(1) o(4)] obtain w3 b3 e3 where
    f3: "hsa_fetch_word stream (b2, e2) (off + 3) = Some (w3, (b3, e3))" and x3: "extends_inner e2 e3"
    by blast
  have "extends_inner evs e3" using x0 x1 x2 x3 by (blast intro: extends_inner_trans)
  then show ?thesis
    unfolding hsa_fetch_u64_def f0 f1 f2 f3 option.case prod.case by simp
qed

lemma hsa_table_widths:
  "sum_list (map hsa_field_width hsa_kernel_dispatch_fields) = 31"
  "sum_list (map hsa_field_width hsa_agent_dispatch_fields) = 31"
  "sum_list (map hsa_field_width hsa_barrier_fields) = 31"
  by (simp_all add: hsa_kernel_dispatch_fields_def hsa_agent_dispatch_fields_def
      hsa_barrier_fields_def)

lemma hsa_fields_from_0:
  assumes "hsa_node_ok stream" "sum_list (map hsa_field_width flds) = 31"
  shows "\<exists>bad' evs'. map_option snd (hsa_emit_fields stream a v flds (0, (bad, evs)))
             = Some (bad', evs') \<and> extends_inner evs evs'"
proof -
  have "0 + sum_list (map hsa_field_width flds) \<le> 31" using assms(2) by simp
  from hsa_emit_fields_ok [OF assms(1) this, of a v bad evs] show ?thesis by auto
qed

lemma hsa_decode_switch_ok:
  assumes ok: "hsa_node_ok stream"
  shows "\<exists>bad' evs'. hsa_decode_switch asic stream a v (bad, evs) = Some (bad', evs')
           \<and> extends_inner evs evs'"
proof (cases "hsa_type stream = 1")
  case t1: True
  show ?thesis
  proof (cases "aql_heuristic asic \<and> user_queue_active asic")
    case False
    then show ?thesis using t1
      by (auto simp: hsa_decode_switch_def hsa_start_opcode_def Let_def intro!: extends_inner_snoc)
  next
    case h: True
    from hsa_fetch_u64_ok [OF ok, of 15 bad evs] obtain t b1 e1 where
      f1: "hsa_fetch_u64 stream (bad, evs) 15 = Some (t, (b1, e1))" and x1: "extends_inner evs e1"
      by auto
    from hsa_fetch_u64_ok [OF ok, of 19 b1 e1] obtain t' b2 e2 where
      f2: "hsa_fetch_u64 stream (b1, e1) 19 = Some (t', (b2, e2))" and x2: "extends_inner e1 e2"
      by auto
    have x12: "extends_inner evs e2" using x1 x2 by (rule extends_inner_trans)
    let ?so = "hsa_start_opcode stream (a - 2) v ''HSA_KERNEL_DISPATCH (heuristic)''"
    from hsa_fields_from_0 [OF ok hsa_table_widths(1), of a v b2 "e2 @ [?so]"]
    obtain b3 e3 where
      f3: "map_option snd (hsa_emit_fields stream a v hsa_kernel_dispatch_fields (0, (b2, e2 @ [?so])))
             = Some (b3, e3)" and x3: "extends_inner (e2 @ [?so]) e3" by blast
    have "extends_inner evs (e2 @ [?so])"
      using x12 by (auto simp: hsa_start_opcode_def intro!: extends_inner_snoc)
    then have x13: "extends_inner evs e3" using x3 by (rule extends_inner_trans)
    show ?thesis
      using t1 h f1 f2 f3 x1 x12 x13
      by (auto simp: hsa_decode_switch_def hsa_start_opcode_def Let_def intro!: extends_inner_snoc)
  qed
next
  case nt1: False
  show ?thesis
    using nt1 hsa_fields_from_0 [OF ok hsa_table_widths(1), of a v bad evs]
      hsa_fields_from_0 [OF ok hsa_table_widths(2), of a v bad evs]
      hsa_fields_from_0 [OF ok hsa_table_widths(3), of a v bad evs]
    by (auto simp: hsa_decode_switch_def Let_def)
qed

lemma hsa_opcodes_loop_ok:
  assumes "list_all hsa_node_ok stream"
  shows "\<exists>evs' rest. hsa_opcodes_loop asic stream a v opcodes evs = Some (evs', rest)
           \<and> extends_inner evs evs'"
  using assms
proof (induction stream arbitrary: a opcodes evs)
  case Nil
  then show ?case by simp
next
  case (Cons n nxt)
  then have ok: "hsa_node_ok n" and oks: "list_all hsa_node_ok nxt" by simp_all
  show ?case
  proof (cases "opcodes = 0 \<or> hsa_nwords n = 0")
    case True
    then show ?thesis by auto
  next
    case False
    define evs1 where "evs1 = (if hsa_type n \<noteq> 1
        then evs @ [hsa_start_opcode n a v (hsa_opcode_name (hsa_type n))] else evs)"
    have x1: "extends_inner evs evs1"
      by (auto simp: evs1_def hsa_start_opcode_def intro!: extends_inner_snoc)
    from hsa_decode_switch_ok [OF ok, of asic "a + 2" v "hsa_invalid n" evs1]
    obtain bad2 evs2 where
      d: "hsa_decode_switch asic n (a + 2) v (hsa_invalid n, evs1) = Some (bad2, evs2)"
      and x2: "extends_inner evs1 evs2" by blast
    have x12: "extends_inner evs evs2" using x1 x2 by (rule extends_inner_trans)
    show ?thesis
    proof (cases bad2)
      case True
      then show ?thesis using False d x12 by (simp add: evs1_def Let_def)
    next
      case nb: False
      define evs3 where "evs3 = (if hsa_shader n \<noteq> [] then
           evs2 @ map (Add_shader (a + 2 - 2) v) (hsa_shader n)
             @ (if hsa_kernarg_data n \<noteq> 0
                then [Add_data (a + 2 - 2) v (hsa_kernarg_data n) (hsa_kernarg_size n)
                        ''UMR_DATABLOCK_AQL_KERNARG'' 0]
                else [])
         else evs2)"
      have "list_all inner_event (map (Add_shader (a + 2 - 2) v) (hsa_shader n)
              @ (if hsa_kernarg_data n \<noteq> 0
                 then [Add_data (a + 2 - 2) v (hsa_kernarg_data n) (hsa_kernarg_size n)
                         ''UMR_DATABLOCK_AQL_KERNARG'' 0]
                 else []))"
        by (auto simp: list_all_iff)
      then have x3: "extends_inner evs evs3"
        unfolding evs3_def using x12 by (auto intro: extends_inner_append)
      from Cons.IH [OF oks, of "a + 2 + ucast (2 * (hsa_nwords n - 1))" "opcodes - 1" evs3]
      obtain evs' rest where
        l: "hsa_opcodes_loop asic nxt (a + 2 + ucast (2 * (hsa_nwords n - 1))) v (opcodes - 1) evs3
              = Some (evs', rest)" and x4: "extends_inner evs3 evs'" by blast
      have "extends_inner evs evs'" using x3 x4 by (rule extends_inner_trans)
      then show ?thesis
        using False d nb l by (simp add: evs1_def evs3_def Let_def)
    qed
  qed
qed

lemma ui_bracketed_intro:
  assumes "is_start_ib e" "extends_inner [e] evs"
  shows "ui_bracketed (evs @ [Done])"
proof -
  from assms(2) obtain new where "evs = e # new" "list_all inner_event new"
    by (auto simp: extends_inner_def)
  then show ?thesis using assms(1) by (simp add: ui_bracketed_def)
qed

lemma hsa_decode_opcodes_bracketed:
  assumes "list_all hsa_node_ok stream"
  shows "\<exists>evs rest. umr_hsa_decode_stream_opcodes asic stream a v opcodes = Some (evs, rest)
           \<and> ui_bracketed evs"
proof -
  from hsa_opcodes_loop_ok [OF assms, of asic a v opcodes "[Start_ib a v 0 0 0 0]"]
  obtain evs' rest where
    l: "hsa_opcodes_loop asic stream a v opcodes [Start_ib a v 0 0 0 0] = Some (evs', rest)"
    and x: "extends_inner [Start_ib a v 0 0 0 0] evs'" by blast
  have "ui_bracketed (evs' @ [Done])" by (rule ui_bracketed_intro [OF _ x]) simp
  then show ?thesis by (simp add: umr_hsa_decode_stream_opcodes_def l)
qed


lemma umsch_fetch_word_ok:
  assumes "umsch_node_ok stream"
  shows "\<exists>w bad' evs'. umsch_fetch_word stream (bad, evs) off = Some (w, (bad', evs'))
           \<and> extends_inner evs evs'"
proof (cases "um_nwords stream \<le> off")
  case True
  then show ?thesis
    by (auto simp: umsch_fetch_word_def intro!: extends_inner_snoc)
next
  case False
  then have "unat off < unat (um_nwords stream)" by (simp add: word_less_nat_alt not_le)
  with assms have "unat off < length (um_words stream)" by (simp add: umsch_node_ok_def)
  with False show ?thesis by (simp add: umsch_fetch_word_def)
qed

lemma umsch_emit_field_ok:
  assumes ok: "umsch_node_ok stream"
  shows "\<exists>m' bad' evs'. umsch_emit_field stream a v fld (m, (bad, evs)) = Some (m', (bad', evs'))
           \<and> extends_inner evs evs'"
proof (cases fld)
  case (U32 name)
  from umsch_fetch_word_ok [OF ok, of bad evs "drop_bit 2 m - 1"] obtain w0 b0 e0 where
    f0: "umsch_fetch_word stream (bad, evs) (drop_bit 2 m - 1) = Some (w0, (b0, e0))"
    and x0: "extends_inner evs e0" by blast
  show ?thesis
    unfolding umsch_emit_field_def U32 prod.case umsch_field.case f0 option.case
    using x0 by (auto intro!: extends_inner_snoc)
next
  case (U64 name)
  from umsch_fetch_word_ok [OF ok, of bad evs "drop_bit 2 m - 1"] obtain w0 b0 e0 where
    f0: "umsch_fetch_word stream (bad, evs) (drop_bit 2 m - 1) = Some (w0, (b0, e0))"
    and x0: "extends_inner evs e0" by blast
  from umsch_fetch_word_ok [OF ok, of b0 e0 "drop_bit 2 m"] obtain w1 b1 e1 where
    f1: "umsch_fetch_word stream (b0, e0) (drop_bit 2 m) = Some (w1, (b1, e1))"
    and x1: "extends_inner e0 e1" by blast
  have "extends_inner evs e1" using x0 x1 by (rule extends_inner_trans)
  then show ?thesis
    unfolding umsch_emit_field_def U64 prod.case umsch_field.case f0 f1 option.case
    by (auto intro!: extends_inner_snoc)
next
  case (UBits name lo hi)
  from umsch_fetch_word_ok [OF ok, of bad evs "drop_bit 2 m - 1"] obtain w0 b0 e0 where
    f0: "umsch_fetch_word stream (bad, evs) (drop_bit 2 m - 1) = Some (w0, (b0, e0))"
    and x0: "extends_inner evs e0" by blast
  show ?thesis
    unfolding umsch_emit_field_def UBits prod.case umsch_field.case f0 option.case
    using x0 by (auto intro!: extends_inner_snoc)
next
  case UAdv
  then show ?thesis by (simp add: umsch_emit_field_def)
qed

lemma umsch_emit_fields_ok:
  assumes ok: "umsch_node_ok stream"
  shows "\<exists>m' bad' evs'. umsch_emit_fields stream a v flds (m, (bad, evs)) = Some (m', (bad', evs'))
           \<and> extends_inner evs evs'"
proof (induction flds arbitrary: m bad evs)
  case Nil
  then show ?case by simp
next
  case (Cons fld flds)
  from umsch_emit_field_ok [OF ok, of a v fld m bad evs] obtain m1 b1 e1 where
    s1: "umsch_emit_field stream a v fld (m, (bad, evs)) = Some (m1, (b1, e1))"
    and x1: "extends_inner evs e1" by blast
  from Cons.IH [of m1 b1 e1] obtain m' b' e' where
    s2: "umsch_emit_fields stream a v flds (m1, (b1, e1)) = Some (m', (b', e'))"
    and x2: "extends_inner e1 e'" by blast
  show ?case using s1 s2 extends_inner_trans [OF x1 x2] by simp
qed

lemma umsch_opcodes_loop_ok:
  assumes "list_all umsch_node_ok stream"
  shows "\<exists>evs' rest. umsch_opcodes_loop hu stream a v opcodes evs = Some (evs', rest)
           \<and> extends_inner evs evs'"
  using assms
proof (induction stream arbitrary: a opcodes evs)
  case Nil
  then show ?case by simp
next
  case (Cons n nxt)
  then have ok: "umsch_node_ok n" and oks: "list_all umsch_node_ok nxt" by simp_all
  show ?case
  proof (cases "opcodes = 0")
    case True
    then show ?thesis by simp
  next
    case nz: False
    show ?thesis
    proof (cases "um_type n = 1")
      case False
      then show ?thesis using nz by (auto intro!: extends_inner_snoc)
    next
      case t1: True
      define r where "r = (case umsch_opcode_table (um_opcode n) of
                Some (name, flds) \<Rightarrow>
                  map_option snd
                    (umsch_emit_fields n a v flds
                       (4, (um_invalid n, evs @ [umsch_start_opcode n a v name])))
              | None \<Rightarrow>
                  Some (um_invalid n,
                    if um_nwords n = 0 \<and> um_header_dw n = 0
                    then evs @ [umsch_start_opcode n a v ''UMSCH_UNK'']
                    else if hu then evs @ [Unhandled a v]
                    else evs))"
      have "\<exists>bad1 evs1. r = Some (bad1, evs1) \<and> extends_inner evs evs1"
      proof (cases "umsch_opcode_table (um_opcode n)")
        case None
        then show ?thesis
          by (auto simp: r_def umsch_start_opcode_def intro!: extends_inner_snoc)
      next
        case (Some nf)
        obtain name flds where nf: "nf = (name, flds)" by (cases nf)
        let ?e0 = "evs @ [umsch_start_opcode n a v name]"
        have x0: "extends_inner evs ?e0"
          by (auto simp: umsch_start_opcode_def intro!: extends_inner_snoc)
        from umsch_emit_fields_ok [OF ok, of a v flds 4 "um_invalid n" ?e0]
        obtain m' b' e' where
          s: "umsch_emit_fields n a v flds (4, (um_invalid n, ?e0)) = Some (m', (b', e'))"
          and x: "extends_inner ?e0 e'" by blast
        show ?thesis
          using Some nf s extends_inner_trans [OF x0 x] by (simp add: r_def)
      qed
      then obtain bad1 evs1 where r: "r = Some (bad1, evs1)" and x1: "extends_inner evs evs1"
        by blast
      show ?thesis
      proof (cases bad1)
        case True
        then show ?thesis
          using nz t1 r x1 unfolding r_def by simp
      next
        case False
        from Cons.IH [OF oks, of "a + ucast (um_nwords n * 4)" "opcodes - 1" evs1]
        obtain evs' rest where
          l: "umsch_opcodes_loop hu nxt (a + ucast (um_nwords n * 4)) v (opcodes - 1) evs1
               = Some (evs', rest)" and x2: "extends_inner evs1 evs'" by blast
        show ?thesis
          using nz t1 r False l extends_inner_trans [OF x1 x2] unfolding r_def by simp
      qed
    qed
  qed
qed

lemma umsch_decode_opcodes_bracketed:
  assumes "list_all umsch_node_ok stream"
  shows "\<exists>evs rest. umr_umsch_decode_stream_opcodes hu stream a v fa fv opcodes = Some (evs, rest)
           \<and> ui_bracketed evs"
proof -
  define e where "e = Start_ib a v fa (ucast fv) (foldl (\<lambda>n os. n + um_nwords os) 0 stream) 0"
  from umsch_opcodes_loop_ok [OF assms, of hu a v opcodes "[e]"]
  obtain evs' rest where
    l: "umsch_opcodes_loop hu stream a v opcodes [e] = Some (evs', rest)"
    and x: "extends_inner [e] evs'" by blast
  have "ui_bracketed (evs' @ [Done])" by (rule ui_bracketed_intro [OF _ x]) (simp add: e_def)
  then show ?thesis
    using l by (simp add: umr_umsch_decode_stream_opcodes_def e_def Let_def)
qed

text \<open>
  Claim C9. For a stream of packets as the stream decoders build them, the HSA and the
  UMSCH decoder of opcodes both return, and the calls they make on the user interface
  start with \<open>start_ib\<close> and end with \<open>done\<close>, with neither of the two in between:
  \<open>start_ib\<close> comes before every per-opcode and per-field call and \<open>done\<close> is called
  exactly once, also when the loop ends early on an invalid packet, on a packet of
  unknown type or on the opcode budget.
\<close>

theorem decode_opcodes_start_ib_done:
  assumes "list_all hsa_node_ok hstream" and "list_all umsch_node_ok ustream"
  shows "(\<exists>evs rest. umr_hsa_decode_stream_opcodes asic hstream ha hv hopcodes = Some (evs, rest)
             \<and> ui_bracketed evs)
       \<and> (\<exists>evs rest. umr_umsch_decode_stream_opcodes hu ustream a v fa fv opcodes = Some (evs, rest)
             \<and> ui_bracketed evs)"
  using hsa_decode_opcodes_bracketed [OF assms(1)] umsch_decode_opcodes_bracketed [OF assms(2)]
  by blast

theorem decode_opcodes_start_ib_done_witness:
  "list_all hsa_node_ok [hsa_zero_packet 2, (hsa_zero_packet 4)\<lparr> hsa_invalid := True \<rparr>, hsa_zero_packet 3]
   \<and> list_all umsch_node_ok [umsch_packet 1 4 [1, 2, 3, 4], umsch_packet 1 4 [7, 8], umsch_packet 1 4 [1, 2, 3, 4]]
   \<and> (\<exists>evs rest. umr_hsa_decode_stream_opcodes
          \<lparr> aql_heuristic = False, user_queue_active = False, hqd_base_addr = 0 \<rparr>
          [hsa_zero_packet 2, (hsa_zero_packet 4)\<lparr> hsa_invalid := True \<rparr>, hsa_zero_packet 3]
          0x2000 0 10 = Some (evs, rest) \<and> ui_bracketed evs)
   \<and> (\<exists>evs rest. umr_umsch_decode_stream_opcodes True
          [umsch_packet 1 4 [1, 2, 3, 4], umsch_packet 1 4 [7, 8], umsch_packet 1 4 [1, 2, 3, 4]]
          0x1000 3 0 0 10 = Some (evs, rest) \<and> ui_bracketed evs)"
proof -
  have h: "list_all hsa_node_ok
      [hsa_zero_packet 2, (hsa_zero_packet 4)\<lparr> hsa_invalid := True \<rparr>, hsa_zero_packet 3]"
    by (simp add: hsa_node_ok_def hsa_zero_packet_def)
  have u: "list_all umsch_node_ok
      [umsch_packet 1 4 [1, 2, 3, 4], umsch_packet 1 4 [7, 8], umsch_packet 1 4 [1, 2, 3, 4]]"
    by (simp add: umsch_node_ok_def umsch_packet_def)
  show ?thesis
    using decode_opcodes_start_ib_done [OF h u,
        where asic = "\<lparr> aql_heuristic = False, user_queue_active = False, hqd_base_addr = 0 \<rparr>"
          and ha = "0x2000" and hv = 0 and hopcodes = 10
          and hu = True and a = "0x1000" and v = 3 and fa = 0 and fv = 0 and opcodes = 10]
      h u
    by simp
qed

section \<open>Properties of the PM4 reader\<close>

subsection \<open>Shader discovery\<close>

text \<open>
  The search of the tracker by index agrees with the first match in list order, and it
  reads only names and values.
\<close>

lemma find_index_from_view:
  "find_index_from (\<lambda>p. Q (rp_regname p)) regs i =
     (case find_index_from (\<lambda>nv. Q (fst nv)) (reg_view regs) i of None \<Rightarrow> None | Some j \<Rightarrow> Some j)"
  by (induction regs arbitrary: i) (auto simp: reg_view_def split: option.splits)

lemma find_index_from_Some:
  "find_index_from P xs i = Some j \<Longrightarrow> i \<le> j \<and> j - i < length xs \<and> find P xs = Some (xs ! (j - i))"
proof (induction xs arbitrary: i)
  case Nil
  then show ?case by simp
next
  case (Cons x xs)
  show ?case
  proof (cases "P x")
    case True
    with Cons.prems show ?thesis by simp
  next
    case False
    with Cons.prems have "find_index_from P xs (Suc i) = Some j" by simp
    from Cons.IH [OF this] have "Suc i \<le> j" "j - Suc i < length xs"
      "find P xs = Some (xs ! (j - Suc i))" by simp_all
    moreover from \<open>Suc i \<le> j\<close> have "j - i = Suc (j - Suc i)" by simp
    ultimately show ?thesis using False by simp
  qed
qed

lemma find_index_from_None:
  "find_index_from P xs i = None \<Longrightarrow> find P xs = None"
  by (induction xs arbitrary: i) (auto split: if_splits)

lemma find_partial_Some:
  assumes "umr_shader_find_partial_regpair regs name = Some j"
  shows "find (\<lambda>nv. strstr (fst nv) name) (reg_view regs) = Some (rp_regname (regs ! j), rp_value (regs ! j))"
proof -
  from assms have "find_index_from (\<lambda>nv. strstr (fst nv) name) (reg_view regs) 0 = Some j"
    unfolding umr_shader_find_partial_regpair_def
    by (subst (asm) find_index_from_view [where Q = "\<lambda>n. strstr n name"]) (simp split: option.splits)
  from find_index_from_Some [OF this]
  have "j < length (reg_view regs)" "find (\<lambda>nv. strstr (fst nv) name) (reg_view regs) = Some (reg_view regs ! j)"
    by simp_all
  then show ?thesis by (simp add: reg_view_def)
qed

lemma find_partial_None:
  assumes "umr_shader_find_partial_regpair regs name = None"
  shows "find (\<lambda>nv. strstr (fst nv) name) (reg_view regs) = None"
proof -
  from assms have "find_index_from (\<lambda>nv. strstr (fst nv) name) (reg_view regs) 0 = None"
    unfolding umr_shader_find_partial_regpair_def
    by (subst (asm) find_index_from_view [where Q = "\<lambda>n. strstr n name"]) (simp split: option.splits)
  then show ?thesis by (rule find_index_from_None)
qed

lemma reg_view_used:
  "reg_view (regs[i := (regs ! i)\<lparr> rp_used := b \<rparr>]) = reg_view regs"
proof (cases "i < length regs")
  case True
  have "reg_view (regs[i := (regs ! i)\<lparr> rp_used := b \<rparr>]) = (reg_view regs)[i := reg_view regs ! i]"
    using True by (simp add: reg_view_def map_update)
  then show ?thesis by simp
next
  case False
  then have "regs[i := (regs ! i)\<lparr> rp_used := b \<rparr>] = regs" by (simp add: list_update_beyond)
  then show ?thesis by simp
qed

lemma shader_pair_address_view:
  "reg_view regs' = reg_view regs \<Longrightarrow> shader_pair_address regs' h l = shader_pair_address regs h l"
  by (simp add: shader_pair_address_def)

lemma row_shader_view:
  "reg_view regs' = reg_view regs \<Longrightarrow> row_shader asic vmid regs' row = row_shader asic vmid regs row"
  by (simp add: row_shader_def shader_pair_address_def split: prod.splits)

lemma add_shader_regs:
  "fst (snd (add_shader asic (ps, regs, evs) vmid addr vm_partition ty)) = regs"
  unfolding add_shader_def Let_def prod.case by simp

lemma add_shader_keys:
  "map pgm_key (pm_shader (fst (add_shader asic (ps, regs, evs) vmid addr vm_partition ty))) =
     map pgm_key (pm_shader ps) @ [(ty, vmid, addr)]"
  unfolding add_shader_def Let_def prod.case by (simp add: pgm_key_def)

lemma process_shader_type_skip:
  assumes "row_shader asic vmid regs row = []"
    and "process_shader_type asic vm_partition vmid (ps, regs, evs) row = (ps, regs, evs)"
  shows "reg_view (fst (snd (process_shader_type asic vm_partition vmid (ps, regs, evs) row))) = reg_view regs \<and>
         map pgm_key (pm_shader (fst (process_shader_type asic vm_partition vmid (ps, regs, evs) row))) =
           map pgm_key (pm_shader ps) @ row_shader asic vmid regs row"
  by (simp only: assms fst_conv snd_conv append_Nil2 simp_thms)

lemma process_shader_type_row:
  "reg_view (fst (snd (process_shader_type asic vm_partition vmid (ps, regs, evs) row))) = reg_view regs \<and>
   map pgm_key (pm_shader (fst (process_shader_type asic vm_partition vmid (ps, regs, evs) row))) =
     map pgm_key (pm_shader ps) @ row_shader asic vmid regs row"
proof -
  obtain hn ln ty where row: "row = (hn, ln, ty)" by (cases row) auto
  show ?thesis
  proof (cases "shader_enabled asic ty")
    case False
    have "row_shader asic vmid regs row = []"
      unfolding row row_shader_def prod.case using False by simp
    moreover have "process_shader_type asic vm_partition vmid (ps, regs, evs) row = (ps, regs, evs)"
      unfolding row process_shader_type_def prod.case using False by simp
    ultimately show ?thesis by (rule process_shader_type_skip)
  next
    case en: True
    show ?thesis
    proof (cases "umr_shader_find_partial_regpair regs hn")
      case None
      have "row_shader asic vmid regs row = []"
        unfolding row row_shader_def prod.case shader_pair_address_def find_partial_None [OF None]
        using en by simp
      moreover have "process_shader_type asic vm_partition vmid (ps, regs, evs) row = (ps, regs, evs)"
        unfolding row process_shader_type_def prod.case None using en by simp
      ultimately show ?thesis by (rule process_shader_type_skip)
    next
      case (Some hi)
      note hi = this
      show ?thesis
      proof (cases "umr_shader_find_partial_regpair regs ln")
        case None
        have "row_shader asic vmid regs row = []"
          unfolding row row_shader_def prod.case shader_pair_address_def
            find_partial_None [OF None] find_partial_Some [OF hi]
          using en by simp
        moreover have "process_shader_type asic vm_partition vmid (ps, regs, evs) row = (ps, regs, evs)"
          unfolding row process_shader_type_def prod.case None hi using en by simp
        ultimately show ?thesis by (rule process_shader_type_skip)
      next
        case (Some lo)
        note lo = this
        let ?nz = "rp_value (regs ! hi) \<noteq> 0 \<or> rp_value (regs ! lo) \<noteq> 0"
        let ?addr = "push_bit 40 (ucast (rp_value (regs ! hi))) OR push_bit 8 (ucast (rp_value (regs ! lo))) :: u64"
        have spec: "row_shader asic vmid regs row = (if ?nz then [(ty, vmid, ?addr)] else [])"
          unfolding row row_shader_def prod.case shader_pair_address_def
            find_partial_Some [OF hi] find_partial_Some [OF lo]
          using en by simp
        show ?thesis
        proof (cases ?nz)
          case False
          have "row_shader asic vmid regs row = []"
            unfolding spec using False by simp
          moreover have "process_shader_type asic vm_partition vmid (ps, regs, evs) row = (ps, regs, evs)"
            unfolding row process_shader_type_def prod.case hi lo using en False by simp
          ultimately show ?thesis by (rule process_shader_type_skip)
        next
          case True
          let ?regs1 = "regs[hi := (regs ! hi)\<lparr> rp_used := True \<rparr>]"
          let ?regs2 = "?regs1[lo := (?regs1 ! lo)\<lparr> rp_used := True \<rparr>]"
          have code: "process_shader_type asic vm_partition vmid (ps, regs, evs) row =
                  add_shader asic (ps, ?regs2, evs) vmid ?addr vm_partition ty"
            unfolding row process_shader_type_def prod.case hi lo Let_def using en True by simp
          have s: "row_shader asic vmid regs row = [(ty, vmid, ?addr)]"
            unfolding spec using True by simp
          have "reg_view ?regs2 = reg_view regs" by (simp only: reg_view_used)
          then show ?thesis
            by (simp only: code s add_shader_regs add_shader_keys simp_thms)
        qed
      qed
    qed
  qed
qed

lemma process_shaders_rows:
  "reg_view (fst (snd (foldl (process_shader_type asic vm_partition vmid) (ps, regs, evs) rows))) = reg_view regs \<and>
   map pgm_key (pm_shader (fst (foldl (process_shader_type asic vm_partition vmid) (ps, regs, evs) rows))) =
     map pgm_key (pm_shader ps) @ concat (map (row_shader asic vmid regs) rows)"
proof (induction rows arbitrary: ps regs evs)
  case Nil
  show ?case by simp
next
  case (Cons row rows)
  obtain ps1 regs1 evs1 where
    step: "process_shader_type asic vm_partition vmid (ps, regs, evs) row = (ps1, regs1, evs1)"
    by (cases "process_shader_type asic vm_partition vmid (ps, regs, evs) row") auto
  from process_shader_type_row [of asic vm_partition vmid ps regs evs row]
  have v1: "reg_view regs1 = reg_view regs"
    and k1: "map pgm_key (pm_shader ps1) = map pgm_key (pm_shader ps) @ row_shader asic vmid regs row"
    by (simp_all only: step fst_conv snd_conv)
  have "row_shader asic vmid regs1 = row_shader asic vmid regs"
    by (rule ext) (rule row_shader_view [OF v1])
  then have rows: "map (row_shader asic vmid regs1) rows = map (row_shader asic vmid regs) rows"
    by simp
  have unroll: "foldl (process_shader_type asic vm_partition vmid) (ps, regs, evs) (row # rows) =
      foldl (process_shader_type asic vm_partition vmid) (ps1, regs1, evs1) rows"
    by (simp only: foldl_Cons step)
  show ?case
    unfolding unroll using Cons.IH [of ps1 regs1 evs1]
    by (simp only: v1 k1 rows list.map concat.simps append_assoc simp_thms)
qed

lemma process_shaders_discovered:
  "reg_view (fst (snd (process_shaders asic vm_partition vmid (ps, regs, evs) compute_jobs))) = reg_view regs \<and>
   map pgm_key (pm_shader (fst (process_shaders asic vm_partition vmid (ps, regs, evs) compute_jobs))) =
     map pgm_key (pm_shader ps) @ discovered_shaders asic vmid regs compute_jobs"
  unfolding process_shaders_def discovered_shaders_def by (rule process_shaders_rows)

text \<open>
  Claim C1. A dispatch opcode (\<open>DISPATCH_DIRECT\<close>, \<open>DISPATCH_INDIRECT\<close> and the mesh
  dispatches) or a draw opcode leaves \<open>parse_pm4\<close> with no child stream and with the
  names and values of the tracked registers as they were, and it registers, behind the
  programs the packet already has, one program for each enabled row of the table whose
  high and low register are both found in the tracker (a name matches when it contains
  the name of the row; the first match counts) and have values that are not both zero,
  at the address \<open>(hi << 40) | (lo << 8)\<close>: row 0 for a dispatch, rows 1 to 6 for a draw.
  One of the two values may be zero. Whether shaders are followed decides only the size
  recorded for the program.
\<close>

theorem shader_discovery:
  assumes "pm_opcode ps \<in> dispatch_opcodes \<union> draw_opcodes"
  shows "\<exists>ps' regs' evs'.
           parse_pm4 decode asic vm_partition vmid ib_addr (ps, regs, evs) = Inr ((ps', regs', evs'), []) \<and>
           reg_view regs' = reg_view regs \<and>
           map pgm_key (pm_shader ps') =
             map pgm_key (pm_shader ps) @
               discovered_shaders asic vmid regs (pm_opcode ps \<in> dispatch_opcodes)"
proof -
  let ?c = "pm_opcode ps \<in> dispatch_opcodes"
  obtain ps' regs' evs' where
    r: "process_shaders asic vm_partition vmid (ps, regs, evs) ?c = (ps', regs', evs')"
    by (cases "process_shaders asic vm_partition vmid (ps, regs, evs) ?c") auto
  have "parse_pm4 decode asic vm_partition vmid ib_addr (ps, regs, evs) =
          Inr (process_shaders asic vm_partition vmid (ps, regs, evs) ?c, [])"
  proof (cases ?c)
    case True
    then show ?thesis
      unfolding parse_pm4_def Let_def fst_conv dispatch_opcodes_def by simp
  next
    case False
    with assms have "pm_opcode ps \<in> draw_opcodes" by simp
    with False show ?thesis
      unfolding parse_pm4_def Let_def fst_conv dispatch_opcodes_def draw_opcodes_def by simp
  qed
  then have p: "parse_pm4 decode asic vm_partition vmid ib_addr (ps, regs, evs) = Inr ((ps', regs', evs'), [])"
    by (simp only: r)
  from process_shaders_discovered [of asic vm_partition vmid ps regs evs ?c]
  have "reg_view regs' = reg_view regs"
    and "map pgm_key (pm_shader ps') = map pgm_key (pm_shader ps) @ discovered_shaders asic vmid regs ?c"
    by (simp_all only: r fst_conv snd_conv)
  with p show ?thesis by blast
qed

theorem shader_discovery_witness:
  "pm_opcode (pm4_zero_packet\<lparr> pm_opcode := 0x15 \<rparr>) \<in> dispatch_opcodes \<union> draw_opcodes
   \<and> (\<exists>ps' regs' evs'.
         parse_pm4 no_child sample_pm4_asic (- 1) 3 0x104
           (pm4_zero_packet\<lparr> pm_opcode := 0x15 \<rparr>,
            [reg_write ''gfx900.mmCOMPUTE_PGM_LO'' 0x1000, reg_write ''gfx900.mmCOMPUTE_PGM_HI'' 2],
            []) = Inr ((ps', regs', evs'), []) \<and>
         map pgm_key (pm_shader ps') = [(UMR_SHADER_COMPUTE, 3, 0x20000100000)])"
proof -
  have o: "pm_opcode (pm4_zero_packet\<lparr> pm_opcode := 0x15 \<rparr>) \<in> dispatch_opcodes \<union> draw_opcodes"
    by (simp add: dispatch_opcodes_def)
  have d: "discovered_shaders sample_pm4_asic 3
             [reg_write ''gfx900.mmCOMPUTE_PGM_LO'' 0x1000, reg_write ''gfx900.mmCOMPUTE_PGM_HI'' 2]
             (pm_opcode (pm4_zero_packet\<lparr> pm_opcode := 0x15 \<rparr>) \<in> dispatch_opcodes)
           = [(UMR_SHADER_COMPUTE, 3, 0x20000100000)]"
    by (simp add: dispatch_opcodes_def discovered_shaders_def shader_types_def row_shader_def
          shader_enabled_def sample_pm4_asic_def shader_pair_address_def reg_view_def
          reg_write_def)
  have z: "pm_shader (pm4_zero_packet\<lparr> pm_opcode := 0x15 \<rparr>) = []"
    by (simp add: pm4_zero_packet_def)
  show ?thesis
    using shader_discovery [OF o, of no_child sample_pm4_asic "- 1" 3 "0x104"
        "[reg_write ''gfx900.mmCOMPUTE_PGM_LO'' 0x1000, reg_write ''gfx900.mmCOMPUTE_PGM_HI'' 2]" "[]"]
      o
    unfolding d z by auto
qed

text \<open>
  A \<open>SET_SH_REG\<close> packet that writes \<open>COMPUTE_PGM_LO = 0x10\<close> and
  \<open>COMPUTE_PGM_HI = 0\<close>, followed by a \<open>DISPATCH_DIRECT\<close>: the dispatch registers a
  compute shader at \<open>0x1000\<close>, although the high half is zero.
\<close>

theorem shader_registered_with_zero_half_counterexample:
  "stream_shaders
     (umr_pm4_decode_stream 4 sample_pm4_asic (- 1) 3 0x1000
        [0xC0027600, 0x20C, 0x10, 0, 0xC0001500, 0] None)
   = [[], [(UMR_SHADER_COMPUTE, 3, 0x1000)]]"
  by code_simp

subsection \<open>Packets that do not fit in the buffer\<close>

text \<open>
  A packet whose declared length is more than the words that remain ends the stream:
  nothing is added for it and nothing is printed.
\<close>

lemma pm4_partial_packet_dropped:
  assumes "of_nat (Suc (length payload)) < 1 + pm_n_words (pm4_header hdr ib_addr)"
  shows "pm4_decode_loop (Suc fuel) asic vm_partition vmid ib_addr (hdr # payload) uvd regs evs
           = Inr ([], regs, evs)"
  using assms by (simp add: Let_def)

lemma pm4_header_type2_wrap: "pm_n_words (pm4_header 0xBFFF0000 a) = 0xFFFFFFFF"
  by (simp add: pm4_header_def pm4_zero_packet_def Let_def drop_bit_eq_div)

text \<open>
  Claim C5. The check that drops a partial packet compares \<open>nwords\<close> with
  \<open>1 + n_words\<close> in 32 bits. A buffer of the single word \<open>0xBFFF0000\<close> is a header of
  type 2 whose count field is \<open>0x3FFF\<close>: \<open>n_words\<close> becomes 0 and is decremented to
  \<open>0xFFFFFFFF\<close>, \<open>1 + n_words\<close> wraps to 0, the check does not fire, and the copy of the
  payload reads \<open>0xFFFFFFFF\<close> words behind a buffer that has none. The packet is longer
  than what remains, and decoding does not stop at the last complete packet.
\<close>

theorem pm4_type2_length_wraps:
  "umr_pm4_decode_stream (Suc fuel) asic vm_partition vmid from_addr [0xBFFF0000] reg_head
     = Inl Out_of_bounds_read"
  by (simp add: umr_pm4_decode_stream_def pm4_header_type2_wrap Let_def word_less_nat_alt)

subsection \<open>The size of indirect buffers\<close>












section \<open>Properties of the access to GPU memory\<close>

subsection \<open>Alignment at the entry point\<close>

text \<open>The test \<open>x & 3\<close> is the test for a multiple of 4.\<close>

lemma and_3_dvd: "((x :: 'a::len word) AND 3 = 0) \<longleftrightarrow> 4 dvd unat x"
proof -
  have "x AND 3 = take_bit 2 x" by (simp add: take_bit_eq_mask mask_eq_exp_minus_1)
  moreover have "unat (take_bit 2 x) = unat x mod 4"
    by (simp only: unsigned_take_bit_eq) (simp add: take_bit_eq_mod)
  ultimately have "(x AND 3 = 0) \<longleftrightarrow> unat x mod 4 = 0"
    by (metis unat_eq_0)
  then show ?thesis by (simp add: dvd_eq_mod_eq_0)
qed

text \<open>
  Claim C10. A call of \<open>umr_access_vram\<close> whose address or size is not a multiple of 4,
  or whose buffer pointer is not 4-byte aligned, returns -1 whatever the hub, the VMID
  and the ASIC are. It prints one message through \<open>err_msg\<close> and does nothing else: no
  callback is called, no translation is started, and the memory, the caller's buffer,
  the user-queue state and the page-walk data are as before. The check of address and
  size comes before the check of the pointer.
\<close>

theorem access_vram_alignment:
  assumes "\<not> 4 dvd unat address \<or> \<not> 4 dvd unat size_bytes \<or> \<not> 4 dvd unat data"
  shows "umr_access_vram fuel asic io partn vmid address size_bytes data write_en =
           Inr (- 1, io\<lparr> io_log := io_log io @
                  [Ev_err_msg (if 4 dvd unat address \<and> 4 dvd unat size_bytes
                               then ''[BUG]: vram read destination is not 4-byte aligned''
                               else ''[ERROR]:  The address and size must be a multiple of 4 to access VRAM'')] \<rparr>)"
  using assms
  by (auto simp: umr_access_vram_def vram_misaligned_def io_emit_def Let_def and_3_dvd)

theorem access_vram_alignment_witness:
  "\<not> 4 dvd unat (0xF002 :: u64)
   \<and> call_summary (umr_access_vram 3 sample_vm_asic (sample_io [0, 0, 0, 0]) (- 1) 3 0xF002 4 0x1000 False)
       = Inr (- 1, sample_vram, [0, 0, 0, 0], [])"
  using access_vram_alignment [of "0xF002" 4 "0x1000" 3 sample_vm_asic "sample_io [0, 0, 0, 0]" "- 1" 3 False]
  by (simp add: call_summary_def sample_io_def)

subsection \<open>Addresses outside the span of the root page table\<close>

text \<open>
  Up to the range check \<open>umr_access_vram_ai\<close> only reads registers and prints: a call
  that gets there has left the memory and the caller's buffer alone.
\<close>

lemma io_quiet_refl: "io_quiet io io"
  by (simp add: io_quiet_def)

lemma io_quiet_emit:
  assumes "io_quiet io io'" and "filter is_memory_access evs = []"
  shows "io_quiet io (io_emit io' evs)"
  using assms by (auto simp: io_quiet_def io_emit_def)

lemma io_quiet_uq_va: "io_quiet io io' \<Longrightarrow> io_quiet io (io'\<lparr> io_uq_va := x \<rparr>)"
  by (simp add: io_quiet_def)

lemma io_quiet_vmdata: "io_quiet io io' \<Longrightarrow> io_quiet io (io'\<lparr> io_vmdata := x \<rparr>)"
  by (simp add: io_quiet_def)

lemma err_msgs_quiet: "filter is_memory_access (map Ev_err_msg msgs) = []"
  by (induction msgs) simp_all

lemmas io_quiet_intros = io_quiet_refl io_quiet_emit io_quiet_uq_va io_quiet_vmdata err_msgs_quiet

lemma vm_ai_registers_quiet:
  assumes "vm_ai_registers asic io partn vmid address = Continue (ip, v, h, vm, io')"
  shows "io_quiet io io'"
  using assms unfolding vm_ai_registers_def Let_def
  by (auto split: option.splits if_splits intro!: io_quiet_intros)

lemma pass_not_continue:
  "(case linear_passthrough fuel asic io a size_bytes dst write_en of
      Inl f \<Rightarrow> Inl f | Inr r \<Rightarrow> Inr (Returned r)) \<noteq> Inr (Continue x)"
  by (simp split: sum.splits)

lemma vm_ai_prefix_quiet:
  assumes "vm_ai_prefix fuel asic io partn vmid address size_bytes dst write_en
             = Inr (Continue (ip, v, vm, io'))"
  shows "io_quiet io io'"
proof (cases "vm_ai_registers asic io partn vmid address")
  case (Returned r)
  with assms show ?thesis by (simp add: vm_ai_prefix_def)
next
  case (Continue x)
  then obtain ip0 v0 hub vm0prefix regprefix vm0 io0 where
    r: "vm_ai_registers asic io partn vmid address = Continue (ip0, v0, (hub, vm0prefix, regprefix), vm0, io0)"
    by (cases x) auto
  have q0: "io_quiet io io0" by (rule vm_ai_registers_quiet [OF r])
  show ?thesis
    using assms q0 unfolding vm_ai_prefix_def r Let_def flow.case prod.case
    by (auto split: if_splits simp: pass_not_continue intro!: io_quiet_intros)
qed

text \<open>
  Claim C4. When a call of \<open>umr_access_vram_ai\<close> gets as far as the range check (the
  \<open>gfx\<close> block is found, the hub is known, and the address is not handed on as a
  physical address by the VMID 0 cases of the system access mode) with an address below
  \<open>page_table_start_addr\<close> or above \<open>page_table_end_addr + 0xFFF\<close>, it returns -1 after
  the message that the address is not in range. No page walk is started: no memory
  callback has been called, and the memory and the caller's buffer are as they were. The
  end address names the last page of the span, and the check lets the whole of that page
  through.
\<close>

theorem out_of_range_fails:
  assumes "vm_span (vm_ai_prefix fuel asic io partn vmid address size_bytes dst write_en)
             = Some (start_addr, end_addr)"
    and "address < start_addr \<or> address > end_addr + 0xFFF"
  shows "\<exists>io'. umr_access_vram_ai fuel asic io partn vmid address size_bytes dst write_en = Inr (- 1, io')
           \<and> io_quiet io io'
           \<and> last (io_log io') = Ev_vm_message
                 ''[ERROR]: Address is not in range of memory spanned by root page table of VM context''"
proof -
  from assms(1) obtain ip v vm io1 where
    p: "vm_ai_prefix fuel asic io partn vmid address size_bytes dst write_en = Inr (Continue (ip, v, vm, io1))"
    and s: "start_addr = vm_page_table_start_addr vm" and e: "end_addr = vm_page_table_end_addr vm"
    by (auto simp: vm_span_def split: sum.splits flow.splits)
  let ?msg = "Ev_vm_message
     ''[ERROR]: Address is not in range of memory spanned by root page table of VM context''"
  have "vm_ai_setup fuel asic io partn vmid address size_bytes dst write_en
          = Inr (Returned (- 1, io_emit io1 [?msg]))"
    using assms(2) unfolding vm_ai_setup_def p s e by simp
  then have "umr_access_vram_ai fuel asic io partn vmid address size_bytes dst write_en
          = Inr (- 1, io_emit io1 [?msg])"
    by (simp add: umr_access_vram_ai_def)
  moreover have "io_quiet io (io_emit io1 [?msg])"
    by (rule io_quiet_emit [OF vm_ai_prefix_quiet [OF p]]) simp
  moreover have "last (io_log (io_emit io1 [?msg])) = ?msg" by (simp add: io_emit_def)
  ultimately show ?thesis by blast
qed

theorem out_of_range_fails_witness:
  "vm_span (vm_ai_prefix 3 sample_vm_asic (sample_io [0, 0, 0, 0]) (- 1) 3 0x10000 4 0x1000 False)
     = Some (0, 0xF000)
   \<and> (0x10000 :: u64) > 0xF000 + 0xFFF
   \<and> (\<exists>io'. umr_access_vram_ai 3 sample_vm_asic (sample_io [0, 0, 0, 0]) (- 1) 3 0x10000 4 0x1000 False
               = Inr (- 1, io')
           \<and> io_quiet (sample_io [0, 0, 0, 0]) io'
           \<and> last (io_log io') = Ev_vm_message
                 ''[ERROR]: Address is not in range of memory spanned by root page table of VM context'')"
proof -
  have s: "vm_span (vm_ai_prefix 3 sample_vm_asic (sample_io [0, 0, 0, 0]) (- 1) 3 0x10000 4 0x1000 False)
     = Some (0, 0xF000)"
    by code_simp
  have c: "(0x10000 :: u64) < 0 \<or> (0x10000 :: u64) > 0xF000 + 0xFFF" by simp
  from out_of_range_fails [OF s c] s show ?thesis by simp
qed

text \<open>
  With the end address \<open>0xF000\<close>, the address \<open>0xF004\<close> lies behind the end address and
  is translated all the same: the PTE of the last page is read, then the word of the
  page, and the call returns 0 with the word in the caller's buffer.
\<close>

theorem address_beyond_end_is_translated_counterexample:
  "vm_span (vm_ai_prefix 3 sample_vm_asic (sample_io [0, 0, 0, 0]) (- 1) 3 0xF004 4 0x1000 False)
     = Some (0, 0xF000)
   \<and> call_summary (umr_access_vram_ai 3 sample_vm_asic (sample_io [0, 0, 0, 0]) (- 1) 3 0xF004 4 0x1000 False)
     = Inr (0, sample_vram, [0x44, 0x33, 0x22, 0x11],
            [Ev_access_linear_vram None 0x100078 8 False, Ev_access_linear_vram None 0x200004 4 False])"
  by code_simp

end
